(* ===== verification/Prelude.thy ===== *)
theory Prelude
  imports Complex_Main "HOL-Library.List_Lexorder" "HOL-Library.Char_ord"
begin

text \<open>
  Shared vocabulary of the model of \<^verbatim>\<open>src/app.py\<close>.
  Calendar dates are proleptic Gregorian day ordinals (Python's \<^verbatim>\<open>date.toordinal\<close>),
  so that date comparison is integer comparison and \<^verbatim>\<open>pd.date_range\<close> is \<open>[a..b]\<close>.
  A Flask \<^verbatim>\<open>request.args\<close> multi-dictionary is an association list: \<^verbatim>\<open>'k' in args\<close>
  is \<open>arg a k \<noteq> None\<close> and \<^verbatim>\<open>args['k']\<close> reads the first value, as \<open>map_of\<close> does.
  Python exceptions that escape a handler (Flask answers them with a server error)
  are the values of \<open>pyexc\<close>, on the \<open>Inl\<close> side of a sum.
\<close>

named_theorems model_defs "definitions unfolded to evaluate a concrete request"

type_synonym day = int
type_synonym query_args = "(string \<times> string) list"

datatype pyexc = TypeError | UnboundLocalError | ValueError | ZeroDivisionError

definition arg :: "query_args \<Rightarrow> string \<Rightarrow> string option" where
  "arg a k = map_of a k"

text \<open>Python truthiness of a variable that holds \<^verbatim>\<open>None\<close> or a string.\<close>

definition truthy :: "string option \<Rightarrow> bool" where
  "truthy s = (case s of None \<Rightarrow> False | Some x \<Rightarrow> x \<noteq> [])"

text \<open>
  pandas' \<^verbatim>\<open>Series.min()\<close> and \<^verbatim>\<open>Series.max()\<close> on a column without missing
  values: \<open>None\<close> (\<^verbatim>\<open>NaT\<close>/\<^verbatim>\<open>NaN\<close>) on an empty column.
\<close>

definition list_min :: "'a::linorder list \<Rightarrow> 'a option" where
  "list_min xs = (case xs of [] \<Rightarrow> None | x # xs' \<Rightarrow> Some (fold min xs' x))"

definition list_max :: "'a::linorder list \<Rightarrow> 'a option" where
  "list_max xs = (case xs of [] \<Rightarrow> None | x # xs' \<Rightarrow> Some (fold max xs' x))"

text \<open>Python's \<^verbatim>\<open>str(n)\<close> of a natural number.\<close>

fun nat_str :: "nat \<Rightarrow> string" where
  "nat_str n = (if n < 10 then [''0123456789'' ! n]
                else nat_str (n div 10) @ [''0123456789'' ! (n mod 10)])"

declare nat_str.simps [simp del]

text \<open>
  numpy's \<^verbatim>\<open>rint\<close>: the nearest integer, ties to the even one; with it,
  \<^verbatim>\<open>round(x, 3)\<close> on a \<^verbatim>\<open>numpy.float64\<close> (\<open>None\<close> is \<^verbatim>\<open>NaN\<close>,
  which rounds to itself).
\<close>

definition rint :: "real \<Rightarrow> int" where
  "rint x = (let f = \<lfloor>x\<rfloor>; r = x - of_int f in
     if r < 1 / 2 then f else if 1 / 2 < r then f + 1 else if even f then f else f + 1)"

definition round_dec :: "nat \<Rightarrow> real \<Rightarrow> real" where
  "round_dec n x = of_int (rint (x * 10 ^ n)) / 10 ^ n"

definition round3_val :: "real \<Rightarrow> real" where
  "round3_val x = round_dec 3 x"

definition round3 :: "real option \<Rightarrow> real option" where
  "round3 v = map_option round3_val v"

declare arg_def [model_defs] round_dec_def [model_defs] round3_val_def [model_defs] rint_def [model_defs] truthy_def [model_defs] list_min_def [model_defs]
  list_max_def [model_defs]

subsection \<open>Generic lemmas\<close>

lemma truthy_iff: "truthy s \<longleftrightarrow> (\<exists>x. s = Some x \<and> x \<noteq> [])"
  by (auto simp: truthy_def split: option.splits)

lemma truthy_simps [simp]: "truthy (Some x) \<longleftrightarrow> x \<noteq> []" "\<not> truthy None"
  by (simp_all add: truthy_def)

lemma arg_Nil [simp]: "arg [] k = None"
  by (simp add: arg_def)

lemma arg_Cons [simp]: "arg ((k', v) # a) k = (if k' = k then Some v else arg a k)"
  by (simp add: arg_def)

lemma fold_min_Min: "fold min xs x = Min (set (x # (xs::'a::linorder list)))"
  by (simp only: Min.set_eq_fold)

lemma fold_max_Max: "fold max xs x = Max (set (x # (xs::'a::linorder list)))"
  by (simp only: Max.set_eq_fold)

lemma fold_min_le: "y \<in> set (x # xs) \<Longrightarrow> fold min xs x \<le> (y::'a::linorder)"
  by (simp add: fold_min_Min)

lemma fold_min_mem: "fold min xs x \<in> set (x # (xs::'a::linorder list))"
  unfolding fold_min_Min by (rule Min_in) simp_all

lemma fold_max_ge: "y \<in> set (x # xs) \<Longrightarrow> y \<le> fold max xs (x::'a::linorder)"
  by (simp add: fold_max_Max)

lemma fold_max_mem: "fold max xs x \<in> set (x # (xs::'a::linorder list))"
  unfolding fold_max_Max by (rule Max_in) simp_all

lemma list_min_None_iff [simp]: "list_min xs = None \<longleftrightarrow> xs = []"
  by (simp add: list_min_def split: list.splits)

lemma list_max_None_iff [simp]: "list_max xs = None \<longleftrightarrow> xs = []"
  by (simp add: list_max_def split: list.splits)

lemma list_min_Some: "list_min xs = Some m \<longleftrightarrow> xs \<noteq> [] \<and> m = Min (set xs)"
  by (auto simp: list_min_def fold_min_Min split: list.splits)

lemma list_max_Some: "list_max xs = Some m \<longleftrightarrow> xs \<noteq> [] \<and> m = Max (set xs)"
  by (auto simp: list_max_def fold_max_Max split: list.splits)

lemma list_min_le: "list_min xs = Some m \<Longrightarrow> y \<in> set xs \<Longrightarrow> m \<le> y"
  by (simp add: list_min_Some)

lemma list_max_ge: "list_max xs = Some m \<Longrightarrow> y \<in> set xs \<Longrightarrow> y \<le> m"
  by (simp add: list_max_Some)

lemma list_min_mem: "list_min xs = Some m \<Longrightarrow> m \<in> set xs"
  by (simp add: list_min_Some)

lemma list_max_mem: "list_max xs = Some m \<Longrightarrow> m \<in> set xs"
  by (simp add: list_max_Some)

lemma list_min_le_max: "list_min xs = Some a \<Longrightarrow> list_max xs = Some b \<Longrightarrow> a \<le> b"
  by (simp add: list_min_Some list_max_Some)

lemma find_SomeD: "find P xs = Some x \<Longrightarrow> P x \<and> x \<in> set xs"
  by (induction xs) (auto split: if_splits)

lemma rint_bounds: "of_int (rint x) \<le> x + 1 / 2 \<and> x - 1 / 2 \<le> of_int (rint x)"
  by (auto simp: rint_def Let_def) linarith+

lemma rint_floor: "\<lfloor>x\<rfloor> \<le> rint x \<and> rint x \<le> \<lfloor>x\<rfloor> + 1"
  by (simp add: rint_def Let_def)

lemma rint_mono:
  assumes "x \<le> y"
  shows "rint x \<le> rint y"
proof (cases "\<lfloor>x\<rfloor> = \<lfloor>y\<rfloor>")
  case True
  with assms show ?thesis by (auto simp: rint_def Let_def)
next
  case False
  with assms have "\<lfloor>x\<rfloor> + 1 \<le> \<lfloor>y\<rfloor>"
    by (metis floor_mono le_less zless_imp_add1_zle)
  with rint_floor [of x] rint_floor [of y] show ?thesis by linarith
qed

lemma round_dec_mono: "x \<le> y \<Longrightarrow> round_dec n x \<le> round_dec n y"
  by (simp add: round_dec_def divide_right_mono rint_mono)

lemma rint_of_int [simp]: "rint (of_int k) = k"
  by (simp add: rint_def)

lemma round_dec_int: "round_dec n (of_int k) = of_int k"
proof -
  have "rint (of_int k * 10 ^ n) = k * 10 ^ n"
    using rint_of_int [of "k * 10 ^ n"] by simp
  then show ?thesis by (simp add: round_dec_def)
qed

lemma round3_mono: "x \<le> y \<Longrightarrow> round3_val x \<le> round3_val y"
  by (simp add: round3_val_def round_dec_mono)

lemma round3_Some [simp]: "round3 (Some x) = Some (round3_val x)"
  by (simp add: round3_def)

lemma map_insort_key: "map f (insort_key f x xs) = insort (f x) (map f xs)"
  by (induction xs) auto

lemma map_sort_key: "map f (sort_key f xs) = sort (map f xs)"
  by (induction xs) (simp_all add: map_insort_key)

lemma length_filter_eq_distinct:
  "distinct xs \<Longrightarrow> length (filter (\<lambda>y. y = x) xs) = (if x \<in> set xs then 1 else 0)"
  by (induction xs) auto

lemma set_upto_iff [simp]: "d \<in> set [a..b] \<longleftrightarrow> a \<le> d \<and> d \<le> (b::int)"
  by simp

subsection \<open>Integer division\<close>

lemma div_decomp: "0 \<le> r \<Longrightarrow> r < d \<Longrightarrow> (d * q + r) div (d::int) = q"
  by (simp add: div_pos_pos_trivial)

lemma mod_decomp: "0 \<le> r \<Longrightarrow> r < d \<Longrightarrow> (d * q + r) mod (d::int) = r"
  by (simp add: mod_pos_pos_trivial)

lemma mod_decomp_zero: "0 < r \<Longrightarrow> r \<le> d \<Longrightarrow> (d * q + r) mod (d::int) = 0 \<longleftrightarrow> r = d"
proof (cases "r = d")
  case True then show ?thesis by (simp add: mod_eq_0_iff_dvd)
next
  case False
  assume "0 < r" "r \<le> d"
  with False have "(d * q + r) mod d = r" by (intro mod_decomp) auto
  with False \<open>0 < r\<close> show ?thesis by simp
qed

lemma div_succ:
  assumes "0 < (d::int)"
  shows "(x + 1) div d = x div d + (if (x + 1) mod d = 0 then 1 else 0)"
proof -
  define q r where "q = x div d" and "r = x mod d"
  have x: "x = d * q + r" "0 \<le> r" "r < d" using assms by (simp_all add: q_def r_def)
  show ?thesis
  proof (cases "r + 1 = d")
    case True
    then have "x + 1 = d * (q + 1) + 0" using x by (simp add: algebra_simps)
    then show ?thesis using assms by (simp add: q_def del: div_mult_self1 div_mult_self2)
  next
    case False
    have e: "x + 1 = d * q + (r + 1)" using x by simp
    have "(x + 1) div d = q" unfolding e by (rule div_decomp) (use x(2,3) False in auto)
    moreover have "(x + 1) mod d = r + 1" unfolding e by (rule mod_decomp) (use x(2,3) False in auto)
    ultimately show ?thesis using x(2) by (simp add: q_def [symmetric])
  qed
qed

lemma append_less_same_length:
  "length p = length q \<Longrightarrow> (p @ u < q @ v) \<longleftrightarrow> p < q \<or> (p = q \<and> u < (v::'a::linorder list))"
  by (induction p q rule: list_induct2) auto

definition digit_order_ok :: bool where
  "digit_order_ok = list_all (\<lambda>i. list_all (\<lambda>j.
      (''0123456789'' ! i < ''0123456789'' ! j) = (i < j)) [0..<10]) [0..<10]"

lemma nat_less_div_mod:
  "(x::nat) < y \<longleftrightarrow> x div 10 < y div 10 \<or> (x div 10 = y div 10 \<and> x mod 10 < y mod 10)"
proof -
  have "x = 10 * (x div 10) + x mod 10" "y = 10 * (y div 10) + y mod 10" by simp_all
  moreover have "x mod 10 < 10" "y mod 10 < 10" by simp_all
  ultimately show ?thesis by linarith
qed

end
