(* ===== verification/Calendar.thy ===== *)
theory Calendar
  imports Prelude
begin

text \<open>
  Calendar dates as Python's \<^verbatim>\<open>datetime\<close> module numbers them: the proleptic
  Gregorian ordinal of \<^verbatim>\<open>_ymd2ord\<close>, with the helper functions of the same names
  (\<^verbatim>\<open>_is_leap\<close>, \<^verbatim>\<open>_days_before_year\<close>, \<^verbatim>\<open>_days_in_month\<close>,
  \<^verbatim>\<open>_days_before_month\<close>). The standard library is not part of the repository, so
  these definitions follow the spec's date format (\<^verbatim>\<open>YYYY-MM-DD\<close>) and the library's
  documented arithmetic. \<open>parse_iso\<close> reads a \<^verbatim>\<open>YYYY-MM-DD\<close> string; it is
  the date parser used by the concrete requests of this development (on such strings
  \<^verbatim>\<open>dateutil\<close> and \<^verbatim>\<open>pd.to_datetime\<close> return the same date).
\<close>

definition is_leap :: "int \<Rightarrow> bool" where
  "is_leap year \<longleftrightarrow> year mod 4 = 0 \<and> (year mod 100 \<noteq> 0 \<or> year mod 400 = 0)"

definition days_before_year :: "int \<Rightarrow> int" where
  "days_before_year year = (let y = year - 1 in y * 365 + y div 4 - y div 100 + y div 400)"

definition month_lengths :: "int list" where
  "month_lengths = [31, 28, 31, 30, 31, 30, 31, 31, 30, 31, 30, 31]"

definition days_in_month :: "int \<Rightarrow> int \<Rightarrow> int" where
  "days_in_month year month =
     (if month = 2 \<and> is_leap year then 29 else month_lengths ! nat (month - 1))"

definition days_before_month :: "int \<Rightarrow> int \<Rightarrow> int" where
  "days_before_month year month =
     sum_list (take (nat (month - 1)) month_lengths) + (if month > 2 \<and> is_leap year then 1 else 0)"

definition ymd2ord :: "int \<Rightarrow> int \<Rightarrow> int \<Rightarrow> day" where
  "ymd2ord year month d = days_before_year year + days_before_month year month + d"

subsection \<open>Reading \<^verbatim>\<open>YYYY-MM-DD\<close>\<close>

definition digit_val :: "char \<Rightarrow> int option" where
  "digit_val c = (if CHR ''0'' \<le> c \<and> c \<le> CHR ''9'' then Some (int (of_char c) - 48) else None)"

fun digits_val :: "int \<Rightarrow> string \<Rightarrow> int option" where
  "digits_val acc [] = Some acc"
| "digits_val acc (c # cs) =
     (case digit_val c of None \<Rightarrow> None | Some v \<Rightarrow> digits_val (10 * acc + v) cs)"

definition valid_ymd :: "int \<Rightarrow> int \<Rightarrow> int \<Rightarrow> bool" where
  "valid_ymd y m d \<longleftrightarrow> 1 \<le> y \<and> y \<le> 9999 \<and> 1 \<le> m \<and> m \<le> 12 \<and> 1 \<le> d \<and> d \<le> days_in_month y m"

definition parse_iso :: "string \<Rightarrow> day option" where
  "parse_iso s =
     (if length s = 10 \<and> s ! 4 = CHR ''-'' \<and> s ! 7 = CHR ''-'' then
        (case (digits_val 0 (take 4 s), digits_val 0 (take 2 (drop 5 s)), digits_val 0 (drop 8 s)) of
           (Some y, Some m, Some d) \<Rightarrow> (if valid_ymd y m d then Some (ymd2ord y m d) else None)
         | _ \<Rightarrow> None)
      else None)"

subsection \<open>From ordinals to dates\<close>

text \<open>
  \<^verbatim>\<open>_ord2ymd\<close>, the inverse of \<open>ymd2ord\<close> that \<^verbatim>\<open>date.fromordinal\<close> and every
  \<^verbatim>\<open>strftime\<close> call go through. The ordinal is split into 400-, 100-, 4- and
  1-year blocks by \<^verbatim>\<open>divmod\<close>. The last day of a 4-year or 400-year block is the
  special case \<open>n1 = 4 \<or> n100 = 4\<close>. The month is estimated as \<open>(n + 50) >> 5\<close>
  and corrected once (\<open>doy_to_md\<close>). The tables carry the library's placeholder
  \<open>-1\<close> at index 0.
\<close>

definition days_before_month_tbl :: "int list" where
  "days_before_month_tbl = [-1, 0, 31, 59, 90, 120, 151, 181, 212, 243, 273, 304, 334]"

definition days_in_month_tbl :: "int list" where
  "days_in_month_tbl = [-1, 31, 28, 31, 30, 31, 30, 31, 31, 30, 31, 30, 31]"

definition doy_to_md :: "bool \<Rightarrow> int \<Rightarrow> int \<times> int" where
  "doy_to_md leapyear n =
     (let month = (n + 50) div 32;
          preceding = days_before_month_tbl ! nat month + (if month > 2 \<and> leapyear then 1 else 0)
      in if preceding > n then
           (let month' = month - 1;
                preceding' = preceding - (days_in_month_tbl ! nat month' + (if month' = 2 \<and> leapyear then 1 else 0))
            in (month', n - preceding' + 1))
         else (month, n - preceding + 1))"

definition ord2ymd :: "day \<Rightarrow> int \<times> int \<times> int" where
  "ord2ymd n =
     (let n = n - 1;
          n400 = n div 146097; n = n mod 146097;
          year = n400 * 400 + 1;
          n100 = n div 36524; n = n mod 36524;
          n4 = n div 1461; n = n mod 1461;
          n1 = n div 365; n = n mod 365;
          year = year + n100 * 100 + n4 * 4 + n1
      in if n1 = 4 \<or> n100 = 4 then (year - 1, 12, 31)
         else (let leapyear = (n1 = 3 \<and> (n4 \<noteq> 24 \<or> n100 = 3))
               in case doy_to_md leapyear n of (month, day) \<Rightarrow> (year, month, day)))"

definition md_ok :: "bool \<Rightarrow> int \<Rightarrow> bool" where
  "md_ok lp k = (case doy_to_md lp k of (m, d) \<Rightarrow>
           1 \<le> m \<and> m \<le> 12 \<and> 1 \<le> d \<and> d \<le> days_in_month_tbl ! nat m + (if m = 2 \<and> lp then 1 else 0)
           \<and> days_before_month_tbl ! nat m + (if m > 2 \<and> lp then 1 else 0) + d - 1 = k)"

definition md_inv_ok :: "bool \<Rightarrow> int \<Rightarrow> int \<Rightarrow> bool" where
  "md_inv_ok lp m d =
     (let k = days_before_month_tbl ! nat m + (if m > 2 \<and> lp then 1 else 0) + d - 1
      in d \<le> days_in_month_tbl ! nat m + (if m = 2 \<and> lp then 1 else 0) \<longrightarrow> k < 365 \<longrightarrow>
         doy_to_md lp k = (m, d))"

text \<open>
  Two table checks used by the proofs: the month estimate is right for every day of
  a year and inverts every (month, day) pair.
\<close>


declare is_leap_def [model_defs] days_before_year_def [model_defs] month_lengths_def [model_defs]
  days_in_month_def [model_defs] days_before_month_def [model_defs] ymd2ord_def [model_defs]
  digit_val_def [model_defs] valid_ymd_def [model_defs] parse_iso_def [model_defs]
  days_before_month_tbl_def [model_defs] days_in_month_tbl_def [model_defs] doy_to_md_def [model_defs]
  ord2ymd_def [model_defs]

lemma days_in_month_bounds:
  "1 \<le> m \<Longrightarrow> m \<le> 12 \<Longrightarrow> 28 \<le> days_in_month y m \<and> days_in_month y m \<le> 31"
proof -
  assume "1 \<le> m" "m \<le> 12"
  then have "m \<in> {1..12}" by simp
  also have "{1..12} = set [1..12::int]" by simp
  finally have "m \<in> set [1..12::int]" .
  then show ?thesis
    by (auto simp: days_in_month_def month_lengths_def upto.simps)
qed

subsection \<open>The ordinal bijection\<close>

lemma md_ok_all: "list_all (\<lambda>k. md_ok True k \<and> md_ok False k) [0..364]"
  by code_simp

lemma md_ok_range: "0 \<le> k \<Longrightarrow> k < 365 \<Longrightarrow> md_ok lp k"
  using md_ok_all by (cases lp) (auto simp: list_all_iff)

lemma md_inv_all: "list_all (\<lambda>m. list_all (\<lambda>d. md_inv_ok True m d \<and> md_inv_ok False m d) [1..31]) [1..12]"
  by code_simp

lemma md_inv_range:
  assumes "1 \<le> m" "m \<le> 12" "1 \<le> d" "d \<le> days_in_month_tbl ! nat m + (if m = 2 \<and> lp then 1 else 0)"
    "days_before_month_tbl ! nat m + (if m > 2 \<and> lp then 1 else 0) + d - 1 < 365"
  shows "doy_to_md lp (days_before_month_tbl ! nat m + (if m > 2 \<and> lp then 1 else 0) + d - 1) = (m, d)"
proof -
  have m: "m \<in> set [1..12]" using assms by simp
  then have "days_in_month_tbl ! nat m + (if m = 2 \<and> lp then 1 else 0) \<le> 31"
    by (auto simp: days_in_month_tbl_def upto.simps)
  with assms have d: "d \<in> set [1..31]" by simp
  from md_inv_all [unfolded list_all_iff] m d have "md_inv_ok True m d \<and> md_inv_ok False m d"
    by blast
  then have "md_inv_ok lp m d" by (cases lp) simp_all
  with assms show ?thesis by (simp add: md_inv_ok_def Let_def)
qed

lemma month_tables:
  assumes "1 \<le> m" "m \<le> 12"
  shows "days_before_month y m = days_before_month_tbl ! nat m + (if m > 2 \<and> is_leap y then 1 else 0)
       \<and> days_in_month y m = days_in_month_tbl ! nat m + (if m = 2 \<and> is_leap y then 1 else 0)"
proof -
  have "m \<in> set [1..12]" using assms by simp
  then show ?thesis
    by (auto simp: days_before_month_def days_in_month_def month_lengths_def
        days_before_month_tbl_def days_in_month_tbl_def upto.simps)
qed

lemma day_of_year_bounds:
  assumes "1 \<le> m" "m \<le> 12" "1 \<le> d" "d \<le> days_in_month y m"
  shows "0 \<le> days_before_month y m + d - 1 \<and> days_before_month y m + d - 1 < 365 + (if is_leap y then 1 else 0)
       \<and> (days_before_month y m + d - 1 = 365 \<longrightarrow> m = 12 \<and> d = 31)"
proof -
  have "m \<in> set [1..12]" using assms by simp
  with assms show ?thesis
    by (auto simp: days_before_month_def days_in_month_def month_lengths_def upto.simps)
qed

lemma dby_decomp:
  assumes "0 \<le> b" "b < 4" "0 \<le> c" "c < 25" "0 \<le> e" "e < 4"
  shows "days_before_year (400 * a + 100 * b + 4 * c + e + 1) = 146097 * a + 36524 * b + 1461 * c + 365 * e"
proof -
  have "(4 * (100 * a + 25 * b + c) + e) div 4 = 100 * a + 25 * b + c"
    using assms by (intro div_decomp) auto
  moreover have "(100 * (4 * a + b) + (4 * c + e)) div 100 = 4 * a + b"
    using assms by (intro div_decomp) auto
  moreover have "(400 * a + (100 * b + 4 * c + e)) div 400 = a"
    using assms by (intro div_decomp) auto
  ultimately show ?thesis unfolding days_before_year_def Let_def
    by (simp add: algebra_simps)
qed

lemma leap_decomp:
  assumes "0 \<le> b" "b < 4" "0 \<le> c" "c < 25" "0 \<le> e" "e < 4"
  shows "is_leap (400 * a + 100 * b + 4 * c + e + 1) \<longleftrightarrow> e = 3 \<and> (c \<noteq> 24 \<or> b = 3)"
proof -
  have "(4 * (100 * a + 25 * b + c) + (e + 1)) mod 4 = 0 \<longleftrightarrow> e + 1 = 4"
    using assms by (intro mod_decomp_zero) auto
  moreover have "(100 * (4 * a + b) + (4 * c + e + 1)) mod 100 = 0 \<longleftrightarrow> 4 * c + e + 1 = 100"
    using assms by (intro mod_decomp_zero) auto
  moreover have "(400 * a + (100 * b + 4 * c + e + 1)) mod 400 = 0 \<longleftrightarrow> 100 * b + 4 * c + e + 1 = 400"
    using assms by (intro mod_decomp_zero) auto
  ultimately show ?thesis using assms unfolding is_leap_def
    by (simp add: algebra_simps) linarith
qed

lemma dby_succ: "days_before_year (y + 1) = days_before_year y + 365 + (if is_leap y then 1 else 0)"
proof -
  have d4: "(y - 1) div 4 = y div 4 - (if y mod 4 = 0 then 1 else 0)"
    using div_succ [of 4 "y - 1"] by simp
  have d100: "(y - 1) div 100 = y div 100 - (if y mod 100 = 0 then 1 else 0)"
    using div_succ [of 100 "y - 1"] by simp
  have d400: "(y - 1) div 400 = y div 400 - (if y mod 400 = 0 then 1 else 0)"
    using div_succ [of 400 "y - 1"] by simp
  have i1: "y mod 400 = 0 \<Longrightarrow> y mod 100 = 0"
    by (simp add: mod_eq_0_iff_dvd) (rule dvd_trans [of _ 400], simp_all)
  have i2: "y mod 100 = 0 \<Longrightarrow> y mod 4 = 0"
    by (simp add: mod_eq_0_iff_dvd) (rule dvd_trans [of _ 100], simp_all)
  have e1: "days_before_year (y + 1) - days_before_year y = 365 + (if y mod 4 = 0 then 1 else 0)
      - (if y mod 100 = 0 then 1 else 0) + (if y mod 400 = 0 then 1 else 0)"
    unfolding days_before_year_def Let_def d4 d100 d400 by (simp add: algebra_simps)
  show ?thesis
  proof (cases "y mod 400 = 0")
    case True with e1 i1 i2 show ?thesis by (simp add: is_leap_def)
  next
    case c4: False
    show ?thesis
    proof (cases "y mod 100 = 0")
      case True with c4 e1 i2 show ?thesis by (simp add: is_leap_def)
    next
      case False with c4 e1 show ?thesis by (simp add: is_leap_def)
    qed
  qed
qed

lemma dby_mono_nat: "days_before_year y \<le> days_before_year (y + int k)"
proof (induction k)
  case (Suc k)
  have "y + int (Suc k) = (y + int k) + 1" by simp
  moreover have "days_before_year (y + int k) \<le> days_before_year ((y + int k) + 1)"
    using dby_succ [of "y + int k"] by simp
  ultimately show ?case using Suc.IH by (metis order_trans)
qed simp

lemma dby_mono: "y \<le> y' \<Longrightarrow> days_before_year y \<le> days_before_year y'"
  using dby_mono_nat [of y "nat (y' - y)"] by simp

lemma ymd2ord_in_year:
  assumes "1 \<le> m" "m \<le> 12" "1 \<le> d" "d \<le> days_in_month y m"
  shows "days_before_year y < ymd2ord y m d \<and> ymd2ord y m d \<le> days_before_year (y + 1)"
  using day_of_year_bounds [OF assms] dby_succ [of y] by (simp add: ymd2ord_def)

lemma ymd2ord_pos: "1 \<le> y \<Longrightarrow> 1 \<le> m \<Longrightarrow> m \<le> 12 \<Longrightarrow> 1 \<le> d \<Longrightarrow> d \<le> days_in_month y m
  \<Longrightarrow> 1 \<le> ymd2ord y m d"
  using ymd2ord_in_year [of m d y] dby_mono [of 1 y] by (simp add: days_before_year_def)

lemma ord2ymd_eq:
  fixes n :: int
  defines "N \<equiv> n - 1"
  defines "a \<equiv> N div 146097" and "R1 \<equiv> N mod 146097"
  defines "b \<equiv> R1 div 36524" and "R2 \<equiv> R1 mod 36524"
  defines "c \<equiv> R2 div 1461" and "R3 \<equiv> R2 mod 1461"
  defines "e \<equiv> R3 div 365" and "k \<equiv> R3 mod 365"
  shows "ord2ymd n = (if e = 4 \<or> b = 4 then (400 * a + 100 * b + 4 * c + e, 12, 31)
            else case doy_to_md (e = 3 \<and> (c \<noteq> 24 \<or> b = 3)) k of
                   (m, d) \<Rightarrow> (400 * a + 100 * b + 4 * c + e + 1, m, d))"
  unfolding assms ord2ymd_def Let_def by (simp add: mult.commute split: prod.split)

lemma ord2ymd_valid:
  assumes "1 \<le> n" "ord2ymd n = (y, m, d)"
  shows "1 \<le> y \<and> 1 \<le> m \<and> m \<le> 12 \<and> 1 \<le> d \<and> d \<le> days_in_month y m \<and> ymd2ord y m d = n"
proof -
  define N where "N = n - 1"
  define a where "a = N div 146097"
  define R1 where "R1 = N mod 146097"
  define b where "b = R1 div 36524"
  define R2 where "R2 = R1 mod 36524"
  define c where "c = R2 div 1461"
  define R3 where "R3 = R2 mod 1461"
  define e where "e = R3 div 365"
  define k where "k = R3 mod 365"
  have o: "ord2ymd n = (if e = 4 \<or> b = 4 then (400 * a + 100 * b + 4 * c + e, 12, 31)
            else case doy_to_md (e = 3 \<and> (c \<noteq> 24 \<or> b = 3)) k of
                   (m, d) \<Rightarrow> (400 * a + 100 * b + 4 * c + e + 1, m, d))"
    unfolding N_def a_def R1_def b_def R2_def c_def R3_def e_def k_def by (rule ord2ymd_eq)
  have N: "N = 146097 * a + R1" "0 \<le> R1" "R1 < 146097" "0 \<le> a"
    using assms(1) by (simp_all add: N_def a_def R1_def)
  have R1: "R1 = 36524 * b + R2" "0 \<le> R2" "R2 < 36524"
    by (simp_all add: b_def R2_def)
  have R2: "R2 = 1461 * c + R3" "0 \<le> R3" "R3 < 1461"
    by (simp_all add: c_def R3_def)
  have R3: "R3 = 365 * e + k" "0 \<le> k" "k < 365"
    by (simp_all add: e_def k_def)
  have bnd: "0 \<le> b" "b \<le> 4" "0 \<le> c" "c \<le> 24" "0 \<le> e" "e \<le> 4"
    using N R1 R2 R3 by linarith+
  show ?thesis
  proof (cases "e = 4 \<or> b = 4")
    case True
    have "b \<le> 3 \<and> e = 4 \<and> k = 0 \<and> (c \<noteq> 24 \<or> b = 3) \<or> b = 4 \<and> c = 0 \<and> e = 0 \<and> k = 0"
      using True N R1 R2 R3 bnd by linarith
    have ymd: "y = 400 * a + 100 * b + 4 * c + e" "m = 12" "d = 31"
      using True o assms(2) by auto
    from \<open>b \<le> 3 \<and> _ \<or> _\<close> consider (e4) "b \<le> 3" "e = 4" "k = 0" "c \<noteq> 24 \<or> b = 3"
      | (b4) "b = 4" "c = 0" "e = 0" "k = 0" by blast
    then show ?thesis
    proof cases
      case e4
      have eqY: "400 * a + 100 * b + 4 * c + e = 400 * a + 100 * b + 4 * c + 3 + 1"
        using e4 by simp
      have "days_before_year (400 * a + 100 * b + 4 * c + e) = 146097 * a + 36524 * b + 1461 * c + 365 * 3"
        unfolding eqY by (rule dby_decomp) (use bnd e4 in auto)
      moreover have "is_leap (400 * a + 100 * b + 4 * c + e)"
        unfolding eqY by (subst leap_decomp) (use bnd e4 in auto)
      ultimately show ?thesis using e4 ymd N R1 R2 R3 month_tables [of 12]
        by (simp add: ymd2ord_def N_def days_before_month_tbl_def days_in_month_tbl_def)
    next
      case b4
      have eqY: "400 * a + 100 * b + 4 * c + e = 400 * a + 100 * 3 + 4 * 24 + 3 + 1"
        using b4 by simp
      have "days_before_year (400 * a + 100 * b + 4 * c + e) = 146097 * a + 36524 * 3 + 1461 * 24 + 365 * 3"
        unfolding eqY by (rule dby_decomp) auto
      moreover have "is_leap (400 * a + 100 * b + 4 * c + e)"
        unfolding eqY by (subst leap_decomp) auto
      ultimately show ?thesis using ymd N R1 R2 R3 month_tables [of 12]
        by (simp add: ymd2ord_def N_def b4 days_before_month_tbl_def days_in_month_tbl_def)
    qed
  next
    case False
    with bnd have b3: "b < 4" "e < 4" by auto
    let ?lp = "e = 3 \<and> (c \<noteq> 24 \<or> b = 3)"
    from False o assms(2) have md: "doy_to_md ?lp k = (m, d)" and y: "y = 400 * a + 100 * b + 4 * c + e + 1"
      by (auto split: prod.splits)
    from md_ok_range [OF R3(2,3), of ?lp] md have ok:
      "1 \<le> m" "m \<le> 12" "1 \<le> d" "d \<le> days_in_month_tbl ! nat m + (if m = 2 \<and> ?lp then 1 else 0)"
      "days_before_month_tbl ! nat m + (if m > 2 \<and> ?lp then 1 else 0) + d - 1 = k"
      by (simp_all add: md_ok_def)
    have lp: "is_leap y \<longleftrightarrow> ?lp" and dby: "days_before_year y = 146097 * a + 36524 * b + 1461 * c + 365 * e"
      using bnd b3 by (simp_all add: y leap_decomp dby_decomp)
    from month_tables [OF ok(1,2), of y] ok lp dby N R1 R2 R3 bnd show ?thesis
      by (simp add: ymd2ord_def y N_def)
  qed
qed

lemma ymd2ord_year_eq:
  assumes v: "1 \<le> m" "m \<le> 12" "1 \<le> d" "d \<le> days_in_month y m"
    and v': "1 \<le> m'" "m' \<le> 12" "1 \<le> d'" "d' \<le> days_in_month y' m'"
    and eq: "ymd2ord y m d = ymd2ord y' m' d'"
  shows "y = y'"
proof (rule ccontr)
  assume "y \<noteq> y'"
  then consider "y + 1 \<le> y'" | "y' + 1 \<le> y" by linarith
  then show False
  proof cases
    case 1
    have "ymd2ord y m d \<le> days_before_year (y + 1)" using ymd2ord_in_year [OF v] by blast
    also have "\<dots> \<le> days_before_year y'" using dby_mono [OF 1] .
    also have "\<dots> < ymd2ord y' m' d'" using ymd2ord_in_year [OF v'] by blast
    finally show False using eq by simp
  next
    case 2
    have "ymd2ord y' m' d' \<le> days_before_year (y' + 1)" using ymd2ord_in_year [OF v'] by blast
    also have "\<dots> \<le> days_before_year y" using dby_mono [OF 2] .
    also have "\<dots> < ymd2ord y m d" using ymd2ord_in_year [OF v] by blast
    finally show False using eq by simp
  qed
qed

lemma doy_inv:
  assumes v: "1 \<le> m" "m \<le> 12" "1 \<le> d" "d \<le> days_in_month y m"
    and lt: "days_before_month y m + d - 1 < 365"
  shows "doy_to_md (is_leap y) (days_before_month y m + d - 1) = (m, d)"
proof -
  have t: "days_before_month y m = days_before_month_tbl ! nat m + (if m > 2 \<and> is_leap y then 1 else 0)"
    using month_tables [OF v(1,2), of y] by (rule conjunct1)
  have t2: "days_in_month y m = days_in_month_tbl ! nat m + (if m = 2 \<and> is_leap y then 1 else 0)"
    using month_tables [OF v(1,2), of y] by (rule conjunct2)
  show ?thesis unfolding t
    by (rule md_inv_range [OF v(1,2,3)]) (use v(4) lt in \<open>simp_all only: t t2\<close>)
qed

lemma day_of_year_inj:
  assumes v: "1 \<le> m" "m \<le> 12" "1 \<le> d" "d \<le> days_in_month y m"
    and v': "1 \<le> m'" "m' \<le> 12" "1 \<le> d'" "d' \<le> days_in_month y m'"
    and k: "days_before_month y m + d = days_before_month y m' + d'"
  shows "m = m' \<and> d = d'"
proof (cases "days_before_month y m + d - 1 < 365")
  case True
  have lt': "days_before_month y m' + d' - 1 < 365" using True k by linarith
  have e: "days_before_month y m' + d' - 1 = days_before_month y m + d - 1" using k by linarith
  from doy_inv [OF v True] doy_inv [OF v' lt'] show ?thesis unfolding e by simp
next
  case False
  have "days_before_month y m + d - 1 = 365"
    using False day_of_year_bounds [OF v] by (simp split: if_splits)
  then have "m = 12 \<and> d = 31" using day_of_year_bounds [OF v] by blast
  moreover have "days_before_month y m' + d' - 1 = 365"
    using False k day_of_year_bounds [OF v'] by (simp split: if_splits)
  then have "m' = 12 \<and> d' = 31" using day_of_year_bounds [OF v'] by blast
  ultimately show ?thesis by simp
qed

lemma ord2ymd_ymd2ord:
  assumes y: "1 \<le> y" and v: "1 \<le> m" "m \<le> 12" "1 \<le> d" "d \<le> days_in_month y m"
  shows "ord2ymd (ymd2ord y m d) = (y, m, d)"
proof -
  obtain y' m' d' where o: "ord2ymd (ymd2ord y m d) = (y', m', d')"
    by (cases "ord2ymd (ymd2ord y m d)") auto
  have c: "1 \<le> y' \<and> 1 \<le> m' \<and> m' \<le> 12 \<and> 1 \<le> d' \<and> d' \<le> days_in_month y' m' \<and> ymd2ord y' m' d' = ymd2ord y m d"
    by (rule ord2ymd_valid [OF ymd2ord_pos [OF y v] o])
  then have v': "1 \<le> m'" "m' \<le> 12" "1 \<le> d'" "d' \<le> days_in_month y' m'"
    and eq: "ymd2ord y m d = ymd2ord y' m' d'" by simp_all
  have yy: "y = y'" by (rule ymd2ord_year_eq [OF v v' eq])
  have "days_before_month y m + d = days_before_month y m' + d'"
    using eq unfolding yy ymd2ord_def by simp
  with day_of_year_inj [OF v] v' yy have "m = m' \<and> d = d'" by simp
  with o yy show ?thesis by simp
qed

lemma month_order_table:
  "list_all (\<lambda>m. list_all (\<lambda>m'. list_all (\<lambda>lp. m < m' \<longrightarrow>
      days_before_month_tbl ! nat m + (if m > 2 \<and> lp then 1 else 0)
      + days_in_month_tbl ! nat m + (if m = 2 \<and> lp then 1 else 0)
      \<le> days_before_month_tbl ! nat m' + (if m' > 2 \<and> lp then 1 else 0)) [True, False]) [1..12]) [1..12]"
  by code_simp

lemma days_before_month_less:
  assumes "1 \<le> m" "m < m'" "m' \<le> 12"
  shows "days_before_month y m + days_in_month y m \<le> days_before_month y m'"
proof -
  have "m \<in> set [1..12]" "m' \<in> set [1..12]" "is_leap y \<in> set [True, False]" using assms by auto
  with month_order_table [unfolded list_all_iff] assms
  have "days_before_month_tbl ! nat m + (if m > 2 \<and> is_leap y then 1 else 0)
      + days_in_month_tbl ! nat m + (if m = 2 \<and> is_leap y then 1 else 0)
      \<le> days_before_month_tbl ! nat m' + (if m' > 2 \<and> is_leap y then 1 else 0)"
    by blast
  with month_tables [of m y] month_tables [of m' y] assms show ?thesis by simp
qed

lemma ymd2ord_less:
  assumes v: "1 \<le> m" "m \<le> 12" "1 \<le> d" "d \<le> days_in_month y m"
    and v': "1 \<le> m'" "m' \<le> 12" "1 \<le> d'" "d' \<le> days_in_month y' m'"
    and lt: "y < y' \<or> y = y' \<and> (m < m' \<or> m = m' \<and> d < d')"
  shows "ymd2ord y m d < ymd2ord y' m' d'"
  using lt
proof (elim disjE conjE)
  assume "y < y'"
  then have "days_before_year (y + 1) \<le> days_before_year y'" by (intro dby_mono) simp
  with ymd2ord_in_year [OF v] ymd2ord_in_year [OF v'] show ?thesis by simp
next
  assume "y = y'" "m < m'"
  with days_before_month_less [of m m' y] v v' show ?thesis by (simp add: ymd2ord_def)
qed (simp add: ymd2ord_def)

lemma ord2ymd_lex_less:
  assumes "1 \<le> a" "a < b" "ord2ymd a = (y, m, d)" "ord2ymd b = (y', m', d')"
  shows "y < y' \<or> y = y' \<and> (m < m' \<or> m = m' \<and> d < d')"
proof (rule ccontr)
  assume nl: "\<not> ?thesis"
  from ord2ymd_valid [OF assms(1,3)] have v: "1 \<le> m" "m \<le> 12" "1 \<le> d" "d \<le> days_in_month y m"
    and a: "ymd2ord y m d = a" by simp_all
  from ord2ymd_valid [of b y' m' d'] assms(1,2,4) have v': "1 \<le> m'" "m' \<le> 12" "1 \<le> d'"
    "d' \<le> days_in_month y' m'" and b: "ymd2ord y' m' d' = b" by simp_all
  show False
  proof (cases "(y, m, d) = (y', m', d')")
    case True
    with a b assms(2) show False by simp
  next
    case False
    with nl have "y' < y \<or> y' = y \<and> (m' < m \<or> m' = m \<and> d' < d)" by auto
    from ymd2ord_less [OF v' v this] a b assms(2) show False by simp
  qed
qed

end
