(* ===== verification/Format.thy ===== *)
theory Format
  imports Calendar
begin

text \<open>
  The printers of \<^verbatim>\<open>src/app.py\<close>'s answers. \<^verbatim>\<open>strftime('%Y-%m-%d')\<close>
  (lines 70, 86, 105, 127--128, 260--261) is \<open>fmt_date\<close>: \<open>ord2ymd\<close> and fields
  zero-padded to 4, 2 and 2 digits (\<open>fixed_digits\<close>). The format spec
  \<^verbatim>\<open>:.2%\<close> (lines 132, 262--263) is \<open>pct_str\<close>: the value times 100, rounded
  half to even to two decimals, then \<^verbatim>\<open>%\<close>. Both are library code (Python's
  \<^verbatim>\<open>datetime\<close> and float formatting), so they are modelled from the spec's
  formats (\<^verbatim>\<open>YYYY-MM-DD\<close>, "2 decimal places and trailing \<^verbatim>\<open>%\<close>"). pandas
  timestamps lie between 1677 and 2262, so the 4-digit year field is exact.
  Lemmas: digit strings read back by \<open>digits_val\<close>; the two round trips between
  \<open>parse_iso\<close> and \<open>fmt_date\<close>; printed dates sort as strings in the order of
  the days.
\<close>

fun fixed_digits :: "nat \<Rightarrow> nat \<Rightarrow> string" where
  "fixed_digits 0 x = []"
| "fixed_digits (Suc w) x = fixed_digits w (x div 10) @ [''0123456789'' ! (x mod 10)]"

definition fmt_date :: "day \<Rightarrow> string" where
  "fmt_date n = (case ord2ymd n of (y, m, d) \<Rightarrow>
      fixed_digits 4 (nat y) @ ''-'' @ fixed_digits 2 (nat m) @ ''-'' @ fixed_digits 2 (nat d))"

definition pct_str :: "real \<Rightarrow> string" where
  "pct_str x = (let c = nat \<bar>rint (x * 10000)\<bar>
                in (if x < 0 then ''-'' else []) @ nat_str (c div 100) @ ''.'' @ fixed_digits 2 (c mod 100) @ ''%'')"

lemma digits_val_append:
  "digits_val acc (xs @ ys) = (case digits_val acc xs of None \<Rightarrow> None | Some v \<Rightarrow> digits_val v ys)"
  by (induction xs arbitrary: acc) (simp_all split: option.split)

lemma digit_table: "list_all (\<lambda>k. digit_val (''0123456789'' ! k) = Some (int k)) [0..<10]"
  by code_simp

lemma digit_val_digit: "k < 10 \<Longrightarrow> digit_val (''0123456789'' ! k) = Some (int k)"
  using digit_table by (simp add: list_all_iff)

lemma length_fixed_digits [simp]: "length (fixed_digits w x) = w"
  by (induction w arbitrary: x) simp_all

lemma digits_val_fixed: "digits_val acc (fixed_digits w x) = Some (acc * 10 ^ w + int (x mod 10 ^ w))"
proof (induction w arbitrary: x)
  case 0 then show ?case by simp
next
  case (Suc w)
  have "x mod 10 ^ Suc w = 10 * (x div 10 mod 10 ^ w) + x mod 10"
    by (simp add: mod_mult2_eq)
  then show ?case using Suc [of "x div 10"]
    by (simp add: digits_val_append digit_val_digit algebra_simps)
qed

lemma digit_val_SomeD:
  assumes "digit_val c = Some r"
  shows "0 \<le> r \<and> r < 10 \<and> ''0123456789'' ! nat r = c"
proof -
  from assms have c: "CHR ''0'' \<le> c" "c \<le> CHR ''9''" and r: "r = int (of_char c) - 48"
    by (auto simp: digit_val_def split: if_splits)
  from c have "48 \<le> (of_char c :: nat)" "(of_char c :: nat) \<le> 57"
    by (simp_all add: less_eq_char_def)
  with r have b: "0 \<le> r" "r < 10" by simp_all
  from b have "digit_val (''0123456789'' ! nat r) = Some r"
    using digit_val_digit [of "nat r"] by simp
  then have "(of_char (''0123456789'' ! nat r) :: nat) = of_char c"
    using assms r by (auto simp: digit_val_def split: if_splits)
  then have "''0123456789'' ! nat r = c"
    by (metis char_of_char)
  with b show ?thesis by simp
qed

lemma digits_val_canonical:
  "digits_val acc cs = Some v \<Longrightarrow> 0 \<le> acc \<Longrightarrow> acc < 1 \<Longrightarrow> 0 \<le> v \<and> fixed_digits (length cs) (nat v) = cs"
proof (induction cs arbitrary: v rule: rev_induct)
  case Nil then show ?case by simp
next
  case (snoc c cs)
  from snoc.prems(1) obtain u r where u: "digits_val acc cs = Some u" and r: "digit_val c = Some r"
    and v: "v = 10 * u + r"
    by (auto simp: digits_val_append split: option.splits)
  from snoc.IH [OF u snoc.prems(2,3)] have iu: "0 \<le> u" "fixed_digits (length cs) (nat u) = cs" by simp_all
  from digit_val_SomeD [OF r] have rr: "0 \<le> r" "r < 10" "''0123456789'' ! nat r = c" by simp_all
  have nv: "nat v = nat r + 10 * nat u" using v iu(1) rr(1) by (simp add: nat_add_distrib nat_mult_distrib)
  have "nat r < 10" using rr(2) by simp
  then have "nat v div 10 = nat u" "nat v mod 10 = nat r" by (simp_all add: nv)
  then show ?case using iu rr v by simp
qed

lemma ord2ymd_year_le:
  assumes "1 \<le> n" "n \<le> 3652059" "ord2ymd n = (y, m, d)"
  shows "y \<le> 9999"
proof (rule ccontr)
  assume "\<not> y \<le> 9999"
  then have "days_before_year 10000 \<le> days_before_year y" by (intro dby_mono) simp
  moreover have "days_before_year 10000 = 3652059" by (simp add: days_before_year_def)
  moreover from ord2ymd_valid [OF assms(1,3)] have "days_before_year y < n"
    using ymd2ord_in_year [of m d y] by auto
  ultimately show False using assms(2) by simp
qed

lemma split_date_string:
  assumes "length s = 10"
  shows "s = take 4 s @ s ! 4 # take 2 (drop 5 s) @ s ! 7 # drop 8 s"
proof -
  from assms obtain c0 c1 c2 c3 c4 c5 c6 c7 c8 c9 where "s = [c0, c1, c2, c3, c4, c5, c6, c7, c8, c9]"
    by (auto simp: length_Suc_conv numeral_eq_Suc)
  then show ?thesis by simp
qed

lemma fmt_date_parts:
  assumes "ord2ymd n = (y, m, d)"
  shows "fmt_date n = fixed_digits 4 (nat y) @ CHR ''-'' # fixed_digits 2 (nat m) @ CHR ''-'' # fixed_digits 2 (nat d)"
  using assms by (simp add: fmt_date_def)

lemma parse_iso_fmt_date:
  assumes "1 \<le> n" "n \<le> 3652059"
  shows "parse_iso (fmt_date n) = Some n"
proof -
  obtain y m d where o: "ord2ymd n = (y, m, d)" by (cases "ord2ymd n") auto
  from ord2ymd_valid [OF assms(1) o] have v: "1 \<le> y" "1 \<le> m" "m \<le> 12" "1 \<le> d"
    "d \<le> days_in_month y m" "ymd2ord y m d = n" by simp_all
  have y9: "y \<le> 9999" by (rule ord2ymd_year_le [OF assms o])
  have d31: "d \<le> 31" using v(2,3,5) days_in_month_bounds [of m y] by simp
  let ?A = "fixed_digits 4 (nat y)" and ?B = "fixed_digits 2 (nat m)" and ?C = "fixed_digits 2 (nat d)"
  have dA: "digits_val 0 ?A = Some y" using v(1) y9 by (simp add: digits_val_fixed)
  have dB: "digits_val 0 ?B = Some m" using v(2,3) by (simp add: digits_val_fixed)
  have dC: "digits_val 0 ?C = Some d" using v(4) d31 by (simp add: digits_val_fixed)
  have "valid_ymd y m d" using v y9 by (simp add: valid_ymd_def)
  then show ?thesis
    unfolding fmt_date_parts [OF o] parse_iso_def
    using dA dB dC v(6) by (simp add: nth_append)
qed

lemma fmt_date_parse_iso:
  assumes "parse_iso s = Some n"
  shows "fmt_date n = s"
proof -
  from assms obtain y m d where l: "length s = 10" "s ! 4 = CHR ''-''" "s ! 7 = CHR ''-''"
    and dy: "digits_val 0 (take 4 s) = Some y" and dm: "digits_val 0 (take 2 (drop 5 s)) = Some m"
    and dd: "digits_val 0 (drop 8 s) = Some d" and v: "valid_ymd y m d" and n: "n = ymd2ord y m d"
    by (auto simp: parse_iso_def split: if_splits option.splits)
  from digits_val_canonical [OF dy] l have A: "fixed_digits 4 (nat y) = take 4 s" by simp
  from digits_val_canonical [OF dm] l have B: "fixed_digits 2 (nat m) = take 2 (drop 5 s)" by simp
  from digits_val_canonical [OF dd] l have C: "fixed_digits 2 (nat d) = drop 8 s" by simp
  from v have "ord2ymd n = (y, m, d)" unfolding n valid_ymd_def by (intro ord2ymd_ymd2ord) simp_all
  then have "fmt_date n = take 4 s @ s ! 4 # take 2 (drop 5 s) @ s ! 7 # drop 8 s"
    by (simp add: fmt_date_parts A B C l)
  also have "\<dots> = s" using split_date_string [OF l(1)] by simp
  finally show ?thesis .
qed

lemma parse_iso_range:
  assumes "parse_iso s = Some n"
  shows "1 \<le> n \<and> n \<le> 3652059"
proof -
  from assms obtain y m d where v: "valid_ymd y m d" and n: "n = ymd2ord y m d"
    by (auto simp: parse_iso_def split: if_splits option.splits)
  from v have v': "1 \<le> y" "y \<le> 9999" "1 \<le> m" "m \<le> 12" "1 \<le> d" "d \<le> days_in_month y m"
    by (simp_all add: valid_ymd_def)
  have "days_before_year (y + 1) \<le> days_before_year 10000" using v'(2) by (intro dby_mono) simp
  moreover have "days_before_year 10000 = 3652059" by (simp add: days_before_year_def)
  ultimately show ?thesis using ymd2ord_pos [OF v'(1,3-6)] ymd2ord_in_year [OF v'(3-6)] n by simp
qed

subsection \<open>Round trips\<close>

lemma parse_iso_iff_fmt_date:
  "parse_iso s = Some n \<longleftrightarrow> 1 \<le> n \<and> n \<le> 3652059 \<and> s = fmt_date n"
  using parse_iso_range [of s n] fmt_date_parse_iso [of s n] parse_iso_fmt_date [of n] by auto

subsection \<open>Printed dates sort chronologically\<close>

lemma digit_order_table:
  "list_all (\<lambda>i. list_all (\<lambda>j.
      (''0123456789'' ! i < ''0123456789'' ! j) = (i < j)) [0..<10]) [0..<10]"
  by code_simp

lemma digit_less: "i < 10 \<Longrightarrow> j < 10 \<Longrightarrow> ''0123456789'' ! i < ''0123456789'' ! j \<longleftrightarrow> i < j"
  using digit_order_table unfolding list_all_iff by simp

lemma fixed_digits_eq:
  assumes "x < 10 ^ w" "y < 10 ^ w"
  shows "fixed_digits w x = fixed_digits w y \<longleftrightarrow> x = y"
proof
  assume "fixed_digits w x = fixed_digits w y"
  then have "digits_val 0 (fixed_digits w x) = digits_val 0 (fixed_digits w y)" by simp
  with assms show "x = y" by (simp add: digits_val_fixed)
qed simp

lemma fixed_digits_less:
  "x < 10 ^ w \<Longrightarrow> y < 10 ^ w \<Longrightarrow> fixed_digits w x < fixed_digits w y \<longleftrightarrow> x < y"
proof (induction w arbitrary: x y)
  case 0
  then show ?case by simp
next
  case (Suc w)
  have "x div 10 < 10 ^ w" "y div 10 < 10 ^ w" using Suc.prems by (simp_all add: less_mult_imp_div_less)
  moreover have "fixed_digits w (x div 10) = fixed_digits w (y div 10) \<longleftrightarrow> x div 10 = y div 10"
    using calculation by (simp add: fixed_digits_eq)
  ultimately show ?case
    using Suc.IH [of "x div 10" "y div 10"] digit_less [of "x mod 10" "y mod 10"] nat_less_div_mod [of x y]
    by (simp only: fixed_digits.simps append_less_same_length length_fixed_digits
          Cons_less_Cons not_less_Nil simp_thms mod_less_divisor zero_less_numeral)
qed

lemma fmt_date_less:
  assumes "1 \<le> a" "a < b" "b \<le> 3652059"
  shows "fmt_date a < fmt_date b"
proof -
  obtain y m d where o: "ord2ymd a = (y, m, d)" by (cases "ord2ymd a") auto
  obtain y' m' d' where o': "ord2ymd b = (y', m', d')" by (cases "ord2ymd b") auto
  from ord2ymd_valid [OF assms(1) o] days_in_month_bounds [of m y]
  have v: "1 \<le> y" "1 \<le> m" "m \<le> 12" "1 \<le> d" "d \<le> 31" by auto
  from ord2ymd_valid [of b y' m' d'] assms(1,2) o' days_in_month_bounds [of m' y']
  have v': "1 \<le> y'" "1 \<le> m'" "m' \<le> 12" "1 \<le> d'" "d' \<le> 31" by auto
  have y9: "y \<le> 9999" "y' \<le> 9999"
    using ord2ymd_year_le [OF assms(1) _ o] ord2ymd_year_le [OF _ assms(3) o'] assms by simp_all
  have "nat y < 10 ^ 4" "nat y' < 10 ^ 4" "nat m < 10 ^ 2" "nat m' < 10 ^ 2" "nat d < 10 ^ 2" "nat d' < 10 ^ 2"
    using v v' y9 by simp_all
  note fd = fixed_digits_less [OF this(1,2)] fixed_digits_eq [OF this(1,2)]
    fixed_digits_less [OF this(3,4)] fixed_digits_eq [OF this(3,4)] fixed_digits_less [OF this(5,6)]
  have "y < y' \<or> y = y' \<and> (m < m' \<or> m = m' \<and> d < d')" by (rule ord2ymd_lex_less [OF assms(1,2) o o'])
  with v v' show ?thesis
    unfolding fmt_date_parts [OF o] fmt_date_parts [OF o']
    by (simp add: append_less_same_length fd nat_less_eq_zless nat_eq_iff2 eq_commute [of y' y]
        eq_commute [of m' m])
qed


end
