(* ===== verification/Dataset.thy ===== *)
theory Dataset
  imports Format
begin

text \<open>
  The dataset accessor of \<^verbatim>\<open>src/app.py\<close>: \<^verbatim>\<open>make_connection\<close> reads the
  \<^verbatim>\<open>measurement\<close> and \<^verbatim>\<open>station\<close> tables, converts the date column with
  \<^verbatim>\<open>pd.to_datetime\<close>, renames \<^verbatim>\<open>prcp\<close>/\<^verbatim>\<open>tobs\<close> to \<^verbatim>\<open>prec\<close>/\<^verbatim>\<open>temp\<close> and
  drops the \<^verbatim>\<open>id\<close> columns. The SQL read itself is I/O and is not modelled: the raw
  rows are the input. A row of a data frame is a record; a missing (NaN/NULL) value is
  \<open>None\<close>. The per-station date bounds that \<^verbatim>\<open>valid_query\<close> and the station
  directory compute (\<^verbatim>\<open>df1[df1['station'] == station]['date'].min()\<close>) are here too:
  \<open>None\<close> is pandas' \<^verbatim>\<open>NaT\<close>, the minimum of an empty column.
\<close>

record raw_measurement =
  rm_id :: int
  rm_station :: string
  rm_date :: string
  prcp :: "real option"
  tobs :: "real option"

record raw_station =
  rs_id :: int
  rs_station :: string
  rs_name :: string
  rs_latitude :: real
  rs_longitude :: real
  rs_elevation :: real

record measurement =
  m_station :: string
  m_date :: day
  prec :: "real option"
  temp :: "real option"

record station_row =
  s_station :: string
  s_name :: string
  latitude :: real
  longitude :: real
  elevation :: real

text \<open>
  \<^verbatim>\<open>pd.to_datetime\<close> on the whole column: one unparseable entry raises, so the
  conversion is all or nothing. The date parser is a parameter \<open>todt\<close>.
\<close>

definition norm_measurement :: "raw_measurement \<Rightarrow> day \<Rightarrow> measurement" where
  "norm_measurement r d =
     \<lparr>m_station = rm_station r, m_date = d, prec = prcp r, temp = tobs r\<rparr>"

definition norm_station :: "raw_station \<Rightarrow> station_row" where
  "norm_station r =
     \<lparr>s_station = rs_station r, s_name = rs_name r, latitude = rs_latitude r,
      longitude = rs_longitude r, elevation = rs_elevation r\<rparr>"

definition make_connection ::
  "(string \<Rightarrow> day option) \<Rightarrow> raw_measurement list \<Rightarrow> raw_station list
   \<Rightarrow> pyexc + (measurement list \<times> station_row list)" where
  "make_connection todt rms rss =
     (case those (map (todt \<circ> rm_date) rms) of
        None \<Rightarrow> Inl ValueError
      | Some ds \<Rightarrow> Inr (map2 norm_measurement rms ds, map norm_station rss))"

text \<open>The two value columns, selected by name in the route handlers.\<close>

datatype column = Prec | Temp

primrec col_val :: "column \<Rightarrow> measurement \<Rightarrow> real option" where
  "col_val Prec m = prec m"
| "col_val Temp m = temp m"

primrec column_desc :: "column \<Rightarrow> string" where
  "column_desc Prec = ''precipitation''"
| "column_desc Temp = ''temperature''"

definition station_rows :: "measurement list \<Rightarrow> string \<Rightarrow> measurement list" where
  "station_rows ms s = filter (\<lambda>m. m_station m = s) ms"

definition min_date :: "measurement list \<Rightarrow> string \<Rightarrow> day option" where
  "min_date ms s = list_min (map m_date (station_rows ms s))"

definition max_date :: "measurement list \<Rightarrow> string \<Rightarrow> day option" where
  "max_date ms s = list_max (map m_date (station_rows ms s))"

text \<open>
  The data model's invariant (spec, section 3): at most one record per station and date,
  every measured station is listed, station codes are unique.
\<close>

definition wf_dataset :: "measurement list \<Rightarrow> station_row list \<Rightarrow> bool" where
  "wf_dataset ms sts \<longleftrightarrow>
     distinct (map (\<lambda>m. (m_station m, m_date m)) ms)
     \<and> set (map m_station ms) \<subseteq> set (map s_station sts)
     \<and> distinct (map s_station sts)"

text \<open>
  A dataset the query handlers can answer for every listed station: well-formed, every
  station code non-empty and every listed station measured at least once (true of the
  shipped \<^verbatim>\<open>hawaii.sqlite\<close>).
\<close>

definition complete_dataset :: "measurement list \<Rightarrow> station_row list \<Rightarrow> bool" where
  "complete_dataset ms sts \<longleftrightarrow> wf_dataset ms sts
     \<and> (\<forall>st \<in> set sts. s_station st \<noteq> [] \<and> station_rows ms (s_station st) \<noteq> [])"

subsection \<open>A concrete dataset\<close>

text \<open>
  The spec's scenario station \<^verbatim>\<open>USC00519397\<close>, measured on 2012-01-01
  (ordinal 734503, precipitation 0.5) and 2012-01-03 (ordinal 734505, precipitation
  1.0, temperature missing).
\<close>

definition ex_stations :: "station_row list" where
  "ex_stations = [\<lparr>s_station = ''USC00519397'', s_name = ''WAIKIKI 717.2, HI US'',
                   latitude = 21.2716, longitude = -157.8168, elevation = 3\<rparr>]"

definition ex_measurements :: "measurement list" where
  "ex_measurements =
     [\<lparr>m_station = ''USC00519397'', m_date = 734503, prec = Some 0.5, temp = Some 65\<rparr>,
      \<lparr>m_station = ''USC00519397'', m_date = 734505, prec = Some 1.0, temp = None\<rparr>]"

text \<open>The scenario tables as stored: dates as text, with row identifiers.\<close>

definition ex_raw_measurements :: "raw_measurement list" where
  "ex_raw_measurements =
     [\<lparr>rm_id = 1, rm_station = ''USC00519397'', rm_date = ''2012-01-01'', prcp = Some 0.5, tobs = Some 65\<rparr>,
      \<lparr>rm_id = 2, rm_station = ''USC00519397'', rm_date = ''2012-01-03'', prcp = Some 1.0, tobs = None\<rparr>]"

definition ex_raw_stations :: "raw_station list" where
  "ex_raw_stations =
     [\<lparr>rs_id = 1, rs_station = ''USC00519397'', rs_name = ''WAIKIKI 717.2, HI US'',
       rs_latitude = 21.2716, rs_longitude = -157.8168, rs_elevation = 3\<rparr>]"

text \<open>The same tables with a second listed station that has no measurement.\<close>

definition ex_raw_stations2 :: "raw_station list" where
  "ex_raw_stations2 = ex_raw_stations @
     [\<lparr>rs_id = 2, rs_station = ''USC00511918'', rs_name = ''HONOLULU OBSERVATORY 702.2, HI US'',
       rs_latitude = 21.3152, rs_longitude = -157.9992, rs_elevation = 0.9\<rparr>]"

definition ex_raw_measurements3 :: "raw_measurement list" where
  "ex_raw_measurements3 = ex_raw_measurements @
     [\<lparr>rm_id = 3, rm_station = ''USC00511918'', rm_date = ''2012-01-02'', prcp = Some 0.2, tobs = Some 70\<rparr>]"

definition ex_measurements3 :: "measurement list" where
  "ex_measurements3 = ex_measurements @
     [\<lparr>m_station = ''USC00511918'', m_date = 734504, prec = Some 0.2, temp = Some 70\<rparr>]"

definition ex_stations2 :: "station_row list" where
  "ex_stations2 = ex_stations @
     [\<lparr>s_station = ''USC00511918'', s_name = ''HONOLULU OBSERVATORY 702.2, HI US'',
       latitude = 21.3152, longitude = -157.9992, elevation = 0.9\<rparr>]"

declare norm_measurement_def [model_defs] norm_station_def [model_defs]
  make_connection_def [model_defs] station_rows_def [model_defs]
  min_date_def [model_defs] max_date_def [model_defs]

subsection \<open>The date bounds\<close>

lemma min_date_None_iff: "min_date ms s = None \<longleftrightarrow> station_rows ms s = []"
  by (simp add: min_date_def)

lemma max_date_None_iff: "max_date ms s = None \<longleftrightarrow> station_rows ms s = []"
  by (simp add: max_date_def)

lemma min_date_le:
  "min_date ms s = Some d \<Longrightarrow> m \<in> set (station_rows ms s) \<Longrightarrow> d \<le> m_date m"
  unfolding min_date_def by (erule list_min_le) simp

lemma max_date_ge:
  "max_date ms s = Some d \<Longrightarrow> m \<in> set (station_rows ms s) \<Longrightarrow> m_date m \<le> d"
  unfolding max_date_def by (erule list_max_ge) simp

lemma min_date_mem:
  "min_date ms s = Some d \<Longrightarrow> \<exists>m \<in> set (station_rows ms s). m_date m = d"
  unfolding min_date_def by (drule list_min_mem) auto

lemma max_date_mem:
  "max_date ms s = Some d \<Longrightarrow> \<exists>m \<in> set (station_rows ms s). m_date m = d"
  unfolding max_date_def by (drule list_max_mem) auto

lemma min_date_stored: "min_date ms s = Some x \<Longrightarrow> x \<in> m_date ` set ms"
  by (drule min_date_mem) (auto simp: station_rows_def)

lemma max_date_stored: "max_date ms s = Some x \<Longrightarrow> x \<in> m_date ` set ms"
  by (drule max_date_mem) (auto simp: station_rows_def)

lemma min_le_max_date:
  "min_date ms s = Some a \<Longrightarrow> max_date ms s = Some b \<Longrightarrow> a \<le> b"
  unfolding min_date_def max_date_def by (rule list_min_le_max)

lemma distinct_station_dates:
  "distinct (map (\<lambda>m. (m_station m, m_date m)) ms) \<Longrightarrow> distinct (map m_date (station_rows ms s))"
proof (induction ms)
  case Nil
  then show ?case by (simp add: station_rows_def)
next
  case (Cons a ms)
  then have IH: "distinct (map m_date (station_rows ms s))" by simp
  have fresh: "m_date a \<notin> m_date ` set (station_rows ms s)" if "m_station a = s"
  proof
    assume "m_date a \<in> m_date ` set (station_rows ms s)"
    then obtain x where "x \<in> set ms" "m_station x = s" "m_date x = m_date a"
      by (auto simp: station_rows_def)
    from Cons.prems have "(m_station a, m_date a) \<notin> (\<lambda>m. (m_station m, m_date m)) ` set ms"
      by simp
    moreover from that \<open>m_station x = s\<close> \<open>m_date x = m_date a\<close>
    have "(m_station a, m_date a) = (\<lambda>m. (m_station m, m_date m)) x" by simp
    ultimately show False using \<open>x \<in> set ms\<close> by blast
  qed
  with IH show ?case by (simp add: station_rows_def)
qed

lemma wf_station_dates: "wf_dataset ms sts \<Longrightarrow> distinct (map m_date (station_rows ms s))"
  by (simp add: wf_dataset_def distinct_station_dates)

lemma station_rows_set [simp]: "m \<in> set (station_rows ms s) \<longleftrightarrow> m \<in> set ms \<and> m_station m = s"
  by (simp add: station_rows_def)

lemma those_SomeD: "those xs = Some ys \<Longrightarrow> y \<in> set ys \<Longrightarrow> Some y \<in> set xs"
  by (induction xs arbitrary: ys) (auto split: option.splits)

lemma make_connection_dates:
  assumes "make_connection todt rms rss = Inr (ms, sts)" "m \<in> set ms"
  shows "\<exists>r \<in> set rms. todt (rm_date r) = Some (m_date m)"
proof -
  from assms(1) obtain ds where ds: "those (map (todt \<circ> rm_date) rms) = Some ds"
    and ms: "ms = map2 norm_measurement rms ds"
    by (auto simp: make_connection_def split: option.splits)
  from assms(2) ms obtain r d where "(r, d) \<in> set (zip rms ds)" "m = norm_measurement r d"
    by auto
  moreover from this(1) have "d \<in> set ds" by (rule set_zip_rightD)
  ultimately show ?thesis using those_SomeD [OF ds] by (fastforce simp: norm_measurement_def image_iff)
qed

lemma parse_iso_dataset_range:
  assumes mc: "make_connection parse_iso rms rss = Inr (ms, sts)"
    and x: "(\<exists>s. parse_iso s = Some x) \<or> x \<in> m_date ` set ms"
  shows "1 \<le> x \<and> x \<le> 3652059"
  using x
proof
  assume "x \<in> m_date ` set ms"
  then obtain m where "m \<in> set ms" "x = m_date m" by blast
  with make_connection_dates [OF mc] show ?thesis by (auto dest: parse_iso_range)
qed (auto dest: parse_iso_range)

subsection \<open>The concrete dataset\<close>

lemma ex_dates: "parse_iso ''2012-01-01'' = Some 734503" "parse_iso ''2012-01-03'' = Some 734505"
  by (simp_all add: model_defs)

lemma ex_complete: "complete_dataset ex_measurements ex_stations"
  by (simp add: complete_dataset_def wf_dataset_def ex_measurements_def ex_stations_def
      station_rows_def)

lemma ex_wf: "wf_dataset ex_measurements ex_stations"
  using ex_complete by (simp add: complete_dataset_def)

lemma ex_bounds: "min_date ex_measurements ''USC00519397'' = Some 734503"
  "max_date ex_measurements ''USC00519397'' = Some 734505"
  by (simp_all add: model_defs ex_measurements_def)

lemma ex_connection:
  "make_connection parse_iso ex_raw_measurements ex_raw_stations = Inr (ex_measurements, ex_stations)"
  by (simp add: model_defs ex_raw_measurements_def ex_raw_stations_def ex_measurements_def
      ex_stations_def)

lemma ex_connection3:
  "make_connection parse_iso ex_raw_measurements3 ex_raw_stations2 = Inr (ex_measurements3, ex_stations2)"
  by (simp add: model_defs ex_raw_measurements3_def ex_raw_measurements_def ex_raw_stations2_def
      ex_raw_stations_def ex_measurements3_def ex_measurements_def ex_stations2_def ex_stations_def)

end
