(* ===== verification/Validator.thy ===== *)
theory Validator
  imports Dataset
begin

text \<open>
  The query validator \<^verbatim>\<open>valid_query\<close> of \<^verbatim>\<open>src/app.py\<close> (lines 27--97).
  The Python keeps five local variables (\<^verbatim>\<open>error, qtype, station, from_dt, to_dt\<close>)
  and runs four commented stages in sequence; a later stage may overwrite the
  \<^verbatim>\<open>error\<close> of an earlier one, and each stage's guard is the truthiness of the
  variables before it. The model has one definition per stage, composed in
  \<open>valid_query\<close>. The HTML error strings are represented by \<open>verror\<close>, one
  constructor per message, carrying the values the message interpolates.
  The date parser (\<^verbatim>\<open>dateutil.parser.parse(..).date()\<close>) is the parameter
  \<open>parse\<close>; \<open>None\<close> is its \<^verbatim>\<open>ParserError\<close>.

  Comparisons. \<^verbatim>\<open>from_dt\<close> and \<^verbatim>\<open>to_dt\<close> are a \<^verbatim>\<open>date\<close> or \<^verbatim>\<open>None\<close>
  (after a failed parse) or \<^verbatim>\<open>NaT\<close> (the bound of a station without measurements).
  Python raises \<^verbatim>\<open>TypeError\<close> when \<^verbatim>\<open><\<close> or \<^verbatim>\<open><=\<close> meets \<^verbatim>\<open>None\<close>, and
  pandas raises \<^verbatim>\<open>TypeError\<close> when an ordering comparison meets \<^verbatim>\<open>NaT\<close> and a
  \<^verbatim>\<open>datetime.date\<close>; both are \<open>Inl TypeError\<close> here.
\<close>

datatype verror =
    QtypeInvalid string
  | QtypeMissing
  | StationInvalid string
  | StationMissing
  | FromDateOutOfRange string day string
  | FromDateFormat string
  | ToDateOutOfRange string day string
  | ToDateFormat string
  | ToDateNotAfterFrom string string

text \<open>The returned tuple \<^verbatim>\<open>(error, qtype, station, from_dt, to_dt)\<close>.\<close>

record vq_result =
  vq_error :: "verror option"
  vq_qtype :: "string option"
  vq_station :: "string option"
  vq_from :: "day option"
  vq_to :: "day option"

subsection \<open>The four stages\<close>

text \<open>Lines 34--46: the \<^verbatim>\<open>qtype\<close> test. \<^verbatim>\<open>qtype\<close> is kept even when invalid.\<close>

definition check_qtype :: "query_args \<Rightarrow> verror option \<times> string option" where
  "check_qtype a =
     (case arg a ''qtype'' of
        Some q \<Rightarrow>
          (if \<not> (q = ''stats'' \<or> q = ''data'') then (Some (QtypeInvalid q), Some q)
           else (None, Some q))
      | None \<Rightarrow> (Some QtypeMissing, None))"

text \<open>Lines 49--57: the \<^verbatim>\<open>station\<close> test, run when \<^verbatim>\<open>qtype\<close> is truthy.\<close>

definition check_station ::
  "query_args \<Rightarrow> station_row list \<Rightarrow> verror option \<Rightarrow> verror option \<times> string option" where
  "check_station a sts err =
     (case arg a ''station'' of
        Some s \<Rightarrow>
          (if s \<notin> set (map s_station sts) then (Some (StationInvalid s), Some s)
           else (err, Some s))
      | None \<Rightarrow> (Some StationMissing, None))"

text \<open>Lines 63--76: \<^verbatim>\<open>from_date\<close>, against the station's first date \<open>min_d\<close>.\<close>

definition check_from ::
  "(string \<Rightarrow> day option) \<Rightarrow> query_args \<Rightarrow> string \<Rightarrow> day option \<Rightarrow> verror option
   \<Rightarrow> pyexc + (verror option \<times> day option)" where
  "check_from parse a s min_d err =
     (case arg a ''from_date'' of
        Some fs \<Rightarrow>
          (case parse fs of
             Some fd \<Rightarrow>
               (case min_d of
                  None \<Rightarrow> Inl TypeError
                | Some md \<Rightarrow>
                    Inr (if fd < md then Some (FromDateOutOfRange fs md s) else err, Some fd))
           | None \<Rightarrow> Inr (Some (FromDateFormat fs), None))
      | None \<Rightarrow> Inr (err, min_d))"

text \<open>
  Lines 79--95: \<^verbatim>\<open>to_date\<close>, against the station's last date \<open>max_d\<close>. The
  \<^verbatim>\<open>to_dt <= from_dt\<close> test (line 91) is outside the \<^verbatim>\<open>try\<close>: it runs after a failed
  parse too, and its message reads the variable \<^verbatim>\<open>from_date\<close>, which is bound only when
  the request carried a \<^verbatim>\<open>from_date\<close>.
\<close>

definition parse_to ::
  "(string \<Rightarrow> day option) \<Rightarrow> string \<Rightarrow> string \<Rightarrow> day option \<Rightarrow> verror option
   \<Rightarrow> pyexc + (verror option \<times> day option)" where
  "parse_to parse ts s max_d err =
     (case parse ts of
        Some td \<Rightarrow>
          (case max_d of
             None \<Rightarrow> Inl TypeError
           | Some xd \<Rightarrow>
               Inr (if td > xd then Some (ToDateOutOfRange ts xd s) else err, Some td))
      | None \<Rightarrow> Inr (Some (ToDateFormat ts), None))"

definition check_to ::
  "(string \<Rightarrow> day option) \<Rightarrow> query_args \<Rightarrow> string \<Rightarrow> day option \<Rightarrow> day option
   \<Rightarrow> verror option \<Rightarrow> pyexc + (verror option \<times> day option)" where
  "check_to parse a s max_d from_dt err =
     (case arg a ''to_date'' of
        Some ts \<Rightarrow>
          (case parse_to parse ts s max_d err of
             Inl e \<Rightarrow> Inl e
           | Inr (err1, to_dt) \<Rightarrow>
               (case (to_dt, from_dt) of
                  (Some td, Some fd) \<Rightarrow>
                    (if td \<le> fd then
                       (case arg a ''from_date'' of
                          None \<Rightarrow> Inl UnboundLocalError
                        | Some fs \<Rightarrow> Inr (Some (ToDateNotAfterFrom fs ts), to_dt))
                     else Inr (err1, to_dt))
                | _ \<Rightarrow> Inl TypeError))
      | None \<Rightarrow> Inr (err, max_d))"

text \<open>Lines 60--95: the date block, run when \<^verbatim>\<open>qtype\<close> and \<^verbatim>\<open>station\<close> are truthy.\<close>

definition check_dates ::
  "(string \<Rightarrow> day option) \<Rightarrow> query_args \<Rightarrow> measurement list \<Rightarrow> string \<Rightarrow> verror option
   \<Rightarrow> pyexc + (verror option \<times> day option \<times> day option)" where
  "check_dates parse a ms s err =
     (case check_from parse a s (min_date ms s) err of
        Inl e \<Rightarrow> Inl e
      | Inr (err3, from_dt) \<Rightarrow>
          (case check_to parse a s (max_date ms s) from_dt err3 of
             Inl e \<Rightarrow> Inl e
           | Inr (err4, to_dt) \<Rightarrow> Inr (err4, from_dt, to_dt)))"

subsection \<open>The validator\<close>

definition valid_query ::
  "(string \<Rightarrow> day option) \<Rightarrow> query_args \<Rightarrow> measurement list \<Rightarrow> station_row list
   \<Rightarrow> pyexc + vq_result" where
  "valid_query parse a ms sts =
     (let (err1, qtype) = check_qtype a;
          (err2, station) = (if truthy qtype then check_station a sts err1 else (err1, None))
      in case station of
           Some s \<Rightarrow>
             (if truthy qtype \<and> truthy station then
                (case check_dates parse a ms s err2 of
                   Inl e \<Rightarrow> Inl e
                 | Inr (err4, from_dt, to_dt) \<Rightarrow>
                     Inr \<lparr>vq_error = err4, vq_qtype = qtype, vq_station = station,
                          vq_from = from_dt, vq_to = to_dt\<rparr>)
              else Inr \<lparr>vq_error = err2, vq_qtype = qtype, vq_station = station,
                        vq_from = None, vq_to = None\<rparr>)
         | None \<Rightarrow> Inr \<lparr>vq_error = err2, vq_qtype = qtype, vq_station = station,
                        vq_from = None, vq_to = None\<rparr>)"

declare check_qtype_def [model_defs] check_station_def [model_defs]
  check_from_def [model_defs] parse_to_def [model_defs] check_to_def [model_defs]
  check_dates_def [model_defs] valid_query_def [model_defs]

subsection \<open>The spec's validator\<close>

text \<open>
  The validation order of the spec (section 4.2), stopping at the first failure, with
  its error kinds (section 7) and the Resolved Query it produces (section 3). A station
  without observed date bounds has no valid range; it is refused as a station error.
\<close>


datatype qkind = QStats | QData

record resolved_query =
  rq_qtype :: qkind
  rq_station :: string
  rq_from :: day
  rq_to :: day

datatype spec_error = EQtype | EStation | EDateFormat | EFromRange | EToRange | EToNotAfterFrom

definition qkind_of :: "string \<Rightarrow> qkind option" where
  "qkind_of q = (if q = ''stats'' then Some QStats else if q = ''data'' then Some QData else None)"

primrec qkind_str :: "qkind \<Rightarrow> string" where
  "qkind_str QStats = ''stats''"
| "qkind_str QData = ''data''"

definition spec_from :: "(string \<Rightarrow> day option) \<Rightarrow> query_args \<Rightarrow> day \<Rightarrow> spec_error + day" where
  "spec_from parse a mn =
     (case arg a ''from_date'' of
        None \<Rightarrow> Inr mn
      | Some fs \<Rightarrow> (case parse fs of
                     None \<Rightarrow> Inl EDateFormat
                   | Some fd \<Rightarrow> if fd < mn then Inl EFromRange else Inr fd))"

definition spec_to :: "(string \<Rightarrow> day option) \<Rightarrow> query_args \<Rightarrow> day \<Rightarrow> day \<Rightarrow> spec_error + day" where
  "spec_to parse a f mx =
     (case arg a ''to_date'' of
        None \<Rightarrow> Inr mx
      | Some ts \<Rightarrow> (case parse ts of
                     None \<Rightarrow> Inl EDateFormat
                   | Some td \<Rightarrow> if mx < td then Inl EToRange
                                else if td \<le> f then Inl EToNotAfterFrom else Inr td))"

definition validate_spec ::
  "(string \<Rightarrow> day option) \<Rightarrow> query_args \<Rightarrow> measurement list \<Rightarrow> station_row list
   \<Rightarrow> spec_error + resolved_query" where
  "validate_spec parse a ms sts =
     (case map_option qkind_of (arg a ''qtype'') of
        Some (Some k) \<Rightarrow>
          (case arg a ''station'' of
             Some s \<Rightarrow>
               (if s \<notin> set (map s_station sts) then Inl EStation
                else case (min_date ms s, max_date ms s) of
                  (Some mn, Some mx) \<Rightarrow>
                    (case spec_from parse a mn of
                       Inl e \<Rightarrow> Inl e
                     | Inr f \<Rightarrow> (case spec_to parse a f mx of
                                  Inl e \<Rightarrow> Inl e
                                | Inr t \<Rightarrow> Inr \<lparr>rq_qtype = k, rq_station = s, rq_from = f, rq_to = t\<rparr>))
                | _ \<Rightarrow> Inl EStation)
           | None \<Rightarrow> Inl EStation)
      | _ \<Rightarrow> Inl EQtype)"

definition vq_of :: "resolved_query \<Rightarrow> vq_result" where
  "vq_of rq = \<lparr>vq_error = None, vq_qtype = Some (qkind_str (rq_qtype rq)),
               vq_station = Some (rq_station rq), vq_from = Some (rq_from rq), vq_to = Some (rq_to rq)\<rparr>"

text \<open>A request of the spec's scenario: statistics for the whole record of a station.\<close>

definition ex_args :: query_args where
  "ex_args = [(''qtype'', ''stats''), (''station'', ''USC00519397'')]"

subsection \<open>What each stage guarantees when it reports no error\<close>

lemma check_qtype_ok:
  "check_qtype a = (None, q) \<Longrightarrow> \<exists>x. arg a ''qtype'' = Some x \<and> q = Some x \<and> x \<in> {''stats'', ''data''}"
  by (auto simp: check_qtype_def split: option.splits if_splits)

lemma check_station_ok:
  "check_station a sts err = (None, st) \<Longrightarrow>
     err = None \<and> (\<exists>s. arg a ''station'' = Some s \<and> st = Some s \<and> s \<in> set (map s_station sts))"
  by (auto simp: check_station_def split: option.splits if_splits)

lemma check_from_ok:
  "check_from parse a s min_d err = Inr (None, f) \<Longrightarrow>
     err = None \<and> (case arg a ''from_date'' of
        None \<Rightarrow> f = min_d
      | Some fs \<Rightarrow> \<exists>fd md. parse fs = Some fd \<and> min_d = Some md \<and> md \<le> fd \<and> f = Some fd)"
  by (auto simp: check_from_def split: option.splits if_splits)

lemma check_to_ok:
  "check_to parse a s max_d from_dt err = Inr (None, t) \<Longrightarrow>
     err = None \<and> (case arg a ''to_date'' of
        None \<Rightarrow> t = max_d
      | Some ts \<Rightarrow> \<exists>td xd fd. parse ts = Some td \<and> max_d = Some xd \<and> td \<le> xd
                    \<and> from_dt = Some fd \<and> fd < td \<and> t = Some td)"
  by (auto simp: check_to_def parse_to_def split: option.splits if_splits sum.splits)

lemma check_qtype_err: "check_qtype a = (e, q) \<Longrightarrow> \<not> truthy q \<Longrightarrow> e \<noteq> None"
  by (auto simp: check_qtype_def truthy_def split: option.splits if_splits)

lemma check_station_err: "check_station a sts e = (e', None) \<Longrightarrow> e' \<noteq> None"
  by (auto simp: check_station_def split: option.splits if_splits)

lemma valid_query_no_error_stages:
  assumes vq: "valid_query parse a ms sts = Inr r" and ok: "vq_error r = None"
    and ne: "[] \<notin> set (map s_station sts)"
  shows "\<exists>q s. check_qtype a = (None, Some q) \<and> check_station a sts None = (None, Some s)
           \<and> check_from parse a s (min_date ms s) None = Inr (None, vq_from r)
           \<and> check_to parse a s (max_date ms s) (vq_from r) None = Inr (None, vq_to r)
           \<and> vq_qtype r = Some q \<and> vq_station r = Some s"
proof -
  obtain e1 q0 where cq: "check_qtype a = (e1, q0)" by force
  show ?thesis
  proof (cases "truthy q0")
    case False
    with vq ok cq check_qtype_err [OF cq] show ?thesis
      by (auto simp: valid_query_def split: option.splits)
  next
    case True
    then obtain q where q0: "q0 = Some q" "q \<noteq> []" by (auto simp: truthy_iff)
    obtain e2 st where cs: "check_station a sts e1 = (e2, st)" by force
    show ?thesis
    proof (cases st)
      case None
      with vq ok cq cs True check_station_err [of a sts e1 e2] show ?thesis
        by (auto simp: valid_query_def)
    next
      case (Some s)
      show ?thesis
      proof (cases "s = []")
        case True
        with vq ok cq cs q0 Some check_station_ok [of a sts e1 "Some s"] ne show ?thesis
          by (auto simp: valid_query_def)
      next
        case False
        from vq cq cs q0 Some False obtain e3 f where
          cf: "check_from parse a s (min_date ms s) e2 = Inr (e3, f)" and
          ct: "check_to parse a s (max_date ms s) f e3 = Inr (vq_error r, vq_to r)" and
          rf: "vq_from r = f" "vq_qtype r = Some q" "vq_station r = Some s"
          by (auto simp: valid_query_def check_dates_def split: sum.splits)
        from ct ok check_to_ok have e3: "e3 = None" by fastforce
        with cf check_from_ok have e2: "e2 = None" by fastforce
        with cs Some check_station_ok have e1: "e1 = None" by fastforce
        from cq cs cf ct rf ok Some q0 e1 e2 e3 show ?thesis by auto
      qed
    qed
  qed
qed

subsection \<open>Soundness of an accepted query\<close>

text \<open>
  C1. A query that \<open>valid_query\<close> accepts (no error) on a complete dataset is
  resolved as the spec's Resolved Query requires: \<open>qtype\<close> is \<^verbatim>\<open>stats\<close> or
  \<^verbatim>\<open>data\<close>, the station is listed, both dates are set, neither lies before the
  station's first observation, the end date is not after its last one, and an explicit
  \<^verbatim>\<open>to_date\<close> lies strictly after the start date.
\<close>

theorem valid_query_sound:
  assumes cd: "complete_dataset ms sts"
    and vq: "valid_query parse a ms sts = Inr r" and ok: "vq_error r = None"
  shows "\<exists>q s f t mn mx. vq_qtype r = Some q \<and> q \<in> {''stats'', ''data''}
           \<and> vq_station r = Some s \<and> s \<in> set (map s_station sts)
           \<and> vq_from r = Some f \<and> vq_to r = Some t
           \<and> min_date ms s = Some mn \<and> max_date ms s = Some mx
           \<and> mn \<le> f \<and> mn \<le> t \<and> t \<le> mx \<and> (arg a ''to_date'' \<noteq> None \<longrightarrow> f < t)"
proof -
  from cd have ne: "[] \<notin> set (map s_station sts)"
    by (auto simp: complete_dataset_def)
  from valid_query_no_error_stages [OF vq ok ne] obtain q s where
    cq: "check_qtype a = (None, Some q)" and cs: "check_station a sts None = (None, Some s)" and
    cf: "check_from parse a s (min_date ms s) None = Inr (None, vq_from r)" and
    ct: "check_to parse a s (max_date ms s) (vq_from r) None = Inr (None, vq_to r)" and
    rq: "vq_qtype r = Some q" "vq_station r = Some s"
    by blast
  from cq have q: "q \<in> {''stats'', ''data''}" by (auto dest: check_qtype_ok)
  from cs have sin: "s \<in> set (map s_station sts)" by (auto dest: check_station_ok)
  with cd have "station_rows ms s \<noteq> []" by (auto simp: complete_dataset_def)
  then obtain mn mx where mn: "min_date ms s = Some mn" and mx: "max_date ms s = Some mx"
    by (cases "min_date ms s"; cases "max_date ms s") (auto simp: min_date_None_iff max_date_None_iff)
  have mnmx: "mn \<le> mx" using mn mx by (rule min_le_max_date)
  from check_from_ok [OF cf] mn obtain f where f: "vq_from r = Some f" "mn \<le> f"
    by (auto split: option.splits)
  from check_to_ok [OF ct] mx f mnmx obtain t where
    t: "vq_to r = Some t" "mn \<le> t" "t \<le> mx" "arg a ''to_date'' \<noteq> None \<longrightarrow> f < t"
    by (auto split: option.splits)
  from rq q sin mn mx f t show ?thesis by blast
qed

theorem valid_query_sound_witness:
  "\<exists>r. valid_query parse_iso ex_args ex_measurements ex_stations = Inr r \<and> vq_error r = None
       \<and> (\<exists>f t. vq_from r = Some f \<and> vq_to r = Some t \<and> 734503 \<le> f \<and> t \<le> 734505)"
proof -
  define r where "r = \<lparr>vq_error = None, vq_qtype = Some ''stats'', vq_station = Some ''USC00519397'',
            vq_from = Some (734503::int), vq_to = Some 734505\<rparr>"
  have vq: "valid_query parse_iso ex_args ex_measurements ex_stations = Inr r"
    by (simp add: model_defs ex_measurements_def ex_stations_def ex_args_def r_def)
  have ok: "vq_error r = None" by (simp add: r_def)
  from valid_query_sound [OF ex_complete vq ok] ex_bounds vq ok show ?thesis
    by (auto simp: r_def)
qed

subsection \<open>The spec's validator and the code\<close>

lemma check_from_spec:
  "check_from parse a s (Some mn) None = Inr (None, Some f) \<longleftrightarrow> spec_from parse a mn = Inr f"
  by (auto simp: check_from_def spec_from_def split: option.splits if_splits)

lemma check_to_spec:
  "check_to parse a s (Some mx) (Some f) None = Inr (None, Some t) \<longleftrightarrow> spec_to parse a f mx = Inr t"
  by (auto simp: check_to_def parse_to_def spec_to_def split: option.splits if_splits)

lemma check_qtype_spec:
  "check_qtype a = (None, Some q) \<longleftrightarrow> (\<exists>k. map_option qkind_of (arg a ''qtype'') = Some (Some k) \<and> q = qkind_str k)"
  by (cases "arg a ''qtype''") (auto simp: check_qtype_def qkind_of_def split: if_splits qkind.splits)

lemma qkind_str_inj: "qkind_str k = qkind_str k' \<Longrightarrow> k = k'"
  by (cases k; cases k') simp_all

lemma qkind_str_nonempty [simp]: "qkind_str k \<noteq> []"
  by (cases k) simp_all

lemma validate_spec_Inr:
  assumes "validate_spec parse a ms sts = Inr rq"
  shows "\<exists>q mn mx. arg a ''qtype'' = Some q \<and> qkind_of q = Some (rq_qtype rq)
           \<and> arg a ''station'' = Some (rq_station rq) \<and> rq_station rq \<in> set (map s_station sts)
           \<and> min_date ms (rq_station rq) = Some mn \<and> max_date ms (rq_station rq) = Some mx
           \<and> spec_from parse a mn = Inr (rq_from rq) \<and> spec_to parse a (rq_from rq) mx = Inr (rq_to rq)"
  using assms
  by (auto simp: validate_spec_def split: option.splits if_splits sum.splits)

lemma valid_query_from_spec:
  assumes cd: "complete_dataset ms sts" and sp: "validate_spec parse a ms sts = Inr rq"
  shows "valid_query parse a ms sts = Inr (vq_of rq)"
proof -
  from validate_spec_Inr [OF sp] obtain q mn mx where
    q: "arg a ''qtype'' = Some q" "qkind_of q = Some (rq_qtype rq)" and
    s: "arg a ''station'' = Some (rq_station rq)" "rq_station rq \<in> set (map s_station sts)" and
    b: "min_date ms (rq_station rq) = Some mn" "max_date ms (rq_station rq) = Some mx" and
    f: "spec_from parse a mn = Inr (rq_from rq)" and
    t: "spec_to parse a (rq_from rq) mx = Inr (rq_to rq)"
    by blast
  from q have cq: "check_qtype a = (None, Some (qkind_str (rq_qtype rq)))"
    using check_qtype_spec by fastforce
  from s have cs: "check_station a sts None = (None, Some (rq_station rq))"
    by (simp add: check_station_def)
  from cd s have ne: "rq_station rq \<noteq> []" by (auto simp: complete_dataset_def)
  from f b have cf: "check_from parse a (rq_station rq) (min_date ms (rq_station rq)) None
                     = Inr (None, Some (rq_from rq))"
    by (simp add: check_from_spec)
  from t b have ct: "check_to parse a (rq_station rq) (max_date ms (rq_station rq)) (Some (rq_from rq)) None
                     = Inr (None, Some (rq_to rq))"
    by (simp add: check_to_spec)
  from cq cs ne cf ct show ?thesis
    by (simp add: valid_query_def check_dates_def vq_of_def)
qed

text \<open>
  C2. Refinement: on a complete dataset, \<open>valid_query\<close> accepts a request without
  error and resolves it to a query exactly when the spec's validator accepts it and
  resolves it to the same query.
\<close>

theorem valid_query_refines_spec:
  assumes cd: "complete_dataset ms sts"
  shows "valid_query parse a ms sts = Inr (vq_of rq) \<longleftrightarrow> validate_spec parse a ms sts = Inr rq"
proof
  assume sp: "validate_spec parse a ms sts = Inr rq"
  from cd sp show "valid_query parse a ms sts = Inr (vq_of rq)" by (rule valid_query_from_spec)
next
  assume vq: "valid_query parse a ms sts = Inr (vq_of rq)"
  from cd have ne: "[] \<notin> set (map s_station sts)" by (auto simp: complete_dataset_def)
  have ok: "vq_error (vq_of rq) = None" by (simp add: vq_of_def)
  from valid_query_no_error_stages [OF vq ok ne] obtain q s where
    cq: "check_qtype a = (None, Some q)" and cs: "check_station a sts None = (None, Some s)" and
    cf: "check_from parse a s (min_date ms s) None = Inr (None, Some (rq_from rq))" and
    ct: "check_to parse a s (max_date ms s) (Some (rq_from rq)) None = Inr (None, Some (rq_to rq))" and
    r: "Some q = Some (qkind_str (rq_qtype rq))" "Some s = Some (rq_station rq)"
    by (auto simp: vq_of_def)
  from cs have sin: "arg a ''station'' = Some s" "s \<in> set (map s_station sts)"
    by (auto dest: check_station_ok)
  with cd have "station_rows ms s \<noteq> []" by (auto simp: complete_dataset_def)
  then obtain mn mx where b: "min_date ms s = Some mn" "max_date ms s = Some mx"
    by (cases "min_date ms s"; cases "max_date ms s") (auto simp: min_date_None_iff max_date_None_iff)
  from cf b have f: "spec_from parse a mn = Inr (rq_from rq)" by (simp add: check_from_spec)
  from ct b have t: "spec_to parse a (rq_from rq) mx = Inr (rq_to rq)" by (simp add: check_to_spec)
  from cq r obtain k where k: "map_option qkind_of (arg a ''qtype'') = Some (Some k)"
      "qkind_str k = qkind_str (rq_qtype rq)"
    using check_qtype_spec by fastforce
  from k(2) have kq: "k = rq_qtype rq" by (rule qkind_str_inj)
  from k(1) obtain q0 where q0: "arg a ''qtype'' = Some q0" "qkind_of q0 = Some k" by auto
  from q0 kq sin b f t r show "validate_spec parse a ms sts = Inr rq"
    by (simp add: validate_spec_def)
qed

theorem valid_query_refines_spec_witness:
  "validate_spec parse_iso ex_args ex_measurements ex_stations
     = Inr \<lparr>rq_qtype = QStats, rq_station = ''USC00519397'', rq_from = 734503, rq_to = 734505\<rparr>
   \<and> valid_query parse_iso ex_args ex_measurements ex_stations
     = Inr (vq_of \<lparr>rq_qtype = QStats, rq_station = ''USC00519397'', rq_from = 734503, rq_to = 734505\<rparr>)"
proof -
  have sp: "validate_spec parse_iso ex_args ex_measurements ex_stations
     = Inr \<lparr>rq_qtype = QStats, rq_station = ''USC00519397'', rq_from = 734503, rq_to = 734505\<rparr>"
    by (simp add: validate_spec_def spec_from_def spec_to_def qkind_of_def ex_args_def ex_bounds
        ex_stations_def)
  with valid_query_refines_spec [OF ex_complete] show ?thesis by simp
qed

subsection \<open>Error paths\<close>


lemma check_qtype_Some: "arg a ''qtype'' = Some q \<Longrightarrow> \<exists>e. check_qtype a = (e, Some q)"
  by (simp add: check_qtype_def)

lemma check_station_Some: "arg a ''station'' = Some s \<Longrightarrow> \<exists>e'. check_station a sts e = (e', Some s)"
  by (simp add: check_station_def)

lemma valid_query_dates:
  assumes "arg a ''qtype'' = Some q" "q \<noteq> []" "arg a ''station'' = Some s" "s \<noteq> []"
  shows "\<exists>e. valid_query parse a ms sts =
           (case check_dates parse a ms s e of
              Inl x \<Rightarrow> Inl x
            | Inr (e4, f, t) \<Rightarrow> Inr \<lparr>vq_error = e4, vq_qtype = Some q, vq_station = Some s,
                                   vq_from = f, vq_to = t\<rparr>)"
proof -
  from check_qtype_Some [OF assms(1)] obtain e1 where cq: "check_qtype a = (e1, Some q)" ..
  from check_station_Some [OF assms(3)] obtain e2 where cs: "check_station a sts e1 = (e2, Some s)" ..
  from cq cs assms(2,4) show ?thesis by (auto simp: valid_query_def)
qed

lemma check_from_measured:
  "min_date ms s = Some mn \<Longrightarrow> \<exists>e f. check_from parse a s (min_date ms s) err = Inr (e, f)"
  by (auto simp: check_from_def split: option.splits)

lemma min_date_Some_rows: "station_rows ms s \<noteq> [] \<Longrightarrow> \<exists>mn. min_date ms s = Some mn"
  by (cases "min_date ms s") (auto simp: min_date_None_iff)

lemma max_date_Some_rows: "station_rows ms s \<noteq> [] \<Longrightarrow> \<exists>mx. max_date ms s = Some mx"
  by (cases "max_date ms s") (auto simp: max_date_None_iff)

lemma check_dates_source:
  assumes "check_dates parse a ms s e = Inr (e', f, t)"
  shows "(\<forall>x. f = Some x \<longrightarrow> (\<exists>fs. parse fs = Some x) \<or> min_date ms s = Some x)
       \<and> (\<forall>x. t = Some x \<longrightarrow> (\<exists>ts. parse ts = Some x) \<or> max_date ms s = Some x)"
  using assms by (auto simp: check_dates_def check_from_def check_to_def parse_to_def
                      split: option.splits sum.splits if_splits)

lemma valid_query_dates_source:
  assumes "valid_query parse a ms sts = Inr r"
  shows "(\<forall>x. vq_from r = Some x \<longrightarrow> (\<exists>fs. parse fs = Some x) \<or> x \<in> m_date ` set ms)
       \<and> (\<forall>x. vq_to r = Some x \<longrightarrow> (\<exists>ts. parse ts = Some x) \<or> x \<in> m_date ` set ms)"
  using assms
  by (auto simp: valid_query_def split: if_splits option.splits sum.splits prod.splits
           dest!: check_dates_source min_date_stored max_date_stored)

lemma valid_query_explicit_range:
  assumes q: "q \<in> {''stats'', ''data''}" and s: "s \<in> set (map s_station sts)" "s \<noteq> []"
    and mm: "min_date ms s = Some a" "max_date ms s = Some b" and ab: "a \<le> b"
    and p: "parse fs = Some a" "parse ts = Some b"
  shows "valid_query parse [(''qtype'', q), (''station'', s), (''from_date'', fs), (''to_date'', ts)] ms sts
           = Inr \<lparr>vq_error = (if b = a then Some (ToDateNotAfterFrom fs ts) else None), vq_qtype = Some q,
                  vq_station = Some s, vq_from = Some a, vq_to = Some b\<rparr>"
  using assms
  by (auto simp: valid_query_def check_qtype_def check_station_def check_dates_def check_from_def
                 check_to_def parse_to_def)

lemma valid_query_open_to:
  assumes q: "arg a ''qtype'' = Some q" "q \<in> {''stats'', ''data''}"
    and s: "arg a ''station'' = Some s" "s \<in> set (map s_station sts)" "s \<noteq> []"
    and fr: "arg a ''from_date'' = Some fs" "parse fs = Some fd"
    and mm: "min_date ms s = Some mn" "mn \<le> fd" "max_date ms s = Some mx"
    and nt: "arg a ''to_date'' = None"
  shows "valid_query parse a ms sts = Inr \<lparr>vq_error = None, vq_qtype = Some q, vq_station = Some s,
                                           vq_from = Some fd, vq_to = Some mx\<rparr>"
  using assms
  by (auto simp: valid_query_def check_qtype_def check_station_def check_dates_def check_from_def
                 check_to_def)

text \<open>C11. An unparseable \<^verbatim>\<open>to_date\<close> makes the request crash with \<^verbatim>\<open>TypeError\<close>.\<close>

theorem valid_query_bad_to_date_crashes:
  assumes q: "arg a ''qtype'' = Some q" "q \<noteq> []" and s: "arg a ''station'' = Some s" "s \<noteq> []"
    and rows: "station_rows ms s \<noteq> []"
    and ts: "arg a ''to_date'' = Some ts" "parse ts = None"
  shows "valid_query parse a ms sts = Inl TypeError"
proof -
  from min_date_Some_rows [OF rows] obtain mn where mn: "min_date ms s = Some mn" ..
  from valid_query_dates [OF q s] obtain e where
    vq: "valid_query parse a ms sts =
           (case check_dates parse a ms s e of
              Inl x \<Rightarrow> Inl x
            | Inr (e4, f, t) \<Rightarrow> Inr \<lparr>vq_error = e4, vq_qtype = Some q, vq_station = Some s,
                                   vq_from = f, vq_to = t\<rparr>)" ..
  from check_from_measured [OF mn] obtain e3 f where
    cf: "check_from parse a s (min_date ms s) e = Inr (e3, f)" by blast
  with ts have "check_dates parse a ms s e = Inl TypeError"
    by (simp add: check_dates_def check_to_def parse_to_def)
  with vq show ?thesis by simp
qed

theorem valid_query_bad_to_date_crashes_witness:
  "valid_query parse_iso [(''qtype'', ''stats''), (''station'', ''USC00519397''), (''to_date'', ''2012-13-45'')]
     ex_measurements ex_stations = Inl TypeError"
  by (rule valid_query_bad_to_date_crashes [where q = "''stats''" and s = "''USC00519397''"
        and ts = "''2012-13-45''"]) (simp_all add: model_defs ex_measurements_def)

text \<open>
  C12. An explicit \<^verbatim>\<open>to_date\<close> not after the defaulted start date (no
  \<^verbatim>\<open>from_date\<close>) crashes with \<^verbatim>\<open>UnboundLocalError\<close>: the message reads the
  unset variable \<^verbatim>\<open>from_date\<close>.
\<close>

theorem valid_query_default_from_unbound:
  assumes q: "arg a ''qtype'' = Some q" "q \<noteq> []" and s: "arg a ''station'' = Some s" "s \<noteq> []"
    and fs: "arg a ''from_date'' = None"
    and ts: "arg a ''to_date'' = Some ts" "parse ts = Some td"
    and mn: "min_date ms s = Some mn" and le: "td \<le> mn"
  shows "valid_query parse a ms sts = Inl UnboundLocalError"
proof -
  from mn have "station_rows ms s \<noteq> []" by (auto simp: min_date_None_iff [symmetric])
  from max_date_Some_rows [OF this] obtain mx where mx: "max_date ms s = Some mx" ..
  from valid_query_dates [OF q s] obtain e where
    vq: "valid_query parse a ms sts =
           (case check_dates parse a ms s e of
              Inl x \<Rightarrow> Inl x
            | Inr (e4, f, t) \<Rightarrow> Inr \<lparr>vq_error = e4, vq_qtype = Some q, vq_station = Some s,
                                   vq_from = f, vq_to = t\<rparr>)" ..
  from fs ts mn mx le have "check_dates parse a ms s e = Inl UnboundLocalError"
    by (simp add: check_dates_def check_from_def check_to_def parse_to_def)
  with vq show ?thesis by simp
qed

theorem valid_query_default_from_unbound_witness:
  "valid_query parse_iso [(''qtype'', ''data''), (''station'', ''USC00519397''), (''to_date'', ''2012-01-01'')]
     ex_measurements ex_stations = Inl UnboundLocalError"
  by (rule valid_query_default_from_unbound [where q = "''data''" and s = "''USC00519397''"
        and ts = "''2012-01-01''" and td = 734503 and mn = 734503])
     (simp_all add: ex_bounds ex_dates)

text \<open>
  C16. Both dates explicit and the end not after the start: the query is refused with the
  \<^verbatim>\<open>to_date\<close>-after-\<^verbatim>\<open>from_date\<close> message quoting both strings (the spec's scenario
  of equal dates included).
\<close>

theorem valid_query_to_not_after_from:
  assumes q: "arg a ''qtype'' = Some q" "q \<noteq> []" and s: "arg a ''station'' = Some s" "s \<noteq> []"
    and rows: "station_rows ms s \<noteq> []"
    and fs: "arg a ''from_date'' = Some fs" "parse fs = Some fd"
    and ts: "arg a ''to_date'' = Some ts" "parse ts = Some td" and le: "td \<le> fd"
  shows "\<exists>r. valid_query parse a ms sts = Inr r \<and> vq_error r = Some (ToDateNotAfterFrom fs ts)"
proof -
  from min_date_Some_rows [OF rows] obtain mn where mn: "min_date ms s = Some mn" ..
  from max_date_Some_rows [OF rows] obtain mx where mx: "max_date ms s = Some mx" ..
  from valid_query_dates [OF q s] obtain e where
    vq: "valid_query parse a ms sts =
           (case check_dates parse a ms s e of
              Inl x \<Rightarrow> Inl x
            | Inr (e4, f, t) \<Rightarrow> Inr \<lparr>vq_error = e4, vq_qtype = Some q, vq_station = Some s,
                                   vq_from = f, vq_to = t\<rparr>)" ..
  from fs ts mn mx le
  have "check_dates parse a ms s e = Inr (Some (ToDateNotAfterFrom fs ts), Some fd, Some td)"
    by (simp add: check_dates_def check_from_def check_to_def parse_to_def)
  with vq show ?thesis by simp
qed

theorem valid_query_to_not_after_from_witness:
  "\<exists>r. valid_query parse_iso [(''qtype'', ''stats''), (''station'', ''USC00519397''),
        (''from_date'', ''2012-01-03''), (''to_date'', ''2012-01-03'')] ex_measurements ex_stations = Inr r
     \<and> vq_error r = Some (ToDateNotAfterFrom ''2012-01-03'' ''2012-01-03'')"
  by (rule valid_query_to_not_after_from [where q = "''stats''" and s = "''USC00519397''"
        and fd = 734505 and td = 734505])
     (simp_all add: ex_dates ex_measurements_def station_rows_def)

lemma valid_query_unknown_station_any:
  assumes q: "arg a ''qtype'' = Some q" "q \<noteq> []" and s: "arg a ''station'' = Some s"
    and sin: "s \<notin> set (map s_station sts)"
    and nd: "arg a ''from_date'' = None" "arg a ''to_date'' = None"
  shows "\<exists>r. valid_query parse a ms sts = Inr r \<and> vq_error r = Some (StationInvalid s)"
proof -
  from check_qtype_Some [OF q(1)] obtain e1 where cq: "check_qtype a = (e1, Some q)" ..
  from s sin have cs: "check_station a sts e1 = (Some (StationInvalid s), Some s)"
    by (simp add: check_station_def)
  from nd have "check_dates parse a ms s (Some (StationInvalid s))
                = Inr (Some (StationInvalid s), min_date ms s, max_date ms s)"
    by (simp add: check_dates_def check_from_def check_to_def)
  with cq cs q(2) show ?thesis by (auto simp: valid_query_def)
qed

text \<open>
  C17. A request for a station that is not listed, with a valid \<^verbatim>\<open>qtype\<close> and no
  dates, is refused with the invalid-station message echoing the station.
\<close>

theorem valid_query_unknown_station:
  assumes "arg a ''qtype'' = Some q" "q \<in> {''stats'', ''data''}" "arg a ''station'' = Some s"
    "s \<notin> set (map s_station sts)" "arg a ''from_date'' = None" "arg a ''to_date'' = None"
  shows "\<exists>r. valid_query parse a ms sts = Inr r \<and> vq_error r = Some (StationInvalid s)"
  using assms valid_query_unknown_station_any [of a q s sts parse ms] by auto

theorem valid_query_unknown_station_witness:
  "\<exists>r. valid_query parse_iso [(''qtype'', ''stats''), (''station'', ''USC00000000'')]
        ex_measurements ex_stations = Inr r \<and> vq_error r = Some (StationInvalid ''USC00000000'')"
  by (rule valid_query_unknown_station [where q = "''stats''"]) (simp_all add: ex_stations_def)

text \<open>
  C13. The error reported is the last one detected, not the first: an invalid
  \<^verbatim>\<open>qtype\<close> together with an unlisted station is reported as the station error.
\<close>

theorem valid_query_last_error_wins:
  assumes "arg a ''qtype'' = Some q" "q \<notin> {''stats'', ''data''}" "q \<noteq> []"
    "arg a ''station'' = Some s" "s \<notin> set (map s_station sts)"
    "arg a ''from_date'' = None" "arg a ''to_date'' = None"
  shows "\<exists>r. valid_query parse a ms sts = Inr r \<and> vq_error r = Some (StationInvalid s)
           \<and> fst (check_qtype a) = Some (QtypeInvalid q)"
proof -
  from assms(1,2) have "fst (check_qtype a) = Some (QtypeInvalid q)"
    by (simp add: check_qtype_def)
  with assms valid_query_unknown_station_any [of a q s sts parse ms] show ?thesis by auto
qed

theorem valid_query_last_error_wins_witness:
  "\<exists>r. valid_query parse_iso [(''qtype'', ''mean''), (''station'', ''USC00000000'')]
        ex_measurements ex_stations = Inr r \<and> vq_error r = Some (StationInvalid ''USC00000000'')
     \<and> fst (check_qtype [(''qtype'', ''mean''), (''station'', ''USC00000000'')]) = Some (QtypeInvalid ''mean'')"
  by (rule valid_query_last_error_wins) (simp_all add: ex_stations_def)

text \<open>
  C14. For any dataset, parser and request with a valid \<^verbatim>\<open>qtype\<close>, a listed
  station, no \<^verbatim>\<open>to_date\<close> and a \<^verbatim>\<open>from_date\<close> that parses to a day after the
  station's last observation: the query is accepted without error, and the resolved
  range starts after it ends.
\<close>

theorem valid_query_from_after_last_accepted:
  assumes q: "arg a ''qtype'' = Some q" "q \<in> {''stats'', ''data''}"
    and s: "arg a ''station'' = Some s" "s \<in> set (map s_station sts)" "s \<noteq> []"
    and fr: "arg a ''from_date'' = Some fs" "parse fs = Some fd"
    and mx: "max_date ms s = Some mx" "mx < fd"
    and nt: "arg a ''to_date'' = None"
  shows "valid_query parse a ms sts = Inr \<lparr>vq_error = None, vq_qtype = Some q, vq_station = Some s,
                                           vq_from = Some fd, vq_to = Some mx\<rparr>"
proof -
  from mx(1) have "station_rows ms s \<noteq> []" by (auto simp: max_date_None_iff [symmetric])
  then obtain mn where mn: "min_date ms s = Some mn" by (auto dest: min_date_Some_rows)
  have "mn \<le> fd" using min_le_max_date [OF mn mx(1)] mx(2) by simp
  from valid_query_open_to [where parse = parse, OF q s fr mn this mx(1) nt] show ?thesis .
qed

theorem valid_query_from_after_last_accepted_witness:
  "valid_query parse_iso [(''qtype'', ''stats''), (''station'', ''USC00519397''), (''from_date'', ''2012-01-04'')]
     ex_measurements ex_stations
   = Inr \<lparr>vq_error = None, vq_qtype = Some ''stats'', vq_station = Some ''USC00519397'',
          vq_from = Some 734506, vq_to = Some 734505\<rparr>"
proof -
  have p: "parse_iso ''2012-01-04'' = Some 734506" by (simp add: model_defs)
  show ?thesis
    by (rule valid_query_from_after_last_accepted [where parse = parse_iso and fs = "''2012-01-04''"])
       (simp_all add: ex_bounds ex_stations_def p)
qed

(* Routes *)

end
