(* ===== verification/Filler.thy ===== *)
theory Filler
  imports Dataset "HOL-Library.While_Combinator"
begin

text \<open>
  The range filler \<^verbatim>\<open>filter_df\<close> of \<^verbatim>\<open>src/app.py\<close> (lines 100--106).
  \<^verbatim>\<open>pd.date_range(start, end)\<close> is the day list \<open>[a..b]\<close> (empty when
  \<open>a > b\<close>; \<^verbatim>\<open>NaT\<close> as an end raises \<^verbatim>\<open>ValueError\<close>).
  \<^verbatim>\<open>pd.merge_ordered(df_date, df_stadata, on='date', how='left', fill_method='ffill')\<close>
  is a left join followed by pandas' \<^verbatim>\<open>ffill_indexer\<close> on the right side's row
  indexer: a day without a matching row takes the whole last matched row, missing
  values included, and no row at all before the first match. The left join keeps every
  matching row of a day, so a duplicated date would give several rows.
\<close>

record filt_row =
  f_date :: day
  f_prec :: "real option"
  f_temp :: "real option"

definition date_range :: "day option \<Rightarrow> day option \<Rightarrow> pyexc + day list" where
  "date_range f t = (case (f, t) of (Some a, Some b) \<Rightarrow> Inr [a..b] | _ \<Rightarrow> Inl ValueError)"

text \<open>
  pandas builds the day index of \<^verbatim>\<open>pd.date_range\<close> with the generator loop of
  \<^verbatim>\<open>_generate_range\<close>: \<^verbatim>\<open>cur = start; while cur <= end: yield cur;
  cur = cur + offset\<close>. That loop is library code and is modelled from the spec as a
  \<open>while_option\<close> over the pair (days produced so far, current day).
\<close>

definition gen_guard :: "day \<Rightarrow> day list \<times> day \<Rightarrow> bool" where
  "gen_guard b = (\<lambda>(acc, cur). cur \<le> b)"

definition gen_step :: "day list \<times> day \<Rightarrow> day list \<times> day" where
  "gen_step = (\<lambda>(acc, cur). (acc @ [cur], cur + 1))"

definition generate_range :: "day \<Rightarrow> day \<Rightarrow> day list option" where
  "generate_range a b = map_option fst (while_option (gen_guard b) gen_step ([], a))"

definition left_join :: "day list \<Rightarrow> measurement list \<Rightarrow> (day \<times> measurement option) list" where
  "left_join ds rows =
     concat (map (\<lambda>d. case filter (\<lambda>m. m_date m = d) rows of
                        [] \<Rightarrow> [(d, None)]
                      | ms \<Rightarrow> map (\<lambda>m. (d, Some m)) ms) ds)"

fun ffill_indexer :: "'a option \<Rightarrow> (day \<times> 'a option) list \<Rightarrow> (day \<times> 'a option) list" where
  "ffill_indexer last_obs [] = []"
| "ffill_indexer last_obs ((d, None) # xs) = (d, last_obs) # ffill_indexer last_obs xs"
| "ffill_indexer last_obs ((d, Some r) # xs) = (d, Some r) # ffill_indexer (Some r) xs"

definition to_filt_row :: "day \<times> measurement option \<Rightarrow> filt_row" where
  "to_filt_row x =
     (case x of
        (d, None) \<Rightarrow> \<lparr>f_date = d, f_prec = None, f_temp = None\<rparr>
      | (d, Some m) \<Rightarrow> \<lparr>f_date = d, f_prec = prec m, f_temp = temp m\<rparr>)"

definition filter_df ::
  "measurement list \<Rightarrow> string \<Rightarrow> day option \<Rightarrow> day option \<Rightarrow> pyexc + filt_row list" where
  "filter_df ms s f t =
     (case date_range f t of
        Inl e \<Rightarrow> Inl e
      | Inr dti \<Rightarrow> Inr (map to_filt_row (ffill_indexer None (left_join dti (station_rows ms s)))))"

primrec filt_col :: "column \<Rightarrow> filt_row \<Rightarrow> real option" where
  "filt_col Prec r = f_prec r"
| "filt_col Temp r = f_temp r"

subsection \<open>Reference definitions\<close>

text \<open>
  The observation in force on day \<open>d\<close> of a range starting at \<open>lo\<close>: the row of
  the latest day in \<open>[lo, d]\<close> that has a row.
\<close>

function latest_obs :: "measurement list \<Rightarrow> day \<Rightarrow> day \<Rightarrow> measurement option" where
  "latest_obs rows lo d =
     (if d < lo then None
      else case find (\<lambda>m. m_date m = d) rows of
             Some m \<Rightarrow> Some m
           | None \<Rightarrow> latest_obs rows lo (d - 1))"
  by pat_completeness auto
termination
  by (relation "measure (\<lambda>(rows, lo, d). nat (d - lo + 1))") auto

text \<open>
  The spec's forward fill (section 4.3): each column on its own, from the latest day in
  \<open>[lo, d]\<close> whose value in that column is present.
\<close>

function fill_col :: "column \<Rightarrow> measurement list \<Rightarrow> day \<Rightarrow> day \<Rightarrow> real option" where
  "fill_col c rows lo d =
     (if d < lo then None
      else case find (\<lambda>m. m_date m = d \<and> col_val c m \<noteq> None) rows of
             Some m \<Rightarrow> col_val c m
           | None \<Rightarrow> fill_col c rows lo (d - 1))"
  by pat_completeness auto
termination
  by (relation "measure (\<lambda>(c, rows, lo, d). nat (d - lo + 1))") auto

declare latest_obs.simps [simp del] fill_col.simps [simp del]
declare date_range_def [model_defs] left_join_def [model_defs] to_filt_row_def [model_defs]
  filter_df_def [model_defs]

subsection \<open>The join on consecutive days\<close>

lemma filter_date_distinct:
  "distinct (map m_date rows) \<Longrightarrow>
     filter (\<lambda>m. m_date m = d) rows = (case find (\<lambda>m. m_date m = d) rows of None \<Rightarrow> [] | Some m \<Rightarrow> [m])"
  by (induction rows) (auto split: option.splits simp: filter_empty_conv find_None_iff dest!: find_SomeD)

lemma left_join_distinct:
  "distinct (map m_date rows) \<Longrightarrow>
     left_join ds rows = map (\<lambda>d. (d, find (\<lambda>m. m_date m = d) rows)) ds"
  by (induction ds) (auto simp: left_join_def filter_date_distinct split: option.splits)

lemma latest_obs_below: "d < lo \<Longrightarrow> latest_obs rows lo d = None"
  by (simp add: latest_obs.simps)

lemma latest_obs_step:
  "lo \<le> d \<Longrightarrow> latest_obs rows lo d =
     (case find (\<lambda>m. m_date m = d) rows of Some m \<Rightarrow> Some m | None \<Rightarrow> latest_obs rows lo (d - 1))"
  by (simp add: latest_obs.simps)

lemma ffill_latest:
  "lo \<le> a \<Longrightarrow>
     ffill_indexer (latest_obs rows lo (a - 1)) (map (\<lambda>d. (d, find (\<lambda>m. m_date m = d) rows)) [a..b])
     = map (\<lambda>d. (d, latest_obs rows lo d)) [a..b]"
proof (induction "nat (b - a + 1)" arbitrary: a)
  case 0
  then show ?case by simp
next
  case (Suc n)
  then have ab: "a \<le> b" by simp
  then have up: "[a..b] = a # [a + 1..b]" by (simp add: upto_rec1)
  have ih: "ffill_indexer (latest_obs rows lo a) (map (\<lambda>d. (d, find (\<lambda>m. m_date m = d) rows)) [a + 1..b])
            = map (\<lambda>d. (d, latest_obs rows lo d)) [a + 1..b]"
    using Suc.hyps(1) [of "a + 1"] Suc.hyps(2) Suc.prems by simp
  show ?case
  proof (cases "find (\<lambda>m. m_date m = a) rows")
    case None
    with Suc.prems have "latest_obs rows lo a = latest_obs rows lo (a - 1)"
      by (simp add: latest_obs_step)
    with None ih up show ?thesis by simp
  next
    case (Some m)
    with Suc.prems have "latest_obs rows lo a = Some m"
      by (simp add: latest_obs_step)
    with Some ih up show ?thesis by simp
  qed
qed

lemma filter_df_days:
  assumes "distinct (map m_date (station_rows ms s))"
  shows "filter_df ms s (Some f) (Some t)
           = Inr (map (\<lambda>d. to_filt_row (d, latest_obs (station_rows ms s) f d)) [f..t])"
proof -
  have "ffill_indexer None (left_join [f..t] (station_rows ms s))
          = map (\<lambda>d. (d, latest_obs (station_rows ms s) f d)) [f..t]"
    using ffill_latest [of f f "station_rows ms s" t] assms
    by (simp add: left_join_distinct latest_obs_below)
  then show ?thesis by (simp add: filter_df_def date_range_def)
qed

subsection \<open>Column values\<close>

lemma find_col_all:
  "\<forall>m \<in> set rows. col_val c m \<noteq> None \<Longrightarrow>
     find (\<lambda>m. m_date m = d \<and> col_val c m \<noteq> None) rows = find (\<lambda>m. m_date m = d) rows"
  by (induction rows) auto

lemma fill_col_below: "d < lo \<Longrightarrow> fill_col c rows lo d = None"
  by (simp add: fill_col.simps)

lemma fill_col_step:
  "lo \<le> d \<Longrightarrow> fill_col c rows lo d =
     (case find (\<lambda>m. m_date m = d \<and> col_val c m \<noteq> None) rows of
        Some m \<Rightarrow> col_val c m | None \<Rightarrow> fill_col c rows lo (d - 1))"
  by (simp add: fill_col.simps)

lemma filt_col_to_filt_row:
  "filt_col c (to_filt_row (d, r)) = (case r of None \<Rightarrow> None | Some m \<Rightarrow> col_val c m)"
  by (cases c; cases r) (simp_all add: to_filt_row_def)

lemma latest_col_eq_fill_col:
  assumes all: "\<forall>m \<in> set rows. col_val c m \<noteq> None"
  shows "(case latest_obs rows lo d of None \<Rightarrow> None | Some m \<Rightarrow> col_val c m) = fill_col c rows lo d"
proof (induction "nat (d - lo + 1)" arbitrary: d)
  case 0
  then show ?case by (simp add: latest_obs_below fill_col_below)
next
  case (Suc n)
  then have le: "lo \<le> d" by simp
  have ih: "(case latest_obs rows lo (d - 1) of None \<Rightarrow> None | Some m \<Rightarrow> col_val c m)
              = fill_col c rows lo (d - 1)"
    using Suc.hyps(1) [of "d - 1"] Suc.hyps(2) by simp
  from all have "find (\<lambda>m. m_date m = d \<and> col_val c m \<noteq> None) rows = find (\<lambda>m. m_date m = d) rows"
    by (rule find_col_all)
  with le ih show ?case
    by (simp add: latest_obs_step fill_col_step split: option.splits)
qed

lemma f_date_to_filt_row [simp]: "f_date (to_filt_row x) = fst x"
  by (cases x; cases "snd x") (auto simp: to_filt_row_def)

lemma find_date_distinct:
  "distinct (map m_date rows) \<Longrightarrow> m \<in> set rows \<Longrightarrow> find (\<lambda>x. m_date x = m_date m) rows = Some m"
  by (induction rows) (auto simp: image_iff)

lemma fill_col_present:
  assumes "m' \<in> set rows" "col_val c m' \<noteq> None" "lo \<le> m_date m'" "m_date m' \<le> d"
  shows "fill_col c rows lo d \<noteq> None"
  using assms(4)
proof (induction "nat (d - m_date m')" arbitrary: d)
  case 0
  then have d: "d = m_date m'" by simp
  have "find (\<lambda>m. m_date m = d \<and> col_val c m \<noteq> None) rows \<noteq> None"
    using assms(1,2) d by (auto simp: find_None_iff)
  then show ?case using assms(3) d
    by (auto simp: fill_col_step split: option.splits dest: find_SomeD)
next
  case (Suc n)
  then have lt: "m_date m' \<le> d - 1" "lo \<le> d" using assms(3) by linarith+
  have ih: "fill_col c rows lo (d - 1) \<noteq> None" using Suc.hyps(1) [of "d - 1"] Suc.hyps(2) lt by simp
  show ?case using ih lt(2)
    by (auto simp: fill_col_step split: option.splits dest: find_SomeD)
qed

subsection \<open>Properties of the filled series\<close>

text \<open>
  C3. On a well-formed dataset, the series \<open>filter_df\<close> builds for a range has one
  row per calendar day of the range, in order: its length is the inclusive day count.
\<close>

theorem filter_df_days_index:
  assumes wf: "wf_dataset ms sts" and fd: "filter_df ms s (Some f) (Some t) = Inr rows"
  shows "length rows = nat (t - f + 1) \<and> map f_date rows = [f..t]"
proof -
  from fd filter_df_days [OF wf_station_dates [OF wf]]
  have "rows = map (\<lambda>d. to_filt_row (d, latest_obs (station_rows ms s) f d)) [f..t]"
    by simp
  then show ?thesis by (simp add: comp_def)
qed

theorem filter_df_days_index_witness:
  "\<exists>rows. filter_df ex_measurements ''USC00519397'' (Some 734503) (Some 734505) = Inr rows
     \<and> length rows = 3 \<and> map f_date rows = [734503, 734504, 734505]"
proof -
  obtain rows where fd: "filter_df ex_measurements ''USC00519397'' (Some 734503) (Some 734505) = Inr rows"
    by (simp add: filter_df_def date_range_def)
  from filter_df_days_index [OF ex_wf fd] fd show ?thesis
    by (simp add: upto.simps)
qed

text \<open>
  C4. Each day of the series carries the row of the latest day in the range, on or
  before it, for which the station has a record, values missing in that record
  included; before the first such day the values are missing.
\<close>

theorem filter_df_forward_fill:
  assumes wf: "wf_dataset ms sts" and fd: "filter_df ms s (Some f) (Some t) = Inr rows"
    and i: "i < length rows"
  shows "filt_col c (rows ! i) =
           (case latest_obs (station_rows ms s) f (f + int i) of None \<Rightarrow> None | Some m \<Rightarrow> col_val c m)"
proof -
  from fd filter_df_days [OF wf_station_dates [OF wf]]
  have rows: "rows = map (\<lambda>d. to_filt_row (d, latest_obs (station_rows ms s) f d)) [f..t]"
    by simp
  with i have "f + int i \<le> t" by simp
  with rows i show ?thesis by (simp add: filt_col_to_filt_row)
qed

theorem filter_df_forward_fill_witness:
  "\<exists>rows. filter_df ex_measurements ''USC00519397'' (Some 734503) (Some 734505) = Inr rows
     \<and> 1 < length rows \<and> filt_col Prec (rows ! 1) = Some 0.5"
proof -
  obtain rows where fd: "filter_df ex_measurements ''USC00519397'' (Some 734503) (Some 734505) = Inr rows"
    by (simp add: filter_df_def date_range_def)
  from fd have len: "1 < length rows"
    by (auto simp: model_defs ex_measurements_def upto.simps)
  have "latest_obs (station_rows ex_measurements ''USC00519397'') 734503 734504
        = Some (hd ex_measurements)"
    by (simp add: latest_obs.simps ex_measurements_def station_rows_def)
  with filter_df_forward_fill [OF ex_wf fd len, of Prec] fd len show ?thesis
    by (simp add: ex_measurements_def)
qed

text \<open>
  C5. Where the station has a value in the column on every day it has a record, the
  series agrees with the spec's per-column forward fill, and the filler returns.
\<close>

theorem filter_df_refines_fill_col:
  assumes wf: "wf_dataset ms sts" and all: "\<forall>m \<in> set (station_rows ms s). col_val c m \<noteq> None"
  shows "\<exists>rows. filter_df ms s (Some f) (Some t) = Inr rows
           \<and> map (filt_col c) rows = map (fill_col c (station_rows ms s) f) [f..t]"
proof -
  have "\<And>d. (case latest_obs (station_rows ms s) f d of None \<Rightarrow> None | Some m \<Rightarrow> col_val c m)
              = fill_col c (station_rows ms s) f d"
    using all by (rule latest_col_eq_fill_col)
  with filter_df_days [OF wf_station_dates [OF wf]] show ?thesis
    by (simp add: filt_col_to_filt_row)
qed

theorem filter_df_refines_fill_col_witness:
  "\<exists>rows. filter_df ex_measurements ''USC00519397'' (Some 734503) (Some 734505) = Inr rows
     \<and> map (filt_col Prec) rows = [Some 0.5, Some 0.5, Some 1.0]"
proof -
  have all: "\<forall>m \<in> set (station_rows ex_measurements ''USC00519397''). col_val Prec m \<noteq> None"
    by (simp add: ex_measurements_def station_rows_def del: not_None_eq)
  have fill: "map (fill_col Prec (station_rows ex_measurements ''USC00519397'') 734503) [734503..734505]
        = [Some 0.5, Some 0.5, Some 1.0]"
    by (simp add: fill_col.simps upto.simps ex_measurements_def station_rows_def del: not_None_eq)
  from filter_df_refines_fill_col [OF ex_wf all, of 734503 734505] obtain rows where
    "filter_df ex_measurements ''USC00519397'' (Some 734503) (Some 734505) = Inr rows"
    "map (filt_col Prec) rows = map (fill_col Prec (station_rows ex_measurements ''USC00519397'') 734503) [734503..734505]"
    by blast
  with fill show ?thesis by auto
qed

text \<open>
  C10. The code's fill is not the spec's. A day with no record copies the whole last
  record (pandas fills the join's row index), so a day whose own record lacks a value
  keeps it missing. The spec's per-column fill carries the last present value. On any
  well-formed dataset, whenever a station's record lacks a value in a column and an
  earlier record in the range has one, the filled series has no value on that day while
  the spec's fill has one.
\<close>

theorem filter_df_row_fill_divergence:
  assumes wf: "wf_dataset ms sts"
    and m: "m \<in> set (station_rows ms s)" "col_val c m = None"
    and m': "m' \<in> set (station_rows ms s)" "col_val c m' \<noteq> None"
    and d: "f \<le> m_date m'" "m_date m' < m_date m" "m_date m \<le> t"
  shows "\<exists>rows r. filter_df ms s (Some f) (Some t) = Inr rows \<and> r \<in> set rows \<and> f_date r = m_date m
           \<and> filt_col c r = None \<and> fill_col c (station_rows ms s) f (m_date m) \<noteq> None"
proof -
  let ?rows = "station_rows ms s"
  have dist: "distinct (map m_date ?rows)" by (rule wf_station_dates [OF wf])
  let ?r = "to_filt_row (m_date m, latest_obs ?rows f (m_date m))"
  have "latest_obs ?rows f (m_date m) = Some m"
    using d find_date_distinct [OF dist m(1)] by (simp add: latest_obs_step)
  then have "filt_col c ?r = None" using m(2) by (simp add: filt_col_to_filt_row)
  moreover have "?r \<in> set (map (\<lambda>d. to_filt_row (d, latest_obs ?rows f d)) [f..t])"
    using d by auto
  moreover have "fill_col c ?rows f (m_date m) \<noteq> None"
    using fill_col_present [OF m'(1,2) d(1)] d(2) by simp
  ultimately show ?thesis using filter_df_days [OF dist, of f t]
    by (intro exI [of _ "map (\<lambda>d. to_filt_row (d, latest_obs ?rows f d)) [f..t]"] exI [of _ ?r]) simp
qed

theorem filter_df_row_fill_divergence_witness:
  "\<exists>rows r. filter_df ex_measurements ''USC00519397'' (Some 734503) (Some 734505) = Inr rows
     \<and> r \<in> set rows \<and> f_date r = 734505 \<and> filt_col Temp r = None
     \<and> fill_col Temp (station_rows ex_measurements ''USC00519397'') 734503 734505 \<noteq> None"
proof -
  let ?m = "\<lparr>m_station = ''USC00519397'', m_date = 734505, prec = Some 1.0, temp = None\<rparr>"
  let ?m' = "\<lparr>m_station = ''USC00519397'', m_date = 734503, prec = Some 0.5, temp = Some 65\<rparr>"
  have "?m \<in> set (station_rows ex_measurements ''USC00519397'')"
    "?m' \<in> set (station_rows ex_measurements ''USC00519397'')"
    by (simp_all add: station_rows_def ex_measurements_def)
  from filter_df_row_fill_divergence [OF ex_wf this(1) _ this(2), of Temp 734503 734505] show ?thesis
    by simp
qed

(* Stats C7 *)


lemma filter_df_scenario:
  "filter_df ex_measurements ''USC00519397'' (parse_iso ''2012-01-01'') (parse_iso ''2012-01-03'')
   = Inr [\<lparr>f_date = 734503, f_prec = Some 0.5, f_temp = Some 65\<rparr>,
          \<lparr>f_date = 734504, f_prec = Some 0.5, f_temp = Some 65\<rparr>,
          \<lparr>f_date = 734505, f_prec = Some 1.0, f_temp = None\<rparr>]"
  by (simp add: ex_dates model_defs ex_measurements_def upto.simps)

subsection \<open>The day-range loop\<close>

lemma gen_steps:
  "(gen_step ^^ n) (acc, cur) = (acc @ [cur..cur + int n - 1], cur + int n)"
proof (induction n arbitrary: acc cur)
  case 0 then show ?case by simp
next
  case (Suc n)
  have "[cur..cur + int (Suc n) - 1] = cur # [cur + 1..cur + 1 + int n - 1]"
    by (simp add: upto_rec1)
  moreover have "(gen_step ^^ Suc n) (acc, cur) = (gen_step ^^ n) (acc @ [cur], cur + 1)"
    by (simp add: funpow_Suc_right gen_step_def del: funpow.simps)
  ultimately show ?case using Suc [of "acc @ [cur]" "cur + 1"] by (simp add: algebra_simps)
qed

lemma gen_loop_exact:
  "while_option (gen_guard b) gen_step (acc, cur) = Some ((gen_step ^^ nat (b - cur + 1)) (acc, cur))"
proof (induction "nat (b - cur + 1)" arbitrary: acc cur)
  case 0
  then have "\<not> cur \<le> b" by simp
  with 0 show ?case by (subst while_option_unfold) (simp add: gen_guard_def)
next
  case (Suc n)
  then have c: "cur \<le> b" and n: "n = nat (b - (cur + 1) + 1)" by simp_all
  have "while_option (gen_guard b) gen_step (acc, cur)
        = while_option (gen_guard b) gen_step (acc @ [cur], cur + 1)"
    using c by (subst while_option_unfold) (simp add: gen_guard_def gen_step_def)
  also have "\<dots> = Some ((gen_step ^^ n) (acc @ [cur], cur + 1))"
    using Suc(1) [OF n, of "acc @ [cur]"] n by simp
  also have "(gen_step ^^ n) (acc @ [cur], cur + 1) = (gen_step ^^ Suc n) (acc, cur)"
    by (simp add: funpow_Suc_right gen_step_def del: funpow.simps)
  finally show ?case using Suc(2) by simp
qed


lemma generate_range_terminates:
  "while_option (gen_guard b) gen_step ([], a) = Some ((gen_step ^^ nat (b - a + 1)) ([], a))
   \<and> date_range (Some a) (Some b) = Inr (the (generate_range a b))"
proof -
  have "[a..a + int (nat (b - a + 1)) - 1] = [a..b]"
    by (cases "a \<le> b + 1") simp_all
  then show ?thesis
    by (simp add: gen_loop_exact generate_range_def gen_steps date_range_def)
qed

end
