(* ===== verification/Stats.thy ===== *)
theory Stats
  imports Filler Format
begin

text \<open>
  The statistics summariser \<^verbatim>\<open>get_stats\<close> (lines 109--137) and the data view
  \<^verbatim>\<open>get_data\<close> (lines 140--147) of \<^verbatim>\<open>src/app.py\<close>, both over the series of
  \<^verbatim>\<open>filter_df\<close>. \<^verbatim>\<open>df_filt[column].quantile(np.arange(0, 1.1, 0.1))\<close> is pandas'
  default estimator: on the sorted present values \<open>ys\<close>, the virtual index
  \<open>h = (n - 1) * q\<close> and numpy's \<^verbatim>\<open>_lerp\<close> between \<open>ys ! \<lfloor>h\<rfloor>\<close> and the next
  value (clipped at the last); \<^verbatim>\<open>NaN\<close> (\<open>None\<close>) when no value is present. The
  probabilities are \<open>k / 10\<close>, \<open>k = 0..10\<close>; labels are \<^verbatim>\<open>min\<close>, \<^verbatim>\<open>10th\<close>,
  \dots, \<^verbatim>\<open>max\<close>. \<^verbatim>\<open>missing / len(df_filt)\<close> divides two Python integers and
  raises \<^verbatim>\<open>ZeroDivisionError\<close> on an empty range. The answer's strings are
  rendered as the code renders them: dates by \<^verbatim>\<open>strftime('%Y-%m-%d')\<close>
  (\<open>fmt_date\<close>, lines 105 and 127--128) and the missing share by
  \<^verbatim>\<open>f"{x:.2%}"\<close> (\<open>pct_str\<close>, line 132).
\<close>

definition present_values :: "column \<Rightarrow> filt_row list \<Rightarrow> real list" where
  "present_values c rows = List.map_filter (filt_col c) rows"

definition lerp_at :: "real list \<Rightarrow> real \<Rightarrow> real" where
  "lerp_at ys h =
     (let lo = nat \<lfloor>h\<rfloor>; hi = min (lo + 1) (length ys - 1)
      in ys ! lo + (h - of_nat lo) * (ys ! hi - ys ! lo))"

definition quantile_lin :: "real list \<Rightarrow> real \<Rightarrow> real option" where
  "quantile_lin xs q =
     (if xs = [] then None else Some (lerp_at (sort xs) (of_nat (length xs - 1) * q)))"

definition quant_label :: "nat \<Rightarrow> string" where
  "quant_label k = (if k = 0 then ''min'' else if k = 10 then ''max'' else nat_str (10 * k) @ ''th'')"

definition quant_list :: "real list \<Rightarrow> (string \<times> real option) list" where
  "quant_list vs = map (\<lambda>k. (quant_label k, round3 (quantile_lin vs (of_nat k / 10)))) [0..<11]"

definition mean_val :: "real list \<Rightarrow> real option" where
  "mean_val vs = (if vs = [] then None else Some (sum_list vs / of_nat (length vs)))"

record stats_result =
  st_station :: string
  st_type :: string
  st_from :: string
  st_to :: string
  days_in_range :: nat
  value_count :: nat
  missing_value_count :: nat
  missing_value_percent :: string
  st_mean :: "real option"
  percentiles :: "(string \<times> real option) list"

definition get_stats ::
  "measurement list \<Rightarrow> column \<Rightarrow> string \<Rightarrow> day option \<Rightarrow> day option \<Rightarrow> pyexc + stats_result" where
  "get_stats ms c s f t =
     (case filter_df ms s f t of
        Inl e \<Rightarrow> Inl e
      | Inr rows \<Rightarrow>
          (let quant = quant_list (present_values c rows);
               missing = length (filter (\<lambda>r. filt_col c r = None) rows)
           in case (f, t) of
                (Some a, Some b) \<Rightarrow>
                  (if length rows = 0 then Inl ZeroDivisionError
                   else Inr \<lparr>st_station = s, st_type = column_desc c, st_from = fmt_date a, st_to = fmt_date b,
                             days_in_range = length rows, value_count = length rows - missing,
                             missing_value_count = missing,
                             missing_value_percent = pct_str (of_nat missing / of_nat (length rows)),
                             st_mean = round3 (mean_val (present_values c rows)),
                             percentiles = quant\<rparr>)
              | _ \<Rightarrow> Inl ValueError))"

record data_result =
  dt_station :: string
  dt_type :: string
  dt_data :: "(string \<times> real option) list"

definition get_data ::
  "measurement list \<Rightarrow> column \<Rightarrow> string \<Rightarrow> day option \<Rightarrow> day option \<Rightarrow> pyexc + data_result" where
  "get_data ms c s f t =
     (case filter_df ms s f t of
        Inl e \<Rightarrow> Inl e
      | Inr rows \<Rightarrow> Inr \<lparr>dt_station = s, dt_type = column_desc c,
                         dt_data = map (\<lambda>r. (fmt_date (f_date r), filt_col c r)) rows\<rparr>)"

declare present_values_def [model_defs] lerp_at_def [model_defs] quantile_lin_def [model_defs]
  quant_label_def [model_defs] quant_list_def [model_defs] mean_val_def [model_defs]
  get_stats_def [model_defs] get_data_def [model_defs]

subsection \<open>The interpolation between order statistics\<close>

lemma sorted_nth_next:
  "sorted ys \<Longrightarrow> ys \<noteq> [] \<Longrightarrow> i \<le> length ys - 1 \<Longrightarrow> ys ! i \<le> ys ! min (i + 1) (length ys - 1)"
  by (rule sorted_nth_mono) (auto simp: min_def)

lemma lerp_at_between:
  assumes s: "sorted ys" and h0: "0 \<le> h" and hn: "h \<le> of_nat (length ys - 1)" and ne: "ys \<noteq> []"
  shows "ys ! nat \<lfloor>h\<rfloor> \<le> lerp_at ys h
         \<and> lerp_at ys h \<le> ys ! min (nat \<lfloor>h\<rfloor> + 1) (length ys - 1)"
proof -
  let ?lo = "nat \<lfloor>h\<rfloor>" and ?hi = "min (nat \<lfloor>h\<rfloor> + 1) (length ys - 1)"
  have lo_le: "?lo \<le> length ys - 1" using h0 hn by linarith
  have t0: "0 \<le> h - of_nat ?lo" and t1: "h - of_nat ?lo \<le> 1" using h0 by linarith+
  have d: "0 \<le> ys ! ?hi - ys ! ?lo"
    using sorted_nth_next [OF s ne lo_le] by simp
  have "(h - of_nat ?lo) * (ys ! ?hi - ys ! ?lo) \<le> 1 * (ys ! ?hi - ys ! ?lo)"
    using t1 d by (rule mult_right_mono)
  moreover have "0 \<le> (h - of_nat ?lo) * (ys ! ?hi - ys ! ?lo)"
    using t0 d by simp
  ultimately show ?thesis by (simp add: lerp_at_def Let_def)
qed

lemma lerp_at_mono:
  assumes s: "sorted ys" and ne: "ys \<noteq> []" and h0: "0 \<le> h1" and h12: "h1 \<le> h2"
    and hn: "h2 \<le> of_nat (length ys - 1)"
  shows "lerp_at ys h1 \<le> lerp_at ys h2"
proof (cases "nat \<lfloor>h1\<rfloor> = nat \<lfloor>h2\<rfloor>")
  case True
  let ?lo = "nat \<lfloor>h1\<rfloor>" and ?hi = "min (nat \<lfloor>h1\<rfloor> + 1) (length ys - 1)"
  have "?lo \<le> length ys - 1" using h0 h12 hn by linarith
  from sorted_nth_next [OF s ne this] have d: "0 \<le> ys ! ?hi - ys ! ?lo" by simp
  have "(h1 - of_nat ?lo) * (ys ! ?hi - ys ! ?lo) \<le> (h2 - of_nat ?lo) * (ys ! ?hi - ys ! ?lo)"
    using h12 d by (simp add: mult_right_mono)
  with True show ?thesis by (simp add: lerp_at_def Let_def)
next
  case False
  with h12 h0 have lt: "nat \<lfloor>h1\<rfloor> + 1 \<le> nat \<lfloor>h2\<rfloor>"
    by (metis Suc_eq_plus1 Suc_leI floor_mono le_less nat_mono)
  have lo2: "nat \<lfloor>h2\<rfloor> \<le> length ys - 1" using h0 h12 hn by linarith
  from lerp_at_between [OF s h0 _ ne] h12 hn
  have a: "lerp_at ys h1 \<le> ys ! min (nat \<lfloor>h1\<rfloor> + 1) (length ys - 1)" by simp
  from lerp_at_between [OF s _ hn ne] h0 h12
  have b: "ys ! nat \<lfloor>h2\<rfloor> \<le> lerp_at ys h2" by simp
  have "ys ! min (nat \<lfloor>h1\<rfloor> + 1) (length ys - 1) \<le> ys ! nat \<lfloor>h2\<rfloor>"
    using s lt lo2 ne by (simp add: sorted_nth_mono)
  with a b show ?thesis by linarith
qed

subsection \<open>The quantile estimator\<close>

lemma sorted_first_Min:
  assumes "sorted ys" "ys \<noteq> []"
  shows "ys ! 0 = Min (set ys)"
proof (rule Min_eqI [symmetric])
  show "ys ! 0 \<in> set ys" using assms(2) by simp
next
  fix y assume "y \<in> set ys"
  then obtain j where "j < length ys" "y = ys ! j" by (auto simp: in_set_conv_nth)
  with assms(1) show "ys ! 0 \<le> y" by (simp add: sorted_nth_mono)
qed simp

lemma sorted_last_Max:
  assumes "sorted ys" "ys \<noteq> []"
  shows "ys ! (length ys - 1) = Max (set ys)"
proof (rule Max_eqI [symmetric])
  show "ys ! (length ys - 1) \<in> set ys" using assms(2) by simp
next
  fix y assume "y \<in> set ys"
  then obtain j where "j < length ys" "y = ys ! j" by (auto simp: in_set_conv_nth)
  with assms(1) show "y \<le> ys ! (length ys - 1)" by (simp add: sorted_nth_mono)
qed simp

lemma sort_nonempty: "xs \<noteq> [] \<Longrightarrow> sort xs \<noteq> []"
  by (metis length_0_conv length_sort)

lemma quantile_lin_0: "xs \<noteq> [] \<Longrightarrow> quantile_lin xs 0 = Some (Min (set xs))"
  using sorted_first_Min [of "sort xs"] sort_nonempty [of xs]
  by (simp add: quantile_lin_def lerp_at_def)

lemma quantile_lin_1: "xs \<noteq> [] \<Longrightarrow> quantile_lin xs 1 = Some (Max (set xs))"
  using sorted_last_Max [of "sort xs"] sort_nonempty [of xs]
  by (simp add: quantile_lin_def lerp_at_def)

lemma quantile_lin_mono:
  assumes ne: "xs \<noteq> []" and p: "0 \<le> p" "p \<le> q" and q: "q \<le> 1"
  shows "the (quantile_lin xs p) \<le> the (quantile_lin xs q)"
proof -
  let ?n = "of_nat (length xs - 1) :: real"
  have "?n * p \<le> ?n * q" and "?n * q \<le> ?n" and "0 \<le> ?n * p"
    using p q by (simp_all add: mult_left_mono mult_left_le)
  with lerp_at_mono [of "sort xs" "?n * p" "?n * q"] ne sort_nonempty [OF ne] show ?thesis
    by (simp add: quantile_lin_def)
qed

lemma quant_list_length [simp]: "length (quant_list vs) = 11"
  by (simp add: quant_list_def)

lemma quant_list_nth:
  "k < 11 \<Longrightarrow> quant_list vs ! k = (quant_label k, round3 (quantile_lin vs (of_nat k / 10)))"
  by (simp add: quant_list_def)

lemma quant_list_present:
  "vs \<noteq> [] \<Longrightarrow> \<forall>p \<in> set (quant_list vs). snd p \<noteq> None"
  by (simp add: quant_list_def quantile_lin_def del: not_None_eq)

lemma quant_list_sorted:
  assumes ne: "vs \<noteq> []"
  shows "sorted (map (the \<circ> snd) (quant_list vs))"
proof (rule sorted_iff_nth_mono [THEN iffD2], intro allI impI)
  fix i j assume ij: "i \<le> j" "j < length (map (the \<circ> snd) (quant_list vs))"
  then have "of_nat i / 10 \<le> (of_nat j / 10 :: real)" and "(of_nat j / 10 :: real) \<le> 1"
    by (simp_all add: divide_right_mono)
  with ne have "the (quantile_lin vs (of_nat i / 10)) \<le> the (quantile_lin vs (of_nat j / 10))"
    by (intro quantile_lin_mono) simp_all
  then have "round3_val (the (quantile_lin vs (of_nat i / 10)))
             \<le> round3_val (the (quantile_lin vs (of_nat j / 10)))"
    by (rule round3_mono)
  with ne ij show "map (the \<circ> snd) (quant_list vs) ! i \<le> map (the \<circ> snd) (quant_list vs) ! j"
    by (simp add: quant_list_nth quantile_lin_def)
qed

lemma quant_list_ends:
  "vs \<noteq> [] \<Longrightarrow> hd (quant_list vs) = (''min'', round3 (Some (Min (set vs))))
     \<and> last (quant_list vs) = (''max'', round3 (Some (Max (set vs))))"
  using quantile_lin_0 [of vs] quantile_lin_1 [of vs]
  by (simp add: quant_list_def upt_rec quant_label_def)

subsection \<open>Counts and the mean\<close>

lemma present_values_length:
  "length (present_values c rows) = length (filter (\<lambda>r. filt_col c r \<noteq> None) rows)"
  by (simp add: present_values_def map_filter_def)

lemma missing_plus_present:
  "length (filter (\<lambda>r. filt_col c r = None) rows) + length (present_values c rows) = length rows"
  using sum_length_filter_compl [of "\<lambda>r. filt_col c r = None" rows]
  by (simp add: present_values_length)

lemma mean_val_between:
  assumes ne: "vs \<noteq> []"
  shows "Min (set vs) \<le> the (mean_val vs) \<and> the (mean_val vs) \<le> Max (set vs)"
proof -
  have n: "0 < real (length vs)" using ne by simp
  have "sum_list (map (\<lambda>_. Min (set vs)) vs) \<le> sum_list (map (\<lambda>x. x) vs)"
    by (rule sum_list_mono) simp
  then have lo: "real (length vs) * Min (set vs) \<le> sum_list vs"
    by (simp add: sum_list_triv)
  have "sum_list (map (\<lambda>x. x) vs) \<le> sum_list (map (\<lambda>_. Max (set vs)) vs)"
    by (rule sum_list_mono) simp
  then have hi: "sum_list vs \<le> real (length vs) * Max (set vs)"
    by (simp add: sum_list_triv)
  from lo hi n ne show ?thesis
    by (simp add: mean_val_def pos_le_divide_eq pos_divide_le_eq mult.commute)
qed

lemma get_stats_Inr:
  assumes "get_stats ms c s f t = Inr st"
  shows "\<exists>rows a b. filter_df ms s f t = Inr rows \<and> f = Some a \<and> t = Some b \<and> rows \<noteq> []
           \<and> st_from st = fmt_date a \<and> st_to st = fmt_date b \<and> st_station st = s \<and> st_type st = column_desc c
           \<and> percentiles st = quant_list (present_values c rows)
           \<and> value_count st = length (present_values c rows)
           \<and> missing_value_count st = length (filter (\<lambda>r. filt_col c r = None) rows)
           \<and> days_in_range st = length rows
           \<and> missing_value_percent st = pct_str (of_nat (missing_value_count st) / of_nat (length rows))
           \<and> st_mean st = round3 (mean_val (present_values c rows))"
proof -
  from assms obtain rows where fd: "filter_df ms s f t = Inr rows"
    by (auto simp: get_stats_def split: sum.splits)
  with assms obtain a b where ab: "f = Some a" "t = Some b"
    by (auto simp: get_stats_def Let_def split: option.splits if_splits)
  have cnt: "length rows - length (filter (\<lambda>r. filt_col c r = None) rows) = length (present_values c rows)"
    using missing_plus_present [of c rows] by linarith
  from assms fd ab cnt show ?thesis
    by (auto simp: get_stats_def Let_def split: if_splits)
qed

lemma get_stats_value_count:
  "get_stats ms c s f t = Inr st \<Longrightarrow> filter_df ms s f t = Inr rows \<Longrightarrow>
     0 < value_count st \<longleftrightarrow> present_values c rows \<noteq> []"
  by (drule get_stats_Inr) auto

subsection \<open>Properties of the statistics\<close>

text \<open>
  C6. Quantile monotonicity: when the column has a value in the range, the eleven
  percentiles \<^verbatim>\<open>min\<close>, \<^verbatim>\<open>10th\<close>, \<dots>, \<^verbatim>\<open>90th\<close>, \<^verbatim>\<open>max\<close> are all present and
  ascending, rounding to three decimals included.
\<close>

theorem get_stats_percentiles_sorted:
  assumes gs: "get_stats ms c s f t = Inr st" and vc: "0 < value_count st"
  shows "map fst (percentiles st) = [''min'', ''10th'', ''20th'', ''30th'', ''40th'', ''50th'',
                                    ''60th'', ''70th'', ''80th'', ''90th'', ''max'']
         \<and> (\<forall>p \<in> set (percentiles st). snd p \<noteq> None)
         \<and> sorted (map (the \<circ> snd) (percentiles st))"
proof -
  from get_stats_Inr [OF gs] obtain rows where
    p: "percentiles st = quant_list (present_values c rows)" and
    v: "value_count st = length (present_values c rows)"
    by blast
  with vc have ne: "present_values c rows \<noteq> []" by auto
  have "map fst (quant_list vs) = [''min'', ''10th'', ''20th'', ''30th'', ''40th'', ''50th'',
                                   ''60th'', ''70th'', ''80th'', ''90th'', ''max'']" for vs
    by (simp add: quant_list_def quant_label_def upt_rec nat_str.simps)
  with p ne quant_list_present [OF ne] quant_list_sorted [OF ne] show ?thesis by simp
qed

theorem get_stats_percentiles_sorted_witness:
  "\<exists>st. get_stats ex_measurements Prec ''USC00519397'' (Some 734503) (Some 734505) = Inr st
     \<and> 0 < value_count st \<and> sorted (map (the \<circ> snd) (percentiles st))"
proof -
  obtain st where gs: "get_stats ex_measurements Prec ''USC00519397'' (Some 734503) (Some 734505) = Inr st"
    by (simp add: get_stats_def filter_df_def model_defs ex_measurements_def upto.simps)
  then have vc: "0 < value_count st"
    by (auto simp: get_stats_def model_defs ex_measurements_def upto.simps)
  from get_stats_percentiles_sorted [OF gs vc] gs vc show ?thesis by blast
qed

text \<open>
  C8. The \<^verbatim>\<open>min\<close> entry is the smallest value of the column in the filled series and
  the \<^verbatim>\<open>max\<close> entry the largest, both rounded to three decimals.
\<close>

theorem get_stats_min_max:
  assumes fd: "filter_df ms s f t = Inr rows" and gs: "get_stats ms c s f t = Inr st"
    and ne: "present_values c rows \<noteq> []"
  shows "hd (percentiles st) = (''min'', round3 (Some (Min (set (present_values c rows)))))
         \<and> last (percentiles st) = (''max'', round3 (Some (Max (set (present_values c rows)))))"
proof -
  from get_stats_Inr [OF gs] fd have "percentiles st = quant_list (present_values c rows)"
    by auto
  with quant_list_ends [OF ne] show ?thesis by simp
qed

theorem get_stats_min_max_witness:
  "\<exists>rows st. filter_df ex_measurements ''USC00519397'' (Some 734503) (Some 734505) = Inr rows
     \<and> get_stats ex_measurements Prec ''USC00519397'' (Some 734503) (Some 734505) = Inr st
     \<and> present_values Prec rows = [0.5, 0.5, 1.0]
     \<and> hd (percentiles st) = (''min'', Some 0.5) \<and> last (percentiles st) = (''max'', Some 1)"
proof -
  obtain rows where fd: "filter_df ex_measurements ''USC00519397'' (Some 734503) (Some 734505) = Inr rows"
    by (simp add: filter_df_def date_range_def)
  obtain st where gs: "get_stats ex_measurements Prec ''USC00519397'' (Some 734503) (Some 734505) = Inr st"
    by (simp add: get_stats_def filter_df_def model_defs ex_measurements_def upto.simps)
  have pv: "present_values Prec rows = [0.5, 0.5, 1.0]"
    using fd by (auto simp: model_defs ex_measurements_def upto.simps map_filter_simps)
  have r: "round3_val (1 / 2) = 1 / 2" "round3_val 1 = 1"
    by (simp_all add: round3_val_def round_dec_def rint_def)
  from get_stats_min_max [OF fd gs] pv r fd gs show ?thesis by simp
qed

text \<open>
  C7. The counts of a statistics answer count days of the filled series: the day count
  is the inclusive number of days, \<^verbatim>\<open>missing_value_count\<close> is the number of days
  whose observation in force (the latest record on or before the day within the range)
  has no value in the column or does not exist, and \<^verbatim>\<open>value_count\<close> is the number
  of days where it has one.
\<close>

theorem get_stats_counts:
  assumes wf: "wf_dataset ms sts" and gs: "get_stats ms c s (Some f) (Some t) = Inr st"
  shows "days_in_range st = nat (t - f + 1)
    \<and> missing_value_count st = length (filter (\<lambda>d. (case latest_obs (station_rows ms s) f d of
                                   None \<Rightarrow> None | Some m \<Rightarrow> col_val c m) = None) [f..t])
    \<and> value_count st = length (filter (\<lambda>d. (case latest_obs (station_rows ms s) f d of
                                   None \<Rightarrow> None | Some m \<Rightarrow> col_val c m) \<noteq> None) [f..t])"
proof -
  from get_stats_Inr [OF gs] obtain rows where
    fd: "filter_df ms s (Some f) (Some t) = Inr rows" and
    st: "value_count st = length (present_values c rows)"
        "missing_value_count st = length (filter (\<lambda>r. filt_col c r = None) rows)"
        "days_in_range st = length rows"
    by blast
  from fd filter_df_days [OF wf_station_dates [OF wf]]
  have rows: "rows = map (\<lambda>d. to_filt_row (d, latest_obs (station_rows ms s) f d)) [f..t]" by simp
  show ?thesis
    using st unfolding present_values_length rows
    by (simp add: filter_map comp_def filt_col_to_filt_row)
qed

theorem get_stats_counts_witness:
  "\<exists>st. get_stats ex_measurements Temp ''USC00519397'' (Some 734503) (Some 734505) = Inr st
     \<and> days_in_range st = 3 \<and> missing_value_count st = 1 \<and> value_count st = 2"
proof -
  obtain st where gs: "get_stats ex_measurements Temp ''USC00519397'' (Some 734503) (Some 734505) = Inr st"
    by (simp add: get_stats_def filter_df_def model_defs ex_measurements_def upto.simps)
  have lo: "latest_obs (station_rows ex_measurements ''USC00519397'') 734503 734503 = Some
      \<lparr>m_station = ''USC00519397'', m_date = 734503, prec = Some 0.5, temp = Some 65\<rparr>"
    "latest_obs (station_rows ex_measurements ''USC00519397'') 734503 734504 = Some
      \<lparr>m_station = ''USC00519397'', m_date = 734503, prec = Some 0.5, temp = Some 65\<rparr>"
    "latest_obs (station_rows ex_measurements ''USC00519397'') 734503 734505 = Some
      \<lparr>m_station = ''USC00519397'', m_date = 734505, prec = Some 1.0, temp = None\<rparr>"
    by (simp_all add: latest_obs_step station_rows_def ex_measurements_def)
  from get_stats_counts [OF ex_wf gs] gs lo show ?thesis by (simp add: upto.simps)
qed


(* Validator *)

text \<open>
  C9. The mean lies between the \<^verbatim>\<open>min\<close> and \<^verbatim>\<open>max\<close> entries (all three rounded
  to three decimals).
\<close>

theorem get_stats_mean_between:
  assumes gs: "get_stats ms c s f t = Inr st" and vc: "0 < value_count st"
  shows "\<exists>m lo hi. st_mean st = Some m \<and> snd (hd (percentiles st)) = Some lo
           \<and> snd (last (percentiles st)) = Some hi \<and> lo \<le> m \<and> m \<le> hi"
proof -
  from get_stats_Inr [OF gs] obtain rows where
    p: "percentiles st = quant_list (present_values c rows)" and
    v: "value_count st = length (present_values c rows)" and
    m: "st_mean st = round3 (mean_val (present_values c rows))"
    by blast
  let ?vs = "present_values c rows"
  from vc v have ne: "?vs \<noteq> []" by auto
  from mean_val_between [OF ne]
  have "round3_val (Min (set ?vs)) \<le> round3_val (the (mean_val ?vs))"
       "round3_val (the (mean_val ?vs)) \<le> round3_val (Max (set ?vs))"
    by (simp_all add: round3_mono)
  with p m ne quant_list_ends [OF ne] show ?thesis
    by (simp add: mean_val_def)
qed

theorem get_stats_mean_between_witness:
  "\<exists>st. get_stats ex_measurements Prec ''USC00519397'' (Some 734503) (Some 734505) = Inr st
     \<and> 0 < value_count st \<and> (\<exists>m. st_mean st = Some m \<and> m \<le> the (snd (last (percentiles st))))"
proof -
  obtain st where gs: "get_stats ex_measurements Prec ''USC00519397'' (Some 734503) (Some 734505) = Inr st"
    by (simp add: get_stats_def filter_df_def model_defs ex_measurements_def upto.simps)
  then have vc: "0 < value_count st"
    by (auto simp: get_stats_def model_defs ex_measurements_def upto.simps)
  from get_stats_mean_between [OF gs vc] gs vc show ?thesis by auto
qed

text \<open>
  C15. An empty range (start after end) makes \<^verbatim>\<open>get_stats\<close> raise
  \<^verbatim>\<open>ZeroDivisionError\<close> when it computes the missing percentage.
\<close>

theorem get_stats_empty_range:
  "t < f \<Longrightarrow> get_stats ms c s (Some f) (Some t) = Inl ZeroDivisionError"
  by (simp add: get_stats_def filter_df_def date_range_def Let_def left_join_def)

theorem get_stats_empty_range_witness:
  "get_stats ex_measurements Prec ''USC00519397'' (Some 734506) (Some 734505) = Inl ZeroDivisionError"
  by (rule get_stats_empty_range) simp

end
