(* ===== verification/Routes.thy ===== *)
theory Routes
  imports Validator Stats
begin

text \<open>
  The query routes \<^verbatim>\<open>prec\<close> and \<^verbatim>\<open>temp\<close> of \<^verbatim>\<open>src/app.py\<close> (lines 285--317):
  read the tables, validate, then answer with the validation error, the statistics or the
  data. Both handlers have the same body with a different column, \<open>query_route\<close>.
  A Python exception escaping the handler is Flask's server error (\<open>ServerError\<close>);
  the last branch returns the ``You should never see this'' text (\<open>Unreachable\<close>).
  \<^verbatim>\<open>pd.to_datetime\<close> (in \<^verbatim>\<open>make_connection\<close>) and \<^verbatim>\<open>dateutil\<close>'s parser
  are the parameters \<open>todt\<close> and \<open>parse\<close>.
\<close>

datatype response =
    ErrorPage verror
  | StatsJson stats_result
  | DataJson data_result
  | Unreachable
  | ServerError pyexc

definition answer_query ::
  "column \<Rightarrow> measurement list \<Rightarrow> vq_result \<Rightarrow> response" where
  "answer_query c ms r =
     (case vq_error r of
        Some err \<Rightarrow> ErrorPage err
      | None \<Rightarrow>
          (case vq_station r of
             None \<Rightarrow> ServerError ValueError
           | Some s \<Rightarrow>
               (if vq_qtype r = Some ''stats'' then
                  (case get_stats ms c s (vq_from r) (vq_to r) of
                     Inl e \<Rightarrow> ServerError e
                   | Inr st \<Rightarrow> StatsJson st)
                else if vq_qtype r = Some ''data'' then
                  (case get_data ms c s (vq_from r) (vq_to r) of
                     Inl e \<Rightarrow> ServerError e
                   | Inr d \<Rightarrow> DataJson d)
                else Unreachable)))"

definition query_route ::
  "(string \<Rightarrow> day option) \<Rightarrow> (string \<Rightarrow> day option) \<Rightarrow> column \<Rightarrow> query_args
   \<Rightarrow> raw_measurement list \<Rightarrow> raw_station list \<Rightarrow> response" where
  "query_route todt parse c a rms rss =
     (case make_connection todt rms rss of
        Inl e \<Rightarrow> ServerError e
      | Inr (ms, sts) \<Rightarrow>
          (case valid_query parse a ms sts of
             Inl e \<Rightarrow> ServerError e
           | Inr r \<Rightarrow> answer_query c ms r))"

definition prec :: "(string \<Rightarrow> day option) \<Rightarrow> (string \<Rightarrow> day option) \<Rightarrow> query_args
   \<Rightarrow> raw_measurement list \<Rightarrow> raw_station list \<Rightarrow> response" where
  "prec todt parse a rms rss = query_route todt parse Prec a rms rss"

definition temp_route :: "(string \<Rightarrow> day option) \<Rightarrow> (string \<Rightarrow> day option) \<Rightarrow> query_args
   \<Rightarrow> raw_measurement list \<Rightarrow> raw_station list \<Rightarrow> response" where
  "temp_route todt parse a rms rss = query_route todt parse Temp a rms rss"

definition ex_resolved :: vq_result where
  "ex_resolved = \<lparr>vq_error = None, vq_qtype = Some ''stats'', vq_station = Some ''USC00519397'',
                   vq_from = Some 734503, vq_to = Some 734505\<rparr>"

declare answer_query_def [model_defs] query_route_def [model_defs] prec_def [model_defs]
  temp_route_def [model_defs]

subsection \<open>Accepted queries\<close>

lemma check_dates_err:
  "check_dates parse a ms s err = Inr (e', f, t) \<Longrightarrow> err \<noteq> None \<Longrightarrow> e' \<noteq> None"
  by (auto simp: check_dates_def check_from_def check_to_def parse_to_def
           split: option.splits sum.splits if_splits)

lemma check_station_keeps_err:
  "check_station a sts (Some e) = (e', st) \<Longrightarrow> e' \<noteq> None"
  by (auto simp: check_station_def split: option.splits if_splits)

lemma valid_query_accepted_qtype:
  assumes vq: "valid_query parse a ms sts = Inr r" and ok: "vq_error r = None"
  shows "vq_qtype r = Some ''stats'' \<or> vq_qtype r = Some ''data''"
proof -
  obtain e1 q0 where cq: "check_qtype a = (e1, q0)" by force
  have e1: "e1 = None"
  proof (rule ccontr)
    assume "e1 \<noteq> None"
    then obtain e where e: "e1 = Some e" by auto
    from vq ok cq e show False
      by (auto simp: valid_query_def split: if_splits option.splits sum.splits prod.splits
               dest: check_dates_err check_station_keeps_err)
  qed
  with cq have "check_qtype a = (None, q0)" by simp
  from check_qtype_ok [OF this] vq cq show ?thesis
    by (auto simp: valid_query_def split: if_splits option.splits sum.splits prod.splits)
qed

lemma query_route_accepted:
  assumes mc: "make_connection todt rms rss = Inr (ms, sts)"
    and rt: "query_route todt parse c a rms rss = resp" and nerr: "\<forall>e. resp \<noteq> ErrorPage e"
    and nsrv: "\<forall>e. resp \<noteq> ServerError e"
  shows "\<exists>r s. valid_query parse a ms sts = Inr r \<and> vq_error r = None \<and> vq_station r = Some s
           \<and> answer_query c ms r = resp"
  using assms
  by (auto simp: query_route_def answer_query_def split: sum.splits option.splits)

subsection \<open>Properties of the routes\<close>

text \<open>
  C18. The route handlers never reach their last branch (``You should never see
  this''): a query without validation error always has \<^verbatim>\<open>qtype\<close> \<^verbatim>\<open>stats\<close> or
  \<^verbatim>\<open>data\<close>.
\<close>

theorem query_route_never_unreachable:
  "query_route todt parse c a rms rss \<noteq> Unreachable"
proof
  assume rt: "query_route todt parse c a rms rss = Unreachable"
  then obtain ms sts r where mc: "make_connection todt rms rss = Inr (ms, sts)"
    and vq: "valid_query parse a ms sts = Inr r" and aq: "answer_query c ms r = Unreachable"
    by (auto simp: query_route_def split: sum.splits)
  from aq have ok: "vq_error r = None"
    by (auto simp: answer_query_def split: option.splits)
  from valid_query_accepted_qtype [OF vq ok] aq show False
    by (auto simp: answer_query_def split: option.splits sum.splits)
qed

text \<open>
  C19. End to end, on a well-formed dataset: a statistics answer prints two ordered
  dates, its day count is the inclusive number of days between them, and its missing
  and present counts add up to it.
\<close>

theorem query_route_stats_consistent:
  assumes mc: "make_connection todt rms rss = Inr (ms, sts)" and wf: "wf_dataset ms sts"
    and rt: "query_route todt parse c a rms rss = StatsJson st"
  shows "\<exists>f t. st_from st = fmt_date f \<and> st_to st = fmt_date t \<and> f \<le> t
         \<and> 0 < days_in_range st \<and> days_in_range st = nat (t - f + 1)
         \<and> missing_value_count st + value_count st = days_in_range st"
proof -
  from query_route_accepted [OF mc rt] obtain r s where
    vq: "valid_query parse a ms sts = Inr r" and ok: "vq_error r = None" and
    st: "vq_station r = Some s" and aq: "answer_query c ms r = StatsJson st"
    by auto
  from aq ok st have gs: "get_stats ms c s (vq_from r) (vq_to r) = Inr st"
    by (auto simp: answer_query_def split: if_splits sum.splits)
  from get_stats_Inr [OF gs] obtain rows f t where
    fd: "filter_df ms s (vq_from r) (vq_to r) = Inr rows" and ft: "vq_from r = Some f" "vq_to r = Some t"
    and ne: "rows \<noteq> []" and dates: "st_from st = fmt_date f" "st_to st = fmt_date t"
    and cnt: "value_count st = length (present_values c rows)"
        "missing_value_count st = length (filter (\<lambda>r. filt_col c r = None) rows)"
        "days_in_range st = length rows"
    by blast
  from fd ft filter_df_days [OF wf_station_dates [OF wf]] have len: "length rows = nat (t - f + 1)"
    by auto
  with ne have "f \<le> t" by (cases "f \<le> t") auto
  with len ne dates cnt missing_plus_present [of c rows] show ?thesis by auto
qed

lemma ex_valid_query: "valid_query parse_iso ex_args ex_measurements ex_stations = Inr ex_resolved"
  by (simp add: model_defs ex_measurements_def ex_stations_def ex_args_def ex_resolved_def)

theorem query_route_stats_consistent_witness:
  "\<exists>st. query_route parse_iso parse_iso Prec ex_args ex_raw_measurements ex_raw_stations = StatsJson st
     \<and> 0 < days_in_range st"
proof -
  obtain st where gs: "get_stats ex_measurements Prec ''USC00519397'' (Some 734503) (Some 734505) = Inr st"
    by (simp add: get_stats_def filter_df_def model_defs ex_measurements_def upto.simps)
  then have rt: "query_route parse_iso parse_iso Prec ex_args ex_raw_measurements ex_raw_stations
                 = StatsJson st"
    by (simp add: query_route_def ex_connection ex_valid_query answer_query_def ex_resolved_def)
  from query_route_stats_consistent [OF ex_connection ex_wf rt] rt show ?thesis by auto
qed

lemma filter_df_Inr_dates:
  "filter_df ms s f t = Inr rows \<Longrightarrow> \<exists>a b. f = Some a \<and> t = Some b"
  by (auto simp: filter_df_def date_range_def split: option.splits)

lemma query_route_data_rows:
  assumes mc: "make_connection todt rms rss = Inr (ms, sts)" and wf: "wf_dataset ms sts"
    and rt: "query_route todt parse c a rms rss = DataJson d"
  shows "\<exists>r f t rows. valid_query parse a ms sts = Inr r \<and> vq_from r = Some f \<and> vq_to r = Some t
           \<and> map f_date rows = [f..t] \<and> dt_data d = map (\<lambda>x. (fmt_date (f_date x), filt_col c x)) rows"
proof -
  from query_route_accepted [OF mc rt] obtain r s where
    vq: "valid_query parse a ms sts = Inr r" and ok: "vq_error r = None" and
    st: "vq_station r = Some s" and aq: "answer_query c ms r = DataJson d"
    by auto
  from aq ok st have gd: "get_data ms c s (vq_from r) (vq_to r) = Inr d"
    by (auto simp: answer_query_def split: if_splits sum.splits)
  then obtain rows where fd: "filter_df ms s (vq_from r) (vq_to r) = Inr rows"
    and dd: "dt_data d = map (\<lambda>x. (fmt_date (f_date x), filt_col c x)) rows"
    by (auto simp: get_data_def split: sum.splits)
  from filter_df_Inr_dates [OF fd] obtain f t where ft: "vq_from r = Some f" "vq_to r = Some t"
    by blast
  from fd ft filter_df_days [OF wf_station_dates [OF wf]]
  have "map f_date rows = [f..t]" by (auto simp: comp_def)
  with vq ft dd show ?thesis by blast
qed

text \<open>
  C20. End to end, on a well-formed dataset: a data answer has one entry per calendar
  day of the resolved range, in order, each dated by its \<^verbatim>\<open>YYYY-MM-DD\<close> string.
\<close>

theorem query_route_data_days:
  assumes mc: "make_connection todt rms rss = Inr (ms, sts)" and wf: "wf_dataset ms sts"
    and rt: "query_route todt parse c a rms rss = DataJson d"
  shows "\<exists>r f t. valid_query parse a ms sts = Inr r \<and> vq_from r = Some f \<and> vq_to r = Some t
           \<and> map fst (dt_data d) = map fmt_date [f..t]"
proof -
  from query_route_data_rows [OF mc wf rt] obtain r f t rows where
    "valid_query parse a ms sts = Inr r" "vq_from r = Some f" "vq_to r = Some t"
    and rows: "map f_date rows = [f..t]" and dd: "dt_data d = map (\<lambda>x. (fmt_date (f_date x), filt_col c x)) rows"
    by blast
  moreover have "map fst (dt_data d) = map fmt_date [f..t]"
    unfolding dd rows [symmetric] by simp
  ultimately show ?thesis by blast
qed

theorem query_route_data_days_witness:
  "\<exists>d. query_route parse_iso parse_iso Temp [(''qtype'', ''data''), (''station'', ''USC00519397'')]
          ex_raw_measurements ex_raw_stations = DataJson d
     \<and> map fst (dt_data d) = map fmt_date [734503, 734504, 734505]"
proof -
  have vq: "valid_query parse_iso [(''qtype'', ''data''), (''station'', ''USC00519397'')] ex_measurements
              ex_stations = Inr (ex_resolved\<lparr>vq_qtype := Some ''data''\<rparr>)"
    by (simp add: model_defs ex_measurements_def ex_stations_def ex_resolved_def)
  obtain d where gd: "get_data ex_measurements Temp ''USC00519397'' (Some 734503) (Some 734505) = Inr d"
    by (simp add: get_data_def filter_df_def model_defs)
  then have rt: "query_route parse_iso parse_iso Temp [(''qtype'', ''data''), (''station'', ''USC00519397'')]
                   ex_raw_measurements ex_raw_stations = DataJson d"
    by (simp add: query_route_def ex_connection vq answer_query_def ex_resolved_def)
  from query_route_data_days [OF ex_connection ex_wf rt] vq rt show ?thesis
    by (auto simp: ex_resolved_def upto.simps)
qed


lemma query_route_data_sorted:
  assumes mc: "make_connection parse_iso rms rss = Inr (ms, sts)" and wf: "wf_dataset ms sts"
    and rt: "query_route parse_iso parse_iso c a rms rss = DataJson d"
  shows "sorted_wrt (<) (map fst (dt_data d))"
proof -
  from query_route_data_rows [OF mc wf rt] obtain r f t rows where
    vq: "valid_query parse_iso a ms sts = Inr r" and ft: "vq_from r = Some f" "vq_to r = Some t"
    and rows: "map f_date rows = [f..t]" and dd: "dt_data d = map (\<lambda>x. (fmt_date (f_date x), filt_col c x)) rows"
    by blast
  from valid_query_dates_source [OF vq] ft parse_iso_dataset_range [OF mc]
  have rg: "1 \<le> f" "t \<le> 3652059" by blast+
  have "map fst (dt_data d) = map fmt_date [f..t]"
    unfolding dd rows [symmetric] by simp
  moreover have "sorted_wrt (\<lambda>x y. fmt_date x < fmt_date y) [f..t]"
    by (rule sorted_wrt_mono_rel [OF _ sorted_wrt_upto]) (use rg in \<open>auto intro!: fmt_date_less\<close>)
  ultimately show ?thesis by (simp add: sorted_wrt_map)
qed

text \<open>
  C21. For any dataset and parser, a request for a listed station with no
  \<^verbatim>\<open>to_date\<close> and a \<^verbatim>\<open>from_date\<close> after the station's last observation: the
  statistics route fails with a server error (\<^verbatim>\<open>ZeroDivisionError\<close>), and the
  data route answers with an empty series.
\<close>

theorem query_route_from_after_last:
  assumes mc: "make_connection todt rms rss = Inr (ms, sts)"
    and s: "s \<in> set (map s_station sts)" "s \<noteq> []"
    and mx: "max_date ms s = Some mx" and p: "parse fs = Some fd" "mx < fd"
  shows "query_route todt parse c [(''qtype'', ''stats''), (''station'', s), (''from_date'', fs)] rms rss
           = ServerError ZeroDivisionError
       \<and> query_route todt parse c [(''qtype'', ''data''), (''station'', s), (''from_date'', fs)] rms rss
           = DataJson \<lparr>dt_station = s, dt_type = column_desc c, dt_data = []\<rparr>"
proof -
  from mx have "station_rows ms s \<noteq> []" by (auto simp: max_date_None_iff [symmetric])
  then obtain mn where mn: "min_date ms s = Some mn" by (auto dest: min_date_Some_rows)
  have le: "mn \<le> fd" using min_le_max_date [OF mn mx] p(2) by simp
  have vq: "valid_query parse [(''qtype'', q), (''station'', s), (''from_date'', fs)] ms sts
              = Inr \<lparr>vq_error = None, vq_qtype = Some q, vq_station = Some s, vq_from = Some fd, vq_to = Some mx\<rparr>"
    if "q \<in> {''stats'', ''data''}" for q
    using that s p(1) mn le mx by (intro valid_query_open_to) auto
  have fd: "filter_df ms s (Some fd) (Some mx) = Inr []"
    using p(2) by (simp add: filter_df_def date_range_def left_join_def)
  show ?thesis
    using vq [of "''stats''"] vq [of "''data''"] fd mc
    by (simp add: query_route_def answer_query_def get_stats_def get_data_def)
qed

theorem query_route_from_after_last_witness:
  "query_route parse_iso parse_iso Prec
     [(''qtype'', ''stats''), (''station'', ''USC00519397''), (''from_date'', ''2012-01-04'')]
     ex_raw_measurements ex_raw_stations = ServerError ZeroDivisionError
   \<and> query_route parse_iso parse_iso Prec
     [(''qtype'', ''data''), (''station'', ''USC00519397''), (''from_date'', ''2012-01-04'')]
     ex_raw_measurements ex_raw_stations
     = DataJson \<lparr>dt_station = ''USC00519397'', dt_type = column_desc Prec, dt_data = []\<rparr>"
proof -
  have p: "parse_iso ''2012-01-04'' = Some 734506" by (simp add: model_defs)
  show ?thesis
    by (rule query_route_from_after_last [where parse = parse_iso, OF ex_connection _ _ ex_bounds(2) p]) (simp_all add: ex_stations_def)
qed

text \<open>
  C22. For any dataset and parser, a request for a listed station without any
  measurement, with a valid \<^verbatim>\<open>qtype\<close> and no dates, passes validation (the
  station's bounds are \<^verbatim>\<open>NaT\<close>). Both routes then fail with a server error
  (\<^verbatim>\<open>ValueError\<close> from \<^verbatim>\<open>pd.date_range\<close>).
\<close>

theorem query_route_unmeasured_station:
  assumes mc: "make_connection todt rms rss = Inr (ms, sts)"
    and s: "s \<in> set (map s_station sts)" "s \<noteq> []" "s \<notin> set (map m_station ms)"
    and q: "q \<in> {''stats'', ''data''}"
  shows "query_route todt parse c [(''qtype'', q), (''station'', s)] rms rss = ServerError ValueError"
proof -
  have "station_rows ms s = []" using s(3) by (auto simp: station_rows_def filter_empty_conv)
  then have mm: "min_date ms s = None" "max_date ms s = None"
    by (simp_all add: min_date_def max_date_def)
  have vq: "valid_query parse [(''qtype'', q), (''station'', s)] ms sts
              = Inr \<lparr>vq_error = None, vq_qtype = Some q, vq_station = Some s, vq_from = None, vq_to = None\<rparr>"
    using q s(1,2) mm
    by (auto simp: valid_query_def check_qtype_def check_station_def check_dates_def check_from_def
                   check_to_def)
  show ?thesis
    using vq mc q
    by (auto simp: query_route_def answer_query_def get_stats_def get_data_def filter_df_def date_range_def)
qed

theorem query_route_unmeasured_station_witness:
  "query_route parse_iso parse_iso Temp [(''qtype'', ''data''), (''station'', ''USC00511918'')]
     ex_raw_measurements ex_raw_stations2 = ServerError ValueError"
proof -
  have mc: "make_connection parse_iso ex_raw_measurements ex_raw_stations2
              = Inr (ex_measurements, ex_stations2)"
    by (simp add: model_defs ex_raw_measurements_def ex_raw_stations2_def ex_raw_stations_def
        ex_measurements_def ex_stations2_def ex_stations_def)
  show ?thesis
    by (rule query_route_unmeasured_station [OF mc])
       (simp_all add: ex_stations2_def ex_stations_def ex_measurements_def)
qed

(* Directory *)

end
