(* ===== verification/Directory.thy ===== *)
theory Directory
  imports Dataset Format
begin

text \<open>
  The station directory, the \<^verbatim>\<open>stations\<close> route of \<^verbatim>\<open>src/app.py\<close> (lines 254--283).
  \<^verbatim>\<open>df_meas.groupby('station').agg(...)\<close> is one \<open>station_cov\<close> per measured
  station, in sorted key order, with the first and last date and the number of present
  values per column (pandas' \<^verbatim>\<open>count\<close> skips NaN). The day span
  \<^verbatim>\<open>(end_date - start_date).dt.days + 1\<close> is \<open>daterange_count\<close>; the missing share
  \<^verbatim>\<open>1 - round(count / daterange_count, 4)\<close> is \<open>percent_missing\<close> (the number the
  \<^verbatim>\<open>:.2%\<close> format prints). \<^verbatim>\<open>df_sta.merge(df_dates, on='station', sort=True)\<close>
  is an inner join of the station table with the groups, sorted by station code (a stable
  sort). The directory is built before the \<^verbatim>\<open>mode\<close> parameter is read.
\<close>

record station_cov =
  cv_station :: string
  start_date :: day
  end_date :: day
  prec_count :: nat
  temp_count :: nat

definition agg_station :: "measurement list \<Rightarrow> string \<Rightarrow> station_cov option" where
  "agg_station ms s =
     (case (list_min (map m_date (station_rows ms s)), list_max (map m_date (station_rows ms s))) of
        (Some a, Some b) \<Rightarrow>
          Some \<lparr>cv_station = s, start_date = a, end_date = b,
                prec_count = length (filter (\<lambda>m. prec m \<noteq> None) (station_rows ms s)),
                temp_count = length (filter (\<lambda>m. temp m \<noteq> None) (station_rows ms s))\<rparr>
      | _ \<Rightarrow> None)"

definition groupby_station :: "measurement list \<Rightarrow> station_cov list" where
  "groupby_station ms = List.map_filter (agg_station ms) (sort (remdups (map m_station ms)))"

definition daterange_count :: "station_cov \<Rightarrow> int" where
  "daterange_count cv = end_date cv - start_date cv + 1"

definition percent_missing :: "nat \<Rightarrow> int \<Rightarrow> real" where
  "percent_missing cnt days = 1 - round_dec 4 (of_nat cnt / of_int days)"

record dir_entry =
  d_station :: string
  d_name :: string
  d_latitude :: real
  d_longitude :: real
  d_elevation :: real
  d_start_date :: day
  d_end_date :: day
  prec_percent_missing :: real
  temp_percent_missing :: real

definition dir_entry_of :: "station_row \<Rightarrow> station_cov \<Rightarrow> dir_entry" where
  "dir_entry_of st cv =
     \<lparr>d_station = s_station st, d_name = s_name st, d_latitude = latitude st,
      d_longitude = longitude st, d_elevation = elevation st,
      d_start_date = start_date cv, d_end_date = end_date cv,
      prec_percent_missing = percent_missing (prec_count cv) (daterange_count cv),
      temp_percent_missing = percent_missing (temp_count cv) (daterange_count cv)\<rparr>"

definition build_directory :: "measurement list \<Rightarrow> station_row list \<Rightarrow> dir_entry list" where
  "build_directory ms sts =
     (let covs = groupby_station ms
      in sort_key d_station
           (concat (map (\<lambda>st. map (dir_entry_of st) (filter (\<lambda>cv. cv_station cv = s_station st) covs)) sts)))"

text \<open>
  Lines 260--263: the dates and the missing shares as the answer prints them.
\<close>

record dir_row =
  r_station :: string
  r_name :: string
  r_latitude :: real
  r_longitude :: real
  r_elevation :: real
  r_start_date :: string
  r_end_date :: string
  r_prec_percent_missing :: string
  r_temp_percent_missing :: string

definition render_entry :: "dir_entry \<Rightarrow> dir_row" where
  "render_entry e =
     \<lparr>r_station = d_station e, r_name = d_name e, r_latitude = d_latitude e,
      r_longitude = d_longitude e, r_elevation = d_elevation e,
      r_start_date = fmt_date (d_start_date e), r_end_date = fmt_date (d_end_date e),
      r_prec_percent_missing = pct_str (prec_percent_missing e),
      r_temp_percent_missing = pct_str (temp_percent_missing e)\<rparr>"

datatype dir_response =
    DirJson "dir_row list"
  | DirHtml "dir_row list"
  | ModeInvalid string
  | ModeMissing
  | DirServerError pyexc

definition stations ::
  "(string \<Rightarrow> day option) \<Rightarrow> query_args \<Rightarrow> raw_measurement list \<Rightarrow> raw_station list
   \<Rightarrow> dir_response" where
  "stations todt a rms rss =
     (case make_connection todt rms rss of
        Inl e \<Rightarrow> DirServerError e
      | Inr (ms, sts) \<Rightarrow>
          (let out = map render_entry (build_directory ms sts)
           in case arg a ''mode'' of
                Some m \<Rightarrow>
                  (if m = ''json'' then DirJson out
                   else if m = ''html'' then DirHtml out
                   else ModeInvalid m)
              | None \<Rightarrow> ModeMissing))"

declare agg_station_def [model_defs] groupby_station_def [model_defs]
  daterange_count_def [model_defs] percent_missing_def [model_defs] dir_entry_of_def [model_defs]
  build_directory_def [model_defs] render_entry_def [model_defs] stations_def [model_defs]

subsection \<open>Groups\<close>

lemma agg_station_Some:
  "station_rows ms s \<noteq> [] \<Longrightarrow> \<exists>cv. agg_station ms s = Some cv \<and> cv_station cv = s
     \<and> min_date ms s = Some (start_date cv) \<and> max_date ms s = Some (end_date cv)
     \<and> prec_count cv = length (filter (\<lambda>m. prec m \<noteq> None) (station_rows ms s))
     \<and> temp_count cv = length (filter (\<lambda>m. temp m \<noteq> None) (station_rows ms s))"
  by (cases "list_min (map m_date (station_rows ms s))"; cases "list_max (map m_date (station_rows ms s))")
     (auto simp: agg_station_def min_date_def max_date_def)

lemma agg_station_None: "station_rows ms s = [] \<Longrightarrow> agg_station ms s = None"
  by (simp add: agg_station_def list_min_def)

lemma agg_station_station: "agg_station ms s = Some cv \<Longrightarrow> cv_station cv = s"
  by (auto simp: agg_station_def split: option.splits)

lemma station_rows_nonempty: "station_rows ms s \<noteq> [] \<longleftrightarrow> s \<in> set (map m_station ms)"
  by (auto simp: station_rows_def filter_empty_conv)

lemma set_groupby_station:
  "cv \<in> set (groupby_station ms) \<longleftrightarrow> (\<exists>s \<in> set (map m_station ms). agg_station ms s = Some cv)"
  by (force simp: groupby_station_def map_filter_def image_iff)

lemma groupby_station_stations:
  "map cv_station (groupby_station ms) = sort (remdups (map m_station ms))"
proof -
  have "\<forall>s \<in> set (sort (remdups (map m_station ms))). agg_station ms s \<noteq> None"
    using agg_station_Some station_rows_nonempty by fastforce
  then have "map cv_station (List.map_filter (agg_station ms) xs) = xs"
    if "set xs \<subseteq> set (sort (remdups (map m_station ms)))" for xs
    using that
  proof (induction xs)
    case Nil then show ?case by (simp add: map_filter_simps)
  next
    case (Cons x xs)
    then obtain cv where "agg_station ms x = Some cv" by fastforce
    with Cons show ?case by (simp add: map_filter_simps agg_station_station)
  qed
  then show ?thesis by (simp add: groupby_station_def)
qed

lemma groupby_station_match:
  "length (filter (\<lambda>cv. cv_station cv = x) (groupby_station ms))
     = (if x \<in> set (map m_station ms) then 1 else 0)"
proof -
  have "length (filter (\<lambda>cv. cv_station cv = x) (groupby_station ms))
        = length (filter (\<lambda>y. y = x) (map cv_station (groupby_station ms)))"
    by (simp add: filter_map comp_def)
  also have "\<dots> = (if x \<in> set (map m_station ms) then 1 else 0)"
    by (simp add: groupby_station_stations length_filter_eq_distinct del: set_map)
  finally show ?thesis .
qed

lemma build_directory_stations:
  "map d_station (build_directory ms sts)
     = sort (filter (\<lambda>x. x \<in> set (map m_station ms)) (map s_station sts))"
proof -
  have "map d_station (map (dir_entry_of st) (filter (\<lambda>cv. cv_station cv = s_station st) covs))
        = replicate (length (filter (\<lambda>cv. cv_station cv = s_station st) covs)) (s_station st)"
    for st covs
    by (induction covs) (auto simp: dir_entry_of_def)
  then have "map d_station (concat (map (\<lambda>st. map (dir_entry_of st)
               (filter (\<lambda>cv. cv_station cv = s_station st) (groupby_station ms))) sts))
             = filter (\<lambda>x. x \<in> set (map m_station ms)) (map s_station sts)"
    by (induction sts) (simp_all add: groupby_station_match del: set_map)
  then show ?thesis by (simp add: build_directory_def map_sort_key)
qed

lemma build_directory_mem:
  "e \<in> set (build_directory ms sts) \<longleftrightarrow>
     (\<exists>st cv. st \<in> set sts \<and> cv \<in> set (groupby_station ms) \<and> cv_station cv = s_station st
              \<and> e = dir_entry_of st cv)"
  by (auto simp: build_directory_def)

lemma dir_entry_cov:
  assumes "e \<in> set (build_directory ms sts)"
  shows "\<exists>st cv. st \<in> set sts \<and> agg_station ms (s_station st) = Some cv \<and> e = dir_entry_of st cv"
proof -
  from assms obtain st cv where "st \<in> set sts" "cv \<in> set (groupby_station ms)"
    "cv_station cv = s_station st" "e = dir_entry_of st cv"
    by (auto simp: build_directory_mem)
  moreover from this(2) obtain s where "agg_station ms s = Some cv"
    by (auto simp: set_groupby_station)
  moreover from this have "s = cv_station cv" by (simp add: agg_station_station)
  ultimately show ?thesis by auto
qed

subsection \<open>Coverage bounds\<close>

lemma count_le_span:
  assumes wf: "wf_dataset ms sts" and cv: "agg_station ms s = Some cv"
  shows "length (filter P (station_rows ms s)) \<le> nat (daterange_count cv)"
proof -
  let ?rows = "station_rows ms s"
  from cv have ne: "?rows \<noteq> []" by (auto simp: agg_station_None)
  from agg_station_Some [OF ne] cv have mm: "min_date ms s = Some (start_date cv)"
    "max_date ms s = Some (end_date cv)" by auto
  have "set (map m_date ?rows) \<subseteq> {start_date cv..end_date cv}"
    using min_date_le [OF mm(1)] max_date_ge [OF mm(2)] by auto
  then have "card (set (map m_date ?rows)) \<le> card {start_date cv..end_date cv}"
    by (rule card_mono [rotated]) simp
  moreover have "card (set (map m_date ?rows)) = length ?rows"
    using distinct_card [OF wf_station_dates [OF wf]] by simp
  moreover have "length (filter P ?rows) \<le> length ?rows" by simp
  ultimately show ?thesis by (simp add: daterange_count_def del: length_filter_le)
qed

lemma percent_missing_bounds:
  assumes "cnt \<le> nat days" "0 < days"
  shows "0 \<le> percent_missing cnt days \<and> percent_missing cnt days \<le> 1"
proof -
  have r0: "0 \<le> of_nat cnt / (of_int days :: real)" using assms(2) by simp
  have "of_nat cnt \<le> (of_int days :: real)" using assms by linarith
  then have r1: "of_nat cnt / (of_int days :: real) \<le> 1" using assms(2) by simp
  have "round_dec 4 (of_int 0) \<le> round_dec 4 (of_nat cnt / of_int days)"
    using r0 by (intro round_dec_mono) simp
  moreover have "round_dec 4 (of_nat cnt / of_int days) \<le> round_dec 4 (of_int 1)"
    using r1 by (intro round_dec_mono) simp
  ultimately show ?thesis
    by (simp add: percent_missing_def round_dec_int del: of_int_0 of_int_1)
qed

lemma daterange_count_pos:
  "agg_station ms s = Some cv \<Longrightarrow> 0 < daterange_count cv"
proof -
  assume cv: "agg_station ms s = Some cv"
  then have "station_rows ms s \<noteq> []" by (auto simp: agg_station_None)
  from agg_station_Some [OF this] cv min_le_max_date show ?thesis
    by (fastforce simp: daterange_count_def)
qed

subsection \<open>The concrete directory\<close>

lemma ex_directory:
  "build_directory ex_measurements ex_stations =
     [\<lparr>d_station = ''USC00519397'', d_name = ''WAIKIKI 717.2, HI US'',
       d_latitude = 21.2716, d_longitude = -157.8168, d_elevation = 3,
       d_start_date = 734503, d_end_date = 734505,
       prec_percent_missing = percent_missing 2 3, temp_percent_missing = percent_missing 1 3\<rparr>]"
  by (simp add: model_defs ex_measurements_def ex_stations_def numeral_2_eq_2
      del: percent_missing_def not_None_eq)

subsection \<open>The directory\<close>

text \<open>
  C23. The directory is sorted by station code, and lists each station once when the
  station table's codes are unique.
\<close>

theorem build_directory_sorted_distinct:
  assumes "distinct (map s_station sts)"
  shows "sorted (map d_station (build_directory ms sts)) \<and> distinct (map d_station (build_directory ms sts))"
  using assms by (simp add: build_directory_stations)

theorem build_directory_sorted_distinct_witness:
  "distinct (map s_station ex_stations)
   \<and> sorted (map d_station (build_directory ex_measurements ex_stations))
   \<and> distinct (map d_station (build_directory ex_measurements ex_stations))"
  using build_directory_sorted_distinct [of ex_stations ex_measurements]
  by (simp add: ex_stations_def)

text \<open>
  C24. The directory lists exactly the stations that are both in the station table and
  measured at least once (the inner join of \<^verbatim>\<open>merge\<close>).
\<close>

theorem build_directory_station_set:
  "set (map d_station (build_directory ms sts)) = set (map s_station sts) \<inter> set (map m_station ms)"
  by (auto simp: build_directory_stations simp del: set_map)

text \<open>
  C25. Each directory entry carries a listed station's metadata. Its first and last
  dates are the least and greatest dates of the station's records. Its missing shares
  are \<open>1 - round(count / span, 4)\<close>, where the count is the number of the station's
  records with a value in the column and the span is the inclusive number of days
  between the two dates.
\<close>

theorem build_directory_entry:
  assumes "e \<in> set (build_directory ms sts)"
  shows "\<exists>st \<in> set sts. {m \<in> set ms. m_station m = s_station st} \<noteq> {}
         \<and> d_station e = s_station st \<and> d_name e = s_name st
         \<and> d_start_date e = Min (m_date ` {m \<in> set ms. m_station m = s_station st})
         \<and> d_end_date e = Max (m_date ` {m \<in> set ms. m_station m = s_station st})
         \<and> prec_percent_missing e = 1 - round_dec 4
              (of_nat (length (filter (\<lambda>m. m_station m = s_station st \<and> prec m \<noteq> None) ms))
               / of_int (d_end_date e - d_start_date e + 1))
         \<and> temp_percent_missing e = 1 - round_dec 4
              (of_nat (length (filter (\<lambda>m. m_station m = s_station st \<and> temp m \<noteq> None) ms))
               / of_int (d_end_date e - d_start_date e + 1))"
proof -
  from dir_entry_cov [OF assms] obtain st cv where
    st: "st \<in> set sts" and cv: "agg_station ms (s_station st) = Some cv" and e: "e = dir_entry_of st cv"
    by blast
  from cv have ne: "station_rows ms (s_station st) \<noteq> []" by (auto simp: agg_station_None)
  have dates: "set (map m_date (station_rows ms (s_station st))) = m_date ` {m \<in> set ms. m_station m = s_station st}"
    by (auto simp: station_rows_def)
  from agg_station_Some [OF ne] cv
  have "min_date ms (s_station st) = Some (start_date cv)" "max_date ms (s_station st) = Some (end_date cv)"
    "prec_count cv = length (filter (\<lambda>m. prec m \<noteq> None) (station_rows ms (s_station st)))"
    "temp_count cv = length (filter (\<lambda>m. temp m \<noteq> None) (station_rows ms (s_station st)))"
    by auto
  with ne st e dates show ?thesis
    by (intro bexI [OF _ st])
       (auto simp: dir_entry_of_def daterange_count_def percent_missing_def min_date_def max_date_def
                   list_min_Some list_max_Some station_rows_def filter_filter conj_commute filter_empty_conv)
qed

theorem build_directory_entry_witness:
  "Min (m_date ` {m \<in> set ex_measurements. m_station m = ''USC00519397''}) = 734503
   \<and> Max (m_date ` {m \<in> set ex_measurements. m_station m = ''USC00519397''}) = 734505
   \<and> percent_missing 2 3 = 1 - round_dec 4 (2 / 3)"
proof -
  have "\<lparr>d_station = ''USC00519397'', d_name = ''WAIKIKI 717.2, HI US'',
       d_latitude = 21.2716, d_longitude = -157.8168, d_elevation = 3,
       d_start_date = 734503, d_end_date = 734505,
       prec_percent_missing = percent_missing 2 3, temp_percent_missing = percent_missing 1 3\<rparr>
       \<in> set (build_directory ex_measurements ex_stations)"
    by (simp add: ex_directory)
  from build_directory_entry [OF this] show ?thesis
    by (auto simp: ex_stations_def ex_measurements_def simp del: not_None_eq)
qed

text \<open>
  C26. On a well-formed dataset both missing shares of every entry lie in [0, 1]: a
  station has at most one value per day of its span.
\<close>

theorem build_directory_percent_bounds:
  assumes wf: "wf_dataset ms sts" and e: "e \<in> set (build_directory ms sts)"
  shows "0 \<le> prec_percent_missing e \<and> prec_percent_missing e \<le> 1
       \<and> 0 \<le> temp_percent_missing e \<and> temp_percent_missing e \<le> 1"
proof -
  from dir_entry_cov [OF e] obtain st cv where
    cv: "agg_station ms (s_station st) = Some cv" and ee: "e = dir_entry_of st cv"
    by blast
  from cv have "station_rows ms (s_station st) \<noteq> []" by (auto simp: agg_station_None)
  from agg_station_Some [OF this] cv have
    "prec_count cv = length (filter (\<lambda>m. prec m \<noteq> None) (station_rows ms (s_station st)))"
    "temp_count cv = length (filter (\<lambda>m. temp m \<noteq> None) (station_rows ms (s_station st)))"
    by auto
  with count_le_span [OF wf cv] have "prec_count cv \<le> nat (daterange_count cv)"
    "temp_count cv \<le> nat (daterange_count cv)" by simp_all
  with percent_missing_bounds daterange_count_pos [OF cv] show ?thesis
    by (simp add: ee dir_entry_of_def)
qed

theorem build_directory_percent_bounds_witness:
  "0 \<le> percent_missing 2 3 \<and> percent_missing 2 3 \<le> 1
   \<and> 0 \<le> percent_missing 1 3 \<and> percent_missing 1 3 \<le> 1"
proof -
  have "\<lparr>d_station = ''USC00519397'', d_name = ''WAIKIKI 717.2, HI US'',
       d_latitude = 21.2716, d_longitude = -157.8168, d_elevation = 3,
       d_start_date = 734503, d_end_date = 734505,
       prec_percent_missing = percent_missing 2 3, temp_percent_missing = percent_missing 1 3\<rparr> \<in> set (build_directory ex_measurements ex_stations)"
    by (simp add: ex_directory)
  from build_directory_percent_bounds [OF ex_wf this] show ?thesis by simp
qed

text \<open>
  C27. When the tables load, the stations route answers the missing-mode error exactly
  when \<^verbatim>\<open>mode\<close> is absent, and the invalid-mode error with the given value exactly
  when it is neither \<^verbatim>\<open>json\<close> nor \<^verbatim>\<open>html\<close>.
\<close>

theorem stations_mode_errors:
  assumes "make_connection todt rms rss = Inr x"
  shows "(stations todt a rms rss = ModeMissing \<longleftrightarrow> arg a ''mode'' = None)
       \<and> (stations todt a rms rss = ModeInvalid m
            \<longleftrightarrow> arg a ''mode'' = Some m \<and> m \<noteq> ''json'' \<and> m \<noteq> ''html'')"
  using assms by (cases x) (auto simp: stations_def Let_def split: option.splits)

theorem stations_mode_errors_witness:
  "stations parse_iso [] ex_raw_measurements ex_raw_stations = ModeMissing
   \<and> stations parse_iso [(''mode'', ''xml'')] ex_raw_measurements ex_raw_stations = ModeInvalid ''xml''"
  using stations_mode_errors [OF ex_connection, of "[]" "''xml''"]
    stations_mode_errors [OF ex_connection, of "[(''mode'', ''xml'')]" "''xml''"]
  by simp

lemma stations_row_bounds:
  assumes "stations parse_iso q rms rss = DirJson rows" "r \<in> set rows"
  shows "\<exists>ms sts a b. make_connection parse_iso rms rss = Inr (ms, sts)
           \<and> r_station r \<in> set (map s_station sts)
           \<and> min_date ms (r_station r) = Some a \<and> max_date ms (r_station r) = Some b
           \<and> 1 \<le> a \<and> a \<le> b \<and> b \<le> 3652059
           \<and> r_start_date r = fmt_date a \<and> r_end_date r = fmt_date b"
proof -
  from assms(1) obtain ms sts where mc: "make_connection parse_iso rms rss = Inr (ms, sts)"
    and rows: "rows = map render_entry (build_directory ms sts)"
    by (auto simp: stations_def Let_def split: sum.splits option.splits if_splits)
  from assms(2) rows obtain e where e: "e \<in> set (build_directory ms sts)" "r = render_entry e"
    by auto
  from dir_entry_cov [OF e(1)] obtain st cv where
    st: "st \<in> set sts" and cv: "agg_station ms (s_station st) = Some cv" "e = dir_entry_of st cv" by blast
  from cv(1) have ne: "station_rows ms (s_station st) \<noteq> []" by (auto simp: agg_station_None)
  from agg_station_Some [OF ne] cv(1) have mm: "min_date ms (s_station st) = Some (start_date cv)"
    "max_date ms (s_station st) = Some (end_date cv)" by auto
  have "1 \<le> start_date cv" "end_date cv \<le> 3652059"
    using parse_iso_dataset_range [OF mc] min_date_stored [OF mm(1)] max_date_stored [OF mm(2)] by blast+
  moreover have "start_date cv \<le> end_date cv" by (rule min_le_max_date [OF mm])
  ultimately show ?thesis using mc st mm e(2) cv(2)
    by (intro exI [of _ ms] exI [of _ sts] exI [of _ "start_date cv"] exI [of _ "end_date cv"])
       (simp add: render_entry_def dir_entry_of_def)
qed

lemma ex_directory3:
  "build_directory ex_measurements3 ex_stations2 =
     [\<lparr>d_station = ''USC00511918'', d_name = ''HONOLULU OBSERVATORY 702.2, HI US'',
       d_latitude = 21.3152, d_longitude = -157.9992, d_elevation = 0.9,
       d_start_date = 734504, d_end_date = 734504,
       prec_percent_missing = percent_missing 1 1, temp_percent_missing = percent_missing 1 1\<rparr>,
      \<lparr>d_station = ''USC00519397'', d_name = ''WAIKIKI 717.2, HI US'',
       d_latitude = 21.2716, d_longitude = -157.8168, d_elevation = 3,
       d_start_date = 734503, d_end_date = 734505,
       prec_percent_missing = percent_missing 2 3, temp_percent_missing = percent_missing 1 3\<rparr>]"
  by (simp add: model_defs ex_measurements3_def ex_measurements_def ex_stations2_def ex_stations_def
      numeral_2_eq_2 del: percent_missing_def not_None_eq)

end
