(* ===== verification/Messages.thy ===== *)
theory Messages
  imports Routes Directory
begin

text \<open>
  The error pages of \<^verbatim>\<open>src/app.py\<close> as the exact strings the handlers return.
  \<^verbatim>\<open>fmt_code\<close> (lines 21--23) wraps a name in a styled \<^verbatim>\<open><code>\<close> element, and
  joining a list of lines with newlines (\<^verbatim>\<open>"\<dots>".join\<close>) is \<open>join_nl\<close>. \<open>render_verror\<close> gives, per error of
  \<^verbatim>\<open>valid_query\<close>, the message the code assigns to \<^verbatim>\<open>error\<close> (lines 38--93).
  The date in the two range messages is \<^verbatim>\<open>strftime('%Y-%m-%d')\<close> of the
  station's bound. \<open>query_page\<close> is the text \<^verbatim>\<open>prec\<close> and \<^verbatim>\<open>temp\<close>
  return instead of JSON (lines 291--292, 299--300 and the unreachable branch), and
  \<open>mode_page\<close> the text of the stations route's mode errors (lines 271--283).
  \<open>verror_class\<close> maps the
  code's errors to the spec's error taxonomy and \<open>msg_class\<close> recognises a class
  from a page's fixed opening; neither is part of the program.
\<close>

definition fmt_code :: "string \<Rightarrow> string" where
  \<open>fmt_code code_str = ''<code style="background-color:#E0E0E0; padding:2px">'' @ code_str @ ''</code>''\<close>

definition sq :: string where
  "sq = [CHR 0x27]"

fun join_nl :: "string list \<Rightarrow> string" where
  "join_nl [] = []"
| "join_nl [x] = x"
| "join_nl (x # y # xs) = x @ CHR 0x0A # join_nl (y # xs)"

primrec render_verror :: "verror \<Rightarrow> string" where
  "render_verror (QtypeInvalid q) = join_nl
     [''<p>Error: Invalid '' @ fmt_code ''qtype'' @ '' '' @ sq @ q @ sq @ ''. '',
      ''Valid qtypes include '' @ fmt_code ''stats'' @ '' '',
      ''and '' @ fmt_code ''data'' @ ''.</p>'',
      ''<p>See API documentation for Precipitation route.</p>'']"
| "render_verror QtypeMissing = join_nl
     [''<p>Error: You must specify the '' @ fmt_code ''qtype'' @ '' for this query. '',
      ''Valid qtypes include '' @ fmt_code ''stats'' @ '' '',
      ''and '' @ fmt_code ''data'' @ ''.</p>'',
      ''<p>See API documentation for Precipitation route.</p>'']"
| "render_verror (StationInvalid s) = join_nl
     [''<p>Error: Invalid '' @ fmt_code ''station'' @ '' '' @ sq @ s @ sq @ ''. </p>'',
      ''<p>See '' @ fmt_code ''/api/v1.0/stations'' @ '' for valid stations.</p>'']"
| "render_verror StationMissing = join_nl
     [''<p>Error: You must specify the '' @ fmt_code ''station'' @ '' for this query. '',
      ''<p>See API documentation for Precipitation route.</p>'']"
| "render_verror (FromDateOutOfRange fs md s) = join_nl
     [''<p>Error: Invalid '' @ fmt_code ''from_date'' @ '' '' @ sq @ fs @ sq @ ''.</p><p>''
        @ fmt_code ''from_date'' @ '' must occur '',
      ''on or after the first available date '' @ fmt_date md @ '' for station '' @ s @ ''.</p>'',
      ''<p> See '' @ fmt_code ''/api/v1.0/stations'' @ '' for valid date ranges for each station.</p>'']"
| "render_verror (FromDateFormat fs) = join_nl
     [''<p>Error: Invalid '' @ fmt_code ''from_date'' @ '' format: '' @ sq @ fs @ sq @ ''.</p>'',
      ''<p>See API documentation for Precipitation route.</p>'']"
| "render_verror (ToDateOutOfRange ts xd s) = join_nl
     [''<p>Error: Invalid '' @ fmt_code ''to_date'' @ '' '' @ sq @ ts @ sq @ ''.</p><p>''
        @ fmt_code ''to_date'' @ '' must occur '',
      ''on or before the first available date '' @ fmt_date xd @ '' for station '' @ s @ ''.</p>'',
      ''<p> See '' @ fmt_code ''/api/v1.0/stations'' @ '' for valid date ranges for each station.</p>'']"
| "render_verror (ToDateFormat ts) = join_nl
     [''<p>Error: Invalid '' @ fmt_code ''to_date'' @ '' format: '' @ sq @ ts @ sq @ ''.</p>'',
      ''<p>See API documentation for Precipitation route.</p>'']"
| "render_verror (ToDateNotAfterFrom fs ts) = join_nl
     [''<p>Error: '' @ fmt_code ''to_date'' @ '' must occur after '' @ fmt_code ''from_date'' @ ''. '',
      ''('' @ fmt_code ''from_date'' @ '' = '' @ sq @ fs @ sq @ '' and '' @ fmt_code ''to_date''
        @ '' = '' @ sq @ ts @ sq @ '')'']"

definition query_page :: "response \<Rightarrow> string option" where
  "query_page r = (case r of
       ErrorPage e \<Rightarrow> Some (render_verror e)
     | Unreachable \<Rightarrow> Some ''You should never see this, but contact the webmaster if you do.''
     | _ \<Rightarrow> None)"

definition mode_page :: "dir_response \<Rightarrow> string option" where
  "mode_page r = (case r of
       ModeInvalid m \<Rightarrow> Some (join_nl
         [''<p>Error: Invalid '' @ fmt_code ''mode'' @ '' '' @ sq @ m @ sq @ ''. '',
          ''Valid modes include '' @ fmt_code ''json'' @ '' and '' @ fmt_code ''html'' @ ''.</p>'',
          ''<p>Example: '' @ fmt_code ''/api/v1.0/stations?mode=html'' @ ''</p>''])
     | ModeMissing \<Rightarrow> Some (join_nl
         [''<p>Error: You must specify the '' @ fmt_code ''mode'' @ '' for this query. '',
          ''Valid modes include '' @ fmt_code ''json'' @ '' and '' @ fmt_code ''html'' @ ''.</p>'',
          ''<p>Example: '' @ fmt_code ''/api/v1.0/stations?mode=html'' @ ''</p>''])
     | _ \<Rightarrow> None)"

primrec verror_class :: "verror \<Rightarrow> spec_error" where
  "verror_class (QtypeInvalid q) = EQtype"
| "verror_class QtypeMissing = EQtype"
| "verror_class (StationInvalid s) = EStation"
| "verror_class StationMissing = EStation"
| "verror_class (FromDateOutOfRange fs md s) = EFromRange"
| "verror_class (FromDateFormat fs) = EDateFormat"
| "verror_class (ToDateOutOfRange ts xd s) = EToRange"
| "verror_class (ToDateFormat ts) = EDateFormat"
| "verror_class (ToDateNotAfterFrom fs ts) = EToNotAfterFrom"

definition starts_with :: "string \<Rightarrow> string \<Rightarrow> bool" where
  "starts_with p s \<longleftrightarrow> take (length p) s = p"

definition msg_class :: "string \<Rightarrow> spec_error option" where
  "msg_class s =
     (if starts_with (''<p>Error: Invalid '' @ fmt_code ''qtype'') s then Some EQtype
      else if starts_with (''<p>Error: You must specify the '' @ fmt_code ''qtype'') s then Some EQtype
      else if starts_with (''<p>Error: Invalid '' @ fmt_code ''station'') s then Some EStation
      else if starts_with (''<p>Error: You must specify the '' @ fmt_code ''station'') s then Some EStation
      else if starts_with (''<p>Error: Invalid '' @ fmt_code ''from_date'' @ '' format: '') s then Some EDateFormat
      else if starts_with (''<p>Error: Invalid '' @ fmt_code ''to_date'' @ '' format: '') s then Some EDateFormat
      else if starts_with (''<p>Error: Invalid '' @ fmt_code ''from_date'') s then Some EFromRange
      else if starts_with (''<p>Error: Invalid '' @ fmt_code ''to_date'') s then Some EToRange
      else if starts_with (''<p>Error: '' @ fmt_code ''to_date'' @ '' must occur after'') s then Some EToNotAfterFrom
      else None)"

subsection \<open>Messages identify the error\<close>

text \<open>
  C29. Whatever the user typed, the page a validation error produces tells which error
  of the spec's taxonomy occurred: its fixed opening (the parameter named in a
  \<^verbatim>\<open><code>\<close> element and the wording) determines the class, which \<open>msg_class\<close>
  reads back.
\<close>

theorem msg_class_render: "msg_class (render_verror e) = Some (verror_class e)"
  by (cases e) (simp_all add: msg_class_def starts_with_def fmt_code_def sq_def)

end
