(* ===== verification/Home.thy ===== *)
theory Home
  imports Messages
begin

text \<open>
  The static home page \<^verbatim>\<open>home\<close> of \<^verbatim>\<open>src/app.py\<close> (lines 153--252): the
  API documentation, a newline-joined list of 93 lines (\<open>home_lines\<close>). The last
  two source literals, \<^verbatim>\<open>f'</body>'\<close> and \<^verbatim>\<open>f'</html>'\<close>, have no comma
  between them, so Python concatenates them into one line. The documentation shows
  four example calls. To check them, \<open>url_args\<close> reads the query string of a URL
  as Flask does for these examples: pairs separated by \<^verbatim>\<open>&\<close>, key and value
  separated by the first \<^verbatim>\<open>=\<close>, without percent-decoding, which none of them
  uses. \<open>url_args\<close> and the example checks are not part of the program.
\<close>

definition home_lines :: "string list" where
  \<open>home_lines =
    [''<!DOCTYPE html>'',
     ''<html lang="en">'',
     ''<head>'',
     ''  <meta charset="UTF-8">'',
     ''  <title>Hawaii Climate API</title>'',
     ''<style>'',
     ''table {border-collapse: collapse;}'',
     ''th {padding: 8px; border: 1px solid white; color: white; background-color: black;}'',
     ''td {padding: 8px; border: 1px solid black;}'',
     ''code {background-color: #E0E0E0; padding: 2px;}'',
     ''span {font-weight: bold; background-color: #EAEAEA; color: #EB6E4B;}'',
     ''.footnote {font-size: 0.9em; border-right-style: none; border-left-style: none; border-bottom-style: none;}'',
     ''</style'',
     ''</head>'',
     ''<body>'',
     [],
     ''<div style="padding-left: 50px; padding-top: 20px; padding-bottom: 100px;">'',
     ''<h1>Welcome to My Hawaii Climate API!</h1><br>'',
     ''<div style="border: thin solid #BFBFBF; width: 75%;"></div>'',
     ''<h2>Stations</h2><p>Obtain list of available meteorology stations and associated metadata in the API dataset. '',
     ''The following fields are provided:</p>'',
     ''<ul>'',
     ''   <li>Station</li>'',
     ''   <li>Station name</li>'',
     ''   <li>Station latitude (decimal degrees)</li>'',
     ''   <li>Station longitude (decimal degrees)</li>'',
     ''   <li>Station elevation (ft)</li>'',
     ''   <li>Start date of available observations</li>'',
     ''   <li>End date of available observations</li>'',
     ''   <li>Percent of missing (undefined) precipitation observations between the start and end dates</li>'',
     ''   <li>Percent of missing (undefined) temperature observations between the start and end dates</li>'',
     ''</ul>'',
     ''<table><thead><tr><th>Query format</th><th>Returns</th></tr></thead><tbody>'',
     ''<tr><td><code>/api/v1.0/stations?mode=html</code></td>'',
     ''<td>HTML table</td></tr>'',
     ''<tr><td><code>/api/v1.0/stations?mode=json</code></td>'',
     ''<td>JSON output of station metadata</td></tr>'',
     ''</tbody></table><br><br>'',
     ''<div style="border: thin solid #BFBFBF; width: 75%;"></div>'',
     [],
     ''<h2>Precipitation</h2><p>Query precipitation data from stations in the API dataset.</p>'',
     [],
     ''<h4>API Call</h4>'',
     ''<table style="background-color:#EAEAEA"><tr><td style="padding: 20px">'',
     ''/api/v1.0/prec?qtype=<span>&lcub;type&rcub;</span>&station=<span>&lcub;station&rcub;</span>'',
     ''&from_date=<span>&lcub;start&rcub;</span>&to_date=<span>&lcub;end&rcub;</span>'',
     ''</td></tr></table>'',
     [],
     ''<h4>Parameters</h4>'',
     ''<table><thead><tr><th colspan="2">Parameter</th><th>Format</th><th>Description</th></tr></thead>'',
     ''<tbody>'',
     ''<tr><td rowspan="2"><code>qtype</code></td><td rowspan="2">Required</td><td><code>stats</code></td><td>Metadata and statistics are shown for the selected station.</td></tr>'',
     ''<tr><td><code>data</code></td><td>Precipitation data for selected time range will be returned. Missing values are indicated using null.</td></tr>'',
     ''<tr><td><code>station</code></td><td>Required</td><td>USC00519281</td><td>Station as shown in <code>/api/v1.0/stations</code>.</td></tr>'',
     ''<tr><td><code>from_date</code></td><td>Optional</td><td>2012-05-26*</td><td>Start date for data retrieval. If omitted, the beginning of the available period of record will be used.</td></tr>'',
     ''<tr><td><code>to_date</code></td><td>Optional</td><td>2016-11-03*</td><td>Start date for data retrieval. If omitted, the end of the period of available record will be used.</td></tr>'',
     ''<tr><td colspan="4" class="footnote">*Dates must lie within the range shown in <code>/api/v1.0/stations</code> for the selected station.</td></tr>'',
     ''</tbody></table>'',
     [],
     ''<h4>API Call Examples</h4>'',
     ''<table style="background-color:#EAEAEA"><tr><td style="padding: 20px">'',
     ''/api/v1.0/prec?qtype=stats&station=USC00513117&from_date=2010-06-01&to_date=2017-05-31<br><br>'',
     ''/api/v1.0/prec?qtype=data&station=USC00519523&from_date=2014-01-01&to_date=2014-12-31'',
     ''</td></tr></table><br><br>'',
     ''<div style="border: thin solid #BFBFBF; width: 75%;"></div>'',
     [],
     ''<h2>Temperature</h2><p>Query temperature data from stations in the API dataset.</p>'',
     [],
     ''<h4>API Call</h4>'',
     ''<table style="background-color:#EAEAEA"><tr><td style="padding: 20px">'',
     ''/api/v1.0/temp?qtype=<span>&lcub;type&rcub;</span>&station=<span>&lcub;station&rcub;</span>'',
     ''&from_date=<span>&lcub;start&rcub;</span>&to_date=<span>&lcub;end&rcub;</span>'',
     ''</td></tr></table>'',
     [],
     ''<h4>Parameters</h4>'',
     ''<table><thead><tr><th colspan="2">Parameter</th><th>Format</th><th>Description</th></tr></thead>'',
     ''<tbody>'',
     ''<tr><td rowspan="2"><code>qtype</code></td><td rowspan="2">Required</td><td><code>stats</code></td><td>Metadata and statistics are shown for the selected station.</td></tr>'',
     ''<tr><td><code>data</code></td><td>Temperature data for selected time range will be returned. Missing values are indicated using null.</td></tr>'',
     ''<tr><td><code>station</code></td><td>Required</td><td>USC00519281</td><td>Station as shown in <code>/api/v1.0/stations</code>.</td></tr>'',
     ''<tr><td><code>from_date</code></td><td>Optional</td><td>2012-05-26*</td><td>Start date for data retrieval. If omitted, the beginning of the available period of record will be used.</td></tr>'',
     ''<tr><td><code>to_date</code></td><td>Optional</td><td>2016-11-03*</td><td>Start date for data retrieval. If omitted, the end of the period of available record will be used.</td></tr>'',
     ''<tr><td colspan="4" class="footnote">*Dates must lie within the range shown in <code>/api/v1.0/stations</code> for the selected station.</td></tr>'',
     ''</tbody></table>'',
     [],
     ''<h4>API Call Examples</h4>'',
     ''<table style="background-color:#EAEAEA"><tr><td style="padding: 20px">'',
     ''/api/v1.0/temp?qtype=stats&station=USC00513117&from_date=2010-06-01&to_date=2017-05-31<br><br>'',
     ''/api/v1.0/temp?qtype=data&station=USC00519523&from_date=2014-01-01&to_date=2014-12-31'',
     ''</td></tr></table><br>'',
     [],
     ''</div>'',
     ''</body></html>'']\<close>

definition home :: string where
  "home = join_nl home_lines"

fun split_on :: "char \<Rightarrow> string \<Rightarrow> string list" where
  "split_on c [] = [[]]"
| "split_on c (x # xs) = (let ws = split_on c xs in if x = c then [] # ws else (x # hd ws) # tl ws)"

definition url_args :: "string \<Rightarrow> query_args" where
  "url_args u =
     map (\<lambda>kv. (takeWhile (\<lambda>ch. ch \<noteq> CHR ''='') kv, drop 1 (dropWhile (\<lambda>ch. ch \<noteq> CHR ''='') kv)))
       (split_on CHR ''&'' (drop 1 (dropWhile (\<lambda>ch. ch \<noteq> CHR ''?'') u)))"

definition url_text :: "string \<Rightarrow> string" where
  "url_text l = takeWhile (\<lambda>ch. ch \<noteq> CHR ''<'') l"

definition is_example :: "string \<Rightarrow> bool" where
  "is_example l \<longleftrightarrow> starts_with ''/api/v1.0/'' l \<and> CHR ''&'' \<in> set (url_text l)"

definition example_ok :: "string \<Rightarrow> bool" where
  "example_ok l =
     (let a = url_args (url_text l)
      in fst (check_qtype a) = None \<and> truthy (arg a ''station'')
         \<and> (case (arg a ''from_date'', arg a ''to_date'') of
              (Some fs, Some ts) \<Rightarrow>
                (case (parse_iso fs, parse_iso ts) of (Some f, Some t) \<Rightarrow> f < t | _ \<Rightarrow> False)
            | _ \<Rightarrow> False))"

definition covers :: "measurement list \<Rightarrow> station_row list \<Rightarrow> query_args \<Rightarrow> bool" where
  "covers ms sts a =
     (case (arg a ''station'', arg a ''from_date'', arg a ''to_date'') of
        (Some s, Some fs, Some ts) \<Rightarrow>
          s \<in> set (map s_station sts) \<and>
          (case (min_date ms s, max_date ms s, parse_iso fs, parse_iso ts) of
             (Some mn, Some mx, Some f, Some t) \<Rightarrow> mn \<le> f \<and> t \<le> mx
           | _ \<Rightarrow> False)
      | _ \<Rightarrow> False)"

text \<open>A station table and two observations covering the first example call.\<close>

definition ex_home_stations :: "station_row list" where
  "ex_home_stations = [\<lparr>s_station = ''USC00513117'', s_name = ''KANEOHE 838.1, HI US'',
                        latitude = 21.4234, longitude = -157.8015, elevation = 14.6\<rparr>]"

definition ex_home_measurements :: "measurement list" where
  "ex_home_measurements =
     [\<lparr>m_station = ''USC00513117'', m_date = 733924, prec = Some 0.2, temp = Some 74\<rparr>,
      \<lparr>m_station = ''USC00513117'', m_date = 736480, prec = None, temp = Some 75\<rparr>]"

lemma home_examples_count: "length (filter is_example home_lines) = 4"
  by code_simp

lemma home_examples_ok: "list_all (\<lambda>l. is_example l \<longrightarrow> example_ok l) home_lines"
  by code_simp


lemma example_okD:
  assumes "example_ok l"
  shows "\<exists>q fs ts f t. arg (url_args (url_text l)) ''qtype'' = Some q \<and> qkind_of q \<noteq> None
     \<and> arg (url_args (url_text l)) ''from_date'' = Some fs \<and> parse_iso fs = Some f
     \<and> arg (url_args (url_text l)) ''to_date'' = Some ts \<and> parse_iso ts = Some t \<and> f < t"
  using assms
  by (auto simp: example_ok_def Let_def check_qtype_def qkind_of_def split: option.splits if_splits)

subsection \<open>The documented examples\<close>


lemma home_examples_accepted:
  assumes l: "l \<in> set home_lines" "is_example l" and cd: "complete_dataset ms sts"
    and cov: "covers ms sts (url_args (url_text l))"
  shows "\<exists>r f t. valid_query parse_iso (url_args (url_text l)) ms sts = Inr r \<and> vq_error r = None
           \<and> parse_iso (the (arg (url_args (url_text l)) ''from_date'')) = Some f \<and> vq_from r = Some f
           \<and> parse_iso (the (arg (url_args (url_text l)) ''to_date'')) = Some t \<and> vq_to r = Some t"
proof -
  let ?a = "url_args (url_text l)"
  from home_examples_ok l have "example_ok l" by (auto simp: list_all_iff)
  from example_okD [OF this] obtain q fs ts f t where
    q: "arg ?a ''qtype'' = Some q" "qkind_of q \<noteq> None" and
    d: "arg ?a ''from_date'' = Some fs" "parse_iso fs = Some f"
       "arg ?a ''to_date'' = Some ts" "parse_iso ts = Some t" "f < t"
    by blast
  from cov d obtain s mn mx where
    s: "arg ?a ''station'' = Some s" "s \<in> set (map s_station sts)" and
    b: "min_date ms s = Some mn" "max_date ms s = Some mx" "mn \<le> f" "t \<le> mx"
    by (auto simp: covers_def split: option.splits)
  from q obtain k where k: "qkind_of q = Some k" by blast
  have "validate_spec parse_iso ?a ms sts = Inr \<lparr>rq_qtype = k, rq_station = s, rq_from = f, rq_to = t\<rparr>"
    using q k d s b by (simp add: validate_spec_def spec_from_def spec_to_def del: set_map)
  from valid_query_from_spec [OF cd this] d show ?thesis by (simp add: vq_of_def)
qed

end
