(* ===== verification/Server.thy ===== *)
theory Server
  imports Home
begin

text \<open>
  The service as a whole. Flask dispatches each request by its path (the
  \<^verbatim>\<open>@app.route\<close> decorators of lines 152, 254, 285 and 302) to \<^verbatim>\<open>home\<close>,
  \<^verbatim>\<open>stations\<close>, \<^verbatim>\<open>prec\<close> or \<^verbatim>\<open>temp\<close>; \<open>dispatch\<close> is that table. The spec's
  concurrency model (section 5: requests independent, stateless, safe to run in
  parallel, each either completes with a result or an error) is the step relation
  \<open>srv_step\<close> on a server state: a request arrives with a fresh identifier, and any
  pending request, in any order, is answered by \<open>dispatch\<close>. The tables and the date
  parsers are a fixed environment: every request reads the same snapshot. The server
  itself is Flask's and is modelled from the spec. Lemmas: in every reachable state
  each answer is the dispatch of its own request, whatever the interleaving
  (\<open>srv_answers_consistent\<close>); every pending request is eventually answered
  (\<open>srv_eventually_answered\<close>). Both hold for any dispatch function.
\<close>

datatype request = ReqHome | ReqStations query_args | ReqPrec query_args | ReqTemp query_args

datatype answer = AHome string | ADir dir_response | AQuery response

type_synonym env = "(string \<Rightarrow> day option) \<times> (string \<Rightarrow> day option) \<times> raw_measurement list \<times> raw_station list"

definition dispatch :: "env \<Rightarrow> request \<Rightarrow> answer" where
  "dispatch E r = (case E of (todt, parse, rms, rss) \<Rightarrow>
     (case r of
        ReqHome \<Rightarrow> AHome home
      | ReqStations a \<Rightarrow> ADir (stations todt a rms rss)
      | ReqPrec a \<Rightarrow> AQuery (prec todt parse a rms rss)
      | ReqTemp a \<Rightarrow> AQuery (temp_route todt parse a rms rss)))"

record server =
  arrived :: "(nat \<times> request) list"
  pending :: "(nat \<times> request) list"
  answered :: "(nat \<times> answer) list"

definition srv_init :: server where
  "srv_init = \<lparr>arrived = [], pending = [], answered = []\<rparr>"

inductive srv_step :: "env \<Rightarrow> server \<Rightarrow> server \<Rightarrow> bool" for E where
  Arrive: "i \<notin> fst ` set (arrived s) \<Longrightarrow>
     srv_step E s (s\<lparr>arrived := arrived s @ [(i, r)], pending := pending s @ [(i, r)]\<rparr>)"
| Serve: "pending s = xs @ (i, r) # ys \<Longrightarrow>
     srv_step E s (s\<lparr>pending := xs @ ys, answered := (i, dispatch E r) # answered s\<rparr>)"

definition srv_inv :: "env \<Rightarrow> server \<Rightarrow> bool" where
  "srv_inv E s \<longleftrightarrow> distinct (map fst (arrived s))
     \<and> distinct (map fst (pending s) @ map fst (answered s))
     \<and> set (pending s) \<subseteq> set (arrived s)
     \<and> (\<forall>(i, a) \<in> set (answered s). \<exists>r. (i, r) \<in> set (arrived s) \<and> a = dispatch E r)"

inductive_cases srv_stepE: "srv_step E s s'"

lemma srv_init_inv: "srv_inv E srv_init"
  by (simp add: srv_inv_def srv_init_def)

lemma srv_step_inv: "srv_step E s s' \<Longrightarrow> srv_inv E s \<Longrightarrow> srv_inv E s'"
proof (induction rule: srv_step.induct)
  case (Arrive i s r)
  have "i \<notin> fst ` set (answered s)"
  proof
    assume "i \<in> fst ` set (answered s)"
    then obtain a where "(i, a) \<in> set (answered s)" by force
    with Arrive.prems obtain r' where "(i, r') \<in> set (arrived s)" by (auto simp: srv_inv_def)
    with Arrive.hyps show False by force
  qed
  moreover have "i \<notin> fst ` set (pending s)"
    using Arrive by (auto simp: srv_inv_def)
  ultimately show ?case using Arrive by (auto simp: srv_inv_def)
next
  case (Serve s xs i r ys)
  then show ?case by (fastforce simp: srv_inv_def)
qed

lemma srv_steps_inv: "(srv_step E)\<^sup>*\<^sup>* s s' \<Longrightarrow> srv_inv E s \<Longrightarrow> srv_inv E s'"
  by (induction rule: rtranclp_induct) (auto intro: srv_step_inv)

lemma srv_step_answered_mono: "srv_step E s s' \<Longrightarrow> set (answered s) \<subseteq> set (answered s')"
  by (induction rule: srv_step.induct) auto

lemma srv_steps_answered_mono:
  "(srv_step E)\<^sup>*\<^sup>* s s' \<Longrightarrow> set (answered s) \<subseteq> set (answered s')"
  by (induction rule: rtranclp_induct) (use srv_step_answered_mono in blast)+

subsection \<open>Interleaving and progress\<close>


lemma srv_eventually_answered:
  "\<exists>s'. (srv_step E)\<^sup>*\<^sup>* s s' \<and> pending s' = []
      \<and> (\<forall>(i, r) \<in> set (pending s). (i, dispatch E r) \<in> set (answered s'))"
proof (induction "pending s" arbitrary: s)
  case Nil
  then show ?case by auto
next
  case (Cons p ys)
  obtain i r where p: "p = (i, r)" by force
  let ?s1 = "s\<lparr>pending := ys, answered := (i, dispatch E r) # answered s\<rparr>"
  have st: "srv_step E s ?s1"
    using srv_step.Serve [of s "[]" i r ys E] Cons.hyps(2) p by simp
  from Cons.hyps(1) [of ?s1] obtain s' where
    s': "(srv_step E)\<^sup>*\<^sup>* ?s1 s'" "pending s' = []"
        "\<forall>(j, q) \<in> set ys. (j, dispatch E q) \<in> set (answered s')"
    by auto
  have "(i, dispatch E r) \<in> set (answered s')"
    using srv_steps_answered_mono [OF s'(1)] by auto
  moreover have ps: "pending s = (i, r) # ys" using Cons.hyps(2) p by simp
  ultimately show ?case using s' st
    by (intro exI [of _ s']) (auto intro: converse_rtranclp_into_rtranclp)
qed

lemma srv_answers_consistent:
  assumes "(srv_step E)\<^sup>*\<^sup>* srv_init s"
  shows "distinct (map fst (answered s))
         \<and> (\<forall>(i, a) \<in> set (answered s). \<exists>r. (i, r) \<in> set (arrived s) \<and> a = dispatch E r)"
  using srv_steps_inv [OF assms srv_init_inv] by (simp add: srv_inv_def)

end
