(* ===== verification/Spec2Isabelle.thy ===== *)
theory Spec2Isabelle
  imports Server
begin

text \<open>
  \<^bold>\<open>A verification development of the Hawaii climate API\<close> (\<^verbatim>\<open>src/app.py\<close>).

  \<^bold>\<open>The program.\<close> A Flask service over two tables (daily measurements and
  stations). Each request re-reads both tables (\<^verbatim>\<open>make_connection\<close>). The
  \<^verbatim>\<open>/api/v1.0/prec\<close> and \<^verbatim>\<open>/api/v1.0/temp\<close> routes validate their query
  parameters (\<^verbatim>\<open>valid_query\<close>), then either build the station's daily series over
  the requested range with gaps forward-filled (\<^verbatim>\<open>filter_df\<close>, used by
  \<^verbatim>\<open>get_data\<close>) or summarise that series (\<^verbatim>\<open>get_stats\<close>: decile quantiles,
  mean, missing counts). \<^verbatim>\<open>/api/v1.0/stations\<close> joins the station table with each
  station's coverage (first and last date, share of missing values). \<^verbatim>\<open>/\<close> is a
  static HTML page.

  \<^bold>\<open>Theories.\<close>
  \<^item> \<open>Prelude\<close>: the model's types and shared lemmas. Dates are day ordinals
    (\<open>day = int\<close>). Request arguments are an association list read by \<open>arg\<close>
    (the first value wins, as with Flask's \<^verbatim>\<open>request.args[k]\<close>). Python
    truthiness is \<open>truthy\<close>. An escaping Python exception is a \<open>pyexc\<close> on the
    \<open>Inl\<close> side of a sum. pandas' min/max of a column are \<open>list_min\<close> and
    \<open>list_max\<close> (\<open>None\<close> is \<^verbatim>\<open>NaT\<close>). numpy rounding is \<open>rint\<close> (half to
    even) and \<open>round_dec\<close>, \<open>round3\<close>. The collection \<open>model_defs\<close> evaluates
    the definitions on concrete inputs.
  \<^item> \<open>Calendar\<close>: Python's date ordinal arithmetic (\<open>ymd2ord\<close> and its helpers),
    its inverse \<open>ord2ymd\<close> (CPython's \<^verbatim>\<open>_ord2ymd\<close>: 400/100/4/1-year blocks and
    the month estimate \<open>doy_to_md\<close>), and a \<^verbatim>\<open>YYYY-MM-DD\<close> reader \<open>parse_iso\<close>.
    These are modelled from the spec because the standard library is not part of the
    repository. Lemmas: \<open>ord2ymd\<close> maps every positive ordinal to a valid date that
    maps back (\<open>ord2ymd_valid\<close>), and inverts \<open>ymd2ord\<close> on valid dates
    (\<open>ord2ymd_ymd2ord\<close>). The two month tables are checked by \<open>code_simp\<close> over all
    365 days and all (month, day) pairs. Every other definition takes the date parser
    as a parameter \<open>todt\<close>/\<open>parse\<close>.
  \<^item> \<open>Format\<close>: the printers \<^verbatim>\<open>strftime('%Y-%m-%d')\<close> (\<open>fmt_date\<close>, fields
    zero-padded by \<open>fixed_digits\<close>) and \<^verbatim>\<open>:.2%\<close> (\<open>pct_str\<close>), modelled from
    the spec's formats. Lemmas: \<open>parse_iso\<close> accepts exactly the printed dates of
    years 1--9999, and reads them back. Printed dates
    sort as strings in the order of the days (\<open>fmt_date_less\<close>, from the
    lexicographic monotonicity of \<open>ymd2ord\<close>, \<open>ymd2ord_less\<close>, and the order of
    fixed-width digit strings, \<open>fixed_digits_less\<close>).
  \<^item> \<open>Dataset\<close>: the rows of both tables as records and \<open>make_connection\<close>'s
    normalisation (lines 9--19). It also holds the column selector, the per-station
    date bounds \<open>min_date\<close>/\<open>max_date\<close> (lines 63 and 79), the invariant
    \<open>wf_dataset\<close> (one record per station and date, measured stations listed,
    unique codes), \<open>complete_dataset\<close> (in addition, every listed station is
    measured and its code is non-empty), and the spec's scenario tables.
  \<^item> \<open>Validator\<close>: \<open>valid_query\<close> (lines 27--97) as its four stages
    \<open>check_qtype\<close>, \<open>check_station\<close>, \<open>check_from\<close> and \<open>check_to\<close>.
    \<open>parse_to\<close> is the \<^verbatim>\<open>try\<close> block of lines 82--90. Errors are values of
    \<open>verror\<close>, one per message. The stages pass the \<^verbatim>\<open>error\<close> variable along and
    may overwrite it, as the code does. Beside them is the spec's validator
    \<open>validate_spec\<close>, which stops at the first error and returns a resolved query.
    Lemmas: soundness of an accepted query (C1); refinement of the spec's validator
    on a complete dataset (C2); the error paths where the code departs from the spec
    (C11--C14, C16, C17).
  \<^item> \<open>Filler\<close>: \<open>filter_df\<close> (lines 100--106), made of the day range
    \<open>date_range\<close>, the left join \<open>left_join\<close> and pandas' forward fill of the
    join indexer \<open>ffill_indexer\<close>. The reference is the spec's per-column forward
    fill \<open>fill_col\<close>, with \<open>latest_obs\<close> for the latest observation not after a
    day. Lemmas: one row per day in order (C3); each row is the latest observation
    (C4); refinement of the per-column fill when the last observation has both
    values (C5); on any dataset, the row-level fill leaves a value missing where the
    per-column fill has one (C10). The spec's scenario is \<open>filter_df_scenario\<close>.
    pandas' day-range generator is kept as a loop (\<open>generate_range\<close>, a
    \<open>while_option\<close>): it stops after exactly \<open>max 0 (b - a + 1)\<close> iterations and
    yields \<open>date_range\<close>'s index (\<open>generate_range_terminates\<close>).
  \<^item> \<open>Stats\<close>: \<open>get_stats\<close> (lines 109--137) with the linear quantile
    \<open>quantile_lin\<close>/\<open>lerp_at\<close> (pandas' linear method), the deciles
    \<open>quant_list\<close> and the mean \<open>mean_val\<close>, and \<open>get_data\<close>. Lemmas: the
    percentiles are sorted (C6); they run from the minimum to the maximum (C8);
    the day and value counts are counts of days of the filled series (C7); the mean
    lies between the extremes (C9); a range without days raises
    \<^verbatim>\<open>ZeroDivisionError\<close> (C15). The answers carry dates and the missing
    percentage as the strings the code prints.
  \<^item> \<open>Routes\<close>: \<open>query_route\<close>, the common body of \<^verbatim>\<open>prec\<close> and
    \<^verbatim>\<open>temp\<close> (lines 285--317), composing the accessor, the validator and
    \<open>answer_query\<close>. Lemmas, end to end: the unreachable branch is never taken
    (C18); a statistics answer describes the requested station and range (C19); a
    data answer has one row per requested day (C20), and its date keys are strictly
    increasing strings (\<open>query_route_data_sorted\<close>); for any dataset, a
    \<^verbatim>\<open>from_date\<close> after the last observation crashes the statistics route and
    empties the data route (C21), and an unmeasured listed station crashes both (C22).
  \<^item> \<open>Directory\<close>: the \<^verbatim>\<open>stations\<close> route (lines 254--283). \<open>agg_station\<close> and
    \<open>groupby_station\<close> are the \<^verbatim>\<open>groupby\<close> aggregation. \<open>daterange_count\<close> is
    the inclusive span, \<open>percent_missing\<close> is \<open>1 - round(count/span, 4)\<close>, and
    \<open>build_directory\<close> is the sorted inner \<^verbatim>\<open>merge\<close>. \<open>stations\<close> is the mode
    dispatch. Lemmas: the directory is sorted with one entry per station (C23); its
    station set (C24); each entry's dates are the least and greatest dates of the
    station's records and its shares are \<open>1 - round(count/span, 4)\<close> (C25); the
    missing shares lie in [0, 1] (C26); the mode errors (C27). The route's rows carry the dates and shares as
    printed (\<open>render_entry\<close>, lines 260--263), and the printed dates are those of
    the validator's date bounds (\<open>stations_row_bounds\<close>).
  \<^item> \<open>Messages\<close>: \<^verbatim>\<open>fmt_code\<close> and the exact error pages: \<open>render_verror\<close>
    (lines 38--93), \<open>query_page\<close> (the text answers of \<^verbatim>\<open>prec\<close>/\<^verbatim>\<open>temp\<close>)
    and \<open>mode_page\<close> (lines 271--283). Lemma: the page of a validation error
    determines its class in the spec's taxonomy, whatever the user typed (C29).
  \<^item> \<open>Home\<close>: the static page \<^verbatim>\<open>home\<close> (lines 153--252), its 93 lines transcribed
    from the source literals. Lemma: every example call it shows is accepted by
    \<^verbatim>\<open>valid_query\<close> on a dataset covering the example
    (\<open>home_examples_accepted\<close>).
  \<^item> \<open>Server\<close>: Flask's routing table \<open>dispatch\<close> (the \<^verbatim>\<open>@app.route\<close>
    decorators) and the spec's concurrency model (section 5) as the inductive step
    relation \<open>srv_step\<close>: requests arrive with fresh identifiers and pending requests
    are answered in any order, on one snapshot of the tables. Lemmas, by rule induction:
    under every interleaving each answer is the dispatch of its own request and no
    request is answered twice (\<open>srv_answers_consistent\<close>); every pending request
    is eventually answered (\<open>srv_eventually_answered\<close>). These hold for any
    dispatch function: they are facts of the spec's server model, not of the handlers.

  \<^bold>\<open>Modelling choices.\<close> A data frame is a list of records in row order. A missing
  value is \<open>None\<close>. Floating-point values are reals, so the rounding errors of
  binary floats are not modelled; numpy's rounding of halves to even is. Comparing
  \<^verbatim>\<open>None\<close> or \<^verbatim>\<open>NaT\<close> with a date by \<open><\<close> or \<open>\<le>\<close> is taken to raise
  \<^verbatim>\<open>TypeError\<close>: for \<^verbatim>\<open>None\<close> this is Python's rule, and for \<^verbatim>\<open>NaT\<close>
  compared with a parsed \<^verbatim>\<open>datetime\<close> it is the modelled reading. None of the
  definitions loops without a bound: the filler and the statistics are structural
  recursions or folds over the finite day range, and the day-range generator is a
  \<open>while_option\<close> whose termination is proved with the measure
  \<open>nat (b - cur + 1)\<close>. The reference \<open>latest_obs\<close>/\<open>fill_col\<close>
  recurse downwards to the range start with the measure \<open>nat (d - lo + 1)\<close>, so
  no fuel is needed.

  \<^bold>\<open>Not modelled.\<close> The following are not modelled:
  \<^item> the SQL read and the Flask server, which are I/O (the tables and the request
    arguments are the model's inputs);
  \<^item> the JSON and HTML serialisation of results (\<^verbatim>\<open>jsonify\<close>,
    \<^verbatim>\<open>to_json\<close>, \<^verbatim>\<open>to_html\<close>): answers are records whose fields are the
    values and strings the code puts in them;
  \<^item> \<^verbatim>\<open>dateutil\<close>'s general date parser: concrete requests use the
    \<^verbatim>\<open>YYYY-MM-DD\<close> reader. The theorems about requests hold for any parser
    \<open>parse\<close>, except those that read printed dates back (C28 and
    \<open>query_route_data_sorted\<close>), which use the reader;
  \<^item> percent-decoding of query strings (\<open>url_args\<close> is only used on the home page's
    examples, which contain none).

  The statements span components where the code composes them: routes over the
  validator, filler and statistics (C18--C22); the directory against the records'
  date bounds (C25). This theory holds the composition of the directory with the
  query routes (C28). A client that queries the
  range the directory advertises for a station gets statistics over the station's
  whole span. The exception is a station observed on a single day: its advertised
  range is refused, because an explicit \<^verbatim>\<open>to_date\<close> must lie after
  \<^verbatim>\<open>from_date\<close>.
\<close>


text \<open>
  C28. The station directory and the query routes agree. On a well-formed dataset read
  with the \<^verbatim>\<open>YYYY-MM-DD\<close> reader, take any row the \<^verbatim>\<open>stations\<close> route prints.
  Query its station with \<^verbatim>\<open>from_date\<close> and \<^verbatim>\<open>to_date\<close> set to the row's
  printed \<^verbatim>\<open>start_date\<close> and \<^verbatim>\<open>end_date\<close>. If the station was observed on
  more than one day, the statistics query is accepted and covers the station's whole
  span. If it was observed on a single day, the advertised range is refused with the
  to-date-after-from-date error.
\<close>

theorem directory_range_query:
  assumes mc: "make_connection parse_iso rms rss = Inr (ms, sts)" and wf: "wf_dataset ms sts"
    and codes: "[] \<notin> set (map s_station sts)"
    and dir: "stations parse_iso q rms rss = DirJson rows" and r: "r \<in> set rows"
  shows "\<exists>a b. parse_iso (r_start_date r) = Some a \<and> parse_iso (r_end_date r) = Some b \<and> a \<le> b
      \<and> (if a = b then
           query_route parse_iso parse_iso c [(''qtype'', ''stats''), (''station'', r_station r),
              (''from_date'', r_start_date r), (''to_date'', r_end_date r)] rms rss
             = ErrorPage (ToDateNotAfterFrom (r_start_date r) (r_end_date r))
         else (\<exists>st. query_route parse_iso parse_iso c [(''qtype'', ''stats''), (''station'', r_station r),
              (''from_date'', r_start_date r), (''to_date'', r_end_date r)] rms rss = StatsJson st
           \<and> st_station st = r_station r \<and> st_from st = r_start_date r \<and> st_to st = r_end_date r
           \<and> days_in_range st = nat (b - a + 1)))"
proof -
  from stations_row_bounds [OF dir r] mc obtain a b where
    s: "r_station r \<in> set (map s_station sts)" and
    mm: "min_date ms (r_station r) = Some a" "max_date ms (r_station r) = Some b" and
    ab: "1 \<le> a" "a \<le> b" "b \<le> 3652059" and
    fm: "r_start_date r = fmt_date a" "r_end_date r = fmt_date b"
    by auto
  have p: "parse_iso (r_start_date r) = Some a" "parse_iso (r_end_date r) = Some b"
    using fm ab parse_iso_fmt_date by simp_all
  have sne: "r_station r \<noteq> []" using s codes by auto
  note vq = valid_query_explicit_range [of "''stats''", OF _ s sne mm ab(2) p, simplified]
  show ?thesis
  proof (cases "a = b")
    case True
    with vq mc show ?thesis using p ab
      by (simp add: query_route_def answer_query_def)
  next
    case False
    let ?rows = "map (\<lambda>d. to_filt_row (d, latest_obs (station_rows ms (r_station r)) a d)) [a..b]"
    have fd: "filter_df ms (r_station r) (Some a) (Some b) = Inr ?rows"
      by (rule filter_df_days [OF wf_station_dates [OF wf]])
    have ne: "?rows \<noteq> []" using ab by simp
    obtain st where gs: "get_stats ms c (r_station r) (Some a) (Some b) = Inr st"
      using fd ne by (simp add: get_stats_def Let_def)
    from get_stats_Inr [OF gs] fd have "st_station st = r_station r" "st_from st = fmt_date a"
      "st_to st = fmt_date b" "days_in_range st = nat (b - a + 1)"
      by auto
    with False vq mc gs p ab fm show ?thesis
      by (simp add: query_route_def answer_query_def)
  qed
qed

theorem directory_range_query_witness:
  "\<exists>rows. stations parse_iso [(''mode'', ''json'')] ex_raw_measurements3 ex_raw_stations2 = DirJson rows
     \<and> length rows = 2
     \<and> query_route parse_iso parse_iso Prec [(''qtype'', ''stats''), (''station'', r_station (rows ! 0)),
          (''from_date'', r_start_date (rows ! 0)), (''to_date'', r_end_date (rows ! 0))]
          ex_raw_measurements3 ex_raw_stations2
        = ErrorPage (ToDateNotAfterFrom (r_start_date (rows ! 0)) (r_end_date (rows ! 0)))
     \<and> (\<exists>st. query_route parse_iso parse_iso Prec [(''qtype'', ''stats''), (''station'', r_station (rows ! 1)),
          (''from_date'', r_start_date (rows ! 1)), (''to_date'', r_end_date (rows ! 1))]
          ex_raw_measurements3 ex_raw_stations2 = StatsJson st \<and> days_in_range st = 3)"
proof -
  let ?rows = "map render_entry (build_directory ex_measurements3 ex_stations2)"
  have st: "stations parse_iso [(''mode'', ''json'')] ex_raw_measurements3 ex_raw_stations2 = DirJson ?rows"
    by (simp add: stations_def ex_connection3)
  have wf: "wf_dataset ex_measurements3 ex_stations2"
    by (simp add: wf_dataset_def ex_measurements3_def ex_measurements_def ex_stations2_def ex_stations_def)
  have codes: "[] \<notin> set (map s_station ex_stations2)" by (simp add: ex_stations2_def ex_stations_def)
  have r0: "?rows ! 0 \<in> set ?rows" and r1: "?rows ! 1 \<in> set ?rows" by (simp_all add: ex_directory3)
  have d0: "r_start_date (?rows ! 0) = fmt_date 734504" "r_end_date (?rows ! 0) = fmt_date 734504"
    and d1: "r_start_date (?rows ! 1) = fmt_date 734503" "r_end_date (?rows ! 1) = fmt_date 734505"
    by (simp_all add: ex_directory3 render_entry_def)
  have p: "parse_iso (fmt_date 734503) = Some 734503" "parse_iso (fmt_date 734504) = Some 734504"
    "parse_iso (fmt_date 734505) = Some 734505" by (simp_all add: parse_iso_fmt_date)
  note q0 = directory_range_query [OF ex_connection3 wf codes st r0, of Prec]
  note q1 = directory_range_query [OF ex_connection3 wf codes st r1, of Prec]
  from q0 d0 p have e0: "query_route parse_iso parse_iso Prec [(''qtype'', ''stats''), (''station'', r_station (?rows ! 0)),
          (''from_date'', r_start_date (?rows ! 0)), (''to_date'', r_end_date (?rows ! 0))]
          ex_raw_measurements3 ex_raw_stations2
        = ErrorPage (ToDateNotAfterFrom (r_start_date (?rows ! 0)) (r_end_date (?rows ! 0)))"
    by auto
  from q1 d1 p have e1: "\<exists>st. query_route parse_iso parse_iso Prec [(''qtype'', ''stats''), (''station'', r_station (?rows ! 1)),
          (''from_date'', r_start_date (?rows ! 1)), (''to_date'', r_end_date (?rows ! 1))]
          ex_raw_measurements3 ex_raw_stations2 = StatsJson st \<and> days_in_range st = 3"
    by auto
  from st e0 e1 show ?thesis by (intro exI [of _ ?rows]) (simp add: ex_directory3)
qed

end
